theory Spec2Isabelle
  imports Complex_Main "HOL-Library.Sublist"
begin

section \<open>Tetrahedral mesh construction (Source/Urho3D/Math/TetrahedralMesh.cpp)\<close>

text \<open>
  The embedding follows the functions of \<^verbatim>\<open>TetrahedralMesh.cpp\<close> one by one.
  Cell and vertex indices (\<^verbatim>\<open>unsigned\<close>) are natural numbers; where the source
  adds or subtracts indices the 32-bit wrap-around is written out. Coordinates
  (\<^verbatim>\<open>float\<close> and \<^verbatim>\<open>double\<close>) are real numbers, so every arithmetic
  statement below is a statement about the formulas of the source evaluated exactly.
  Isabelle names cannot end in an underscore, so the members \<^verbatim>\<open>indices_\<close>,
  \<^verbatim>\<open>neighbors_\<close>, \<^verbatim>\<open>vertices_\<close>, ... are written without it, the components
  \<^verbatim>\<open>x_\<close>, \<^verbatim>\<open>y_\<close>, \<^verbatim>\<open>z_\<close> of a vector are \<open>vx\<close>, \<open>vy\<close>, \<open>vz\<close>, and the
  corners \<^verbatim>\<open>min_\<close>, \<^verbatim>\<open>max_\<close> of a box are \<open>box_min\<close>, \<open>box_max\<close>.
  \<^verbatim>\<open>assert\<close> is compiled out (the release build): after an \<^verbatim>\<open>assert(0)\<close> the
  function goes on with the statement that follows it in the source.
\<close>

subsection \<open>Data\<close>

datatype Vector3 = Vector3 (vx: real) (vy: real) (vz: real)

definition vadd :: "Vector3 \<Rightarrow> Vector3 \<Rightarrow> Vector3" where
  "vadd a b = Vector3 (vx a + vx b) (vy a + vy b) (vz a + vz b)"

definition vsub :: "Vector3 \<Rightarrow> Vector3 \<Rightarrow> Vector3" where
  "vsub a b = Vector3 (vx a - vx b) (vy a - vy b) (vz a - vz b)"

definition vmul :: "Vector3 \<Rightarrow> Vector3 \<Rightarrow> Vector3" where
  \<comment> \<open>\<^verbatim>\<open>Vector3 * Vector3\<close>: the product of the components\<close>
  "vmul a b = Vector3 (vx a * vx b) (vy a * vy b) (vz a * vz b)"

definition vscale :: "Vector3 \<Rightarrow> real \<Rightarrow> Vector3" where
  "vscale a k = Vector3 (vx a * k) (vy a * k) (vz a * k)"

definition DotProduct :: "Vector3 \<Rightarrow> Vector3 \<Rightarrow> real" where
  "DotProduct a b = vx a * vx b + vy a * vy b + vz a * vz b"

definition CrossProduct :: "Vector3 \<Rightarrow> Vector3 \<Rightarrow> Vector3" where
  "CrossProduct a b =
     Vector3 (vy a * vz b - vz a * vy b) (vz a * vx b - vx a * vz b) (vx a * vy b - vy a * vx b)"

definition LengthSquared :: "Vector3 \<Rightarrow> real" where
  "LengthSquared a = vx a * vx a + vy a * vy a + vz a * vz a"

definition ZERO :: Vector3 where
  "ZERO = Vector3 0 0 0"

text \<open>\<^verbatim>\<open>M_MAX_UNSIGNED\<close>, the "no neighbour" sentinel: the largest 32-bit unsigned value.\<close>

definition M_MAX_UNSIGNED :: nat where
  "M_MAX_UNSIGNED = 4294967295"

text \<open>
  Modelled from the spec: the declaration of \<^verbatim>\<open>Tetrahedron\<close> (TetrahedralMesh.h) is not
  among the sources. The spec gives it two reserved sentinel indices, \<^verbatim>\<open>Infinity2\<close> and
  \<^verbatim>\<open>Infinity3\<close>, for the corner at infinity of an outer cell; the source only needs them
  to be two different values that are no vertex index.
\<close>

definition Infinity3 :: nat where
  "Infinity3 = 4294967295"

definition Infinity2 :: nat where
  "Infinity2 = 4294967294"

text \<open>A 3x4 matrix, row by row; the fourth column is the translation.\<close>

datatype Matrix3x4 = Matrix3x4
  (m00: real) (m01: real) (m02: real) (m03: real)
  (m10: real) (m11: real) (m12: real) (m13: real)
  (m20: real) (m21: real) (m22: real) (m23: real)

text \<open>
  A tetrahedron: four vertex indices, four neighbour indices (slot \<open>i\<close> is the neighbour
  across the face opposite vertex \<open>i\<close>) and its matrix. The two arrays are lists of
  length four.
\<close>

record Tetrahedron =
  indices :: "nat list"
  neighbors :: "nat list"
  matrix :: Matrix3x4

record BoundingBox =
  box_min :: Vector3
  box_max :: Vector3

definition Size :: "BoundingBox \<Rightarrow> Vector3" where
  "Size b = vsub (box_max b) (box_min b)"

text \<open>
  Modelled from the spec: \<^verbatim>\<open>Tetrahedron::HasNeighbor\<close> is declared in TetrahedralMesh.h,
  which is not among the sources. The spec's adjacency invariant reads "\<open>N\<close>'s neighbor
  list contains \<open>T\<close>".
\<close>

definition HasNeighbor :: "Tetrahedron \<Rightarrow> nat \<Rightarrow> bool" where
  "HasNeighbor t neighborIndex = (neighborIndex \<in> set (neighbors t))"

record TetrahedralMesh =
  vertices :: "Vector3 list"
  tetrahedrons :: "Tetrahedron list"
  hullNormals :: "Vector3 list"
  numInnerTetrahedrons :: nat
  ignoredVertices :: "nat list"
  debugHighlightEdges :: "(nat \<times> nat) list"

text \<open>
  Modelled from the spec: the declarations of \<^verbatim>\<open>TetrahedralMeshSurfaceTriangle\<close> and
  \<^verbatim>\<open>TetrahedralMeshSurface\<close> (TetrahedralMesh.h) are not among the sources. The spec: "a
  triangle's three vertex indices plus, per edge, the index of the adjacent boundary triangle
  sharing that edge, plus a back-reference to the tetrahedron/face it bounds (or a sentinel
  for hull faces created ad hoc during hole carving)". The members \<^verbatim>\<open>indices_\<close>,
  \<^verbatim>\<open>neighbors_\<close>, \<^verbatim>\<open>tetIndex_\<close> and \<^verbatim>\<open>tetFace_\<close> are the ones the source file reads
  and writes; they are prefixed with \<open>face\<close> here, since a record field cannot share its
  name with one of \<open>Tetrahedron\<close> or with a variable. \<open>unusedIndex\<close> is the cell's corner
  that is not on the face, which orienting a face needs.
\<close>

record TetrahedralMeshSurfaceTriangle =
  face_indices :: "nat list"
  face_neighbors :: "nat list"
  unusedIndex :: nat
  face_tetIndex :: nat
  face_tetFace :: nat

record TetrahedralMeshSurface =
  faces :: "TetrahedralMeshSurfaceTriangle list"

definition Clear :: "TetrahedralMeshSurface \<Rightarrow> TetrahedralMeshSurface" where
  "Clear s = s\<lparr>faces := []\<rparr>"

definition Size_surface :: "TetrahedralMeshSurface \<Rightarrow> nat" where
  \<comment> \<open>\<^verbatim>\<open>TetrahedralMeshSurface::Size\<close>\<close>
  "Size_surface s = length (faces s)"

record HighPrecisionSphere =
  center :: Vector3
  radius :: real

text \<open>
  The construction context of \<^verbatim>\<open>BuildTetrahedrons\<close>: per cell its cached circumsphere
  and its removed flag, and the scratch buffer of hole triangles.
\<close>

record DelaunayContext =
  circumspheres :: "HighPrecisionSphere list"
  removed :: "bool list"
  holeTriangles :: "TetrahedralMeshSurfaceTriangle list"

subsection \<open>Members of the absent header\<close>

text \<open>
  Modelled from the spec: \<^verbatim>\<open>Tetrahedron::GetNeighborFaceIndex\<close> is declared in
  TetrahedralMesh.h, which is not among the sources. It is the slot of a cell whose
  neighbour is the given cell ("index \<open>i\<close> is the neighbor across the face opposite vertex
  \<open>i\<close>"): the first such slot, and 4 when there is none (the source asserts
  \<^verbatim>\<open>neighborFaceIndex < 4\<close> after one of its calls).
\<close>

definition GetNeighborFaceIndex :: "Tetrahedron \<Rightarrow> nat \<Rightarrow> nat" where
  "GetNeighborFaceIndex t neighborTetIndex =
     length (takeWhile (\<lambda>n. n \<noteq> neighborTetIndex) (neighbors t))"

text \<open>
  Modelled from the spec: \<^verbatim>\<open>Tetrahedron::GetTriangleFace\<close> is declared in
  TetrahedralMesh.h, which is not among the sources. The face opposite slot \<open>faceIndex\<close>
  as a boundary triangle: the cell's three other vertex indices in their order, no adjacent
  triangle yet, and the back-reference given by the caller.
\<close>

definition GetTriangleFace :: "Tetrahedron \<Rightarrow> nat \<Rightarrow> nat \<Rightarrow> nat \<Rightarrow> TetrahedralMeshSurfaceTriangle" where
  "GetTriangleFace t faceIndex tetIndex tetFace =
     \<lparr>face_indices = map (\<lambda>j. indices t ! j) (filter (\<lambda>j. j \<noteq> faceIndex) [0..<4]),
      face_neighbors = [M_MAX_UNSIGNED, M_MAX_UNSIGNED, M_MAX_UNSIGNED],
      unusedIndex = indices t ! faceIndex,
      face_tetIndex = tetIndex, face_tetFace = tetFace\<rparr>"

text \<open>
  Modelled from the spec: \<^verbatim>\<open>TetrahedralMeshSurface::AddFace\<close> and
  \<^verbatim>\<open>TetrahedralMeshSurface::IsClosedSurface\<close> are declared in TetrahedralMesh.h, which is
  not among the sources. The spec: a surface is "an unordered, mutually-linked set of
  triangular faces", a triangle holds "per edge, the index of the adjacent boundary triangle
  sharing that edge", and "a surface is closed iff every edge has exactly one matching edge
  in the surface, i.e. no boundary edges of its own". Edge \<open>e\<close> of a triangle is the one
  opposite its corner \<open>e\<close> (\<^verbatim>\<open>FillStarShapedHole\<close> takes neighbour \<open>j\<close> of a triangle for
  the cell across the face opposite corner \<open>j\<close>). \<open>AddFace\<close> links the new face with
  every face of the surface that shares an edge with it, and fails, leaving the surface as
  it was, when one of the two edges is linked already: the edge would get a second matching
  edge. \<open>IsClosedSurface\<close> holds when every edge of every face is linked.
\<close>

definition GetEdge :: "TetrahedralMeshSurfaceTriangle \<Rightarrow> nat \<Rightarrow> nat \<times> nat" where
  "GetEdge face edgeIndex =
    (let a = face_indices face ! ((edgeIndex + 1) mod 3);
         b = face_indices face ! ((edgeIndex + 2) mod 3)
     in (min a b, max a b))"

definition setFaceNeighbor :: "TetrahedralMeshSurfaceTriangle \<Rightarrow> nat \<Rightarrow> nat \<Rightarrow> TetrahedralMeshSurfaceTriangle" where
  "setFaceNeighbor face edgeIndex n = face\<lparr>face_neighbors := (face_neighbors face)[edgeIndex := n]\<rparr>"

definition linkEdges ::
  "nat \<Rightarrow> nat \<times> nat \<times> nat \<Rightarrow>
     (TetrahedralMeshSurfaceTriangle list \<times> TetrahedralMeshSurfaceTriangle) option \<Rightarrow>
     (TetrahedralMeshSurfaceTriangle list \<times> TetrahedralMeshSurfaceTriangle) option" where
  "linkEdges newFaceIndex e st =
    (case (e, st) of
       (_, None) \<Rightarrow> None
     | ((oldFaceIndex, oldEdgeIndex, newEdgeIndex), Some (fs, newFace)) \<Rightarrow>
         if GetEdge (fs ! oldFaceIndex) oldEdgeIndex = GetEdge newFace newEdgeIndex then
           if face_neighbors (fs ! oldFaceIndex) ! oldEdgeIndex \<noteq> M_MAX_UNSIGNED
              \<or> face_neighbors newFace ! newEdgeIndex \<noteq> M_MAX_UNSIGNED
           then None
           else Some (fs[oldFaceIndex := setFaceNeighbor (fs ! oldFaceIndex) oldEdgeIndex newFaceIndex],
                      setFaceNeighbor newFace newEdgeIndex oldFaceIndex)
         else Some (fs, newFace))"

definition edgePairs :: "nat \<Rightarrow> (nat \<times> nat \<times> nat) list" where
  "edgePairs n =
     concat (map (\<lambda>oldFaceIndex.
       concat (map (\<lambda>oldEdgeIndex.
         map (\<lambda>newEdgeIndex. (oldFaceIndex, oldEdgeIndex, newEdgeIndex)) [0..<3]) [0..<3])) [0..<n])"

definition AddFace :: "TetrahedralMeshSurface \<Rightarrow> TetrahedralMeshSurfaceTriangle \<Rightarrow> bool \<times> TetrahedralMeshSurface" where
  "AddFace s newFace =
    (case fold (linkEdges (length (faces s))) (edgePairs (length (faces s))) (Some (faces s, newFace)) of
       None \<Rightarrow> (False, s)
     | Some (fs, newFace') \<Rightarrow> (True, s\<lparr>faces := fs @ [newFace']\<rparr>))"

definition IsClosedSurface :: "TetrahedralMeshSurface \<Rightarrow> bool" where
  "IsClosedSurface s =
     list_all (\<lambda>face. list_all (\<lambda>e. face_neighbors face ! e \<noteq> M_MAX_UNSIGNED) [0..<3]) (faces s)"

subsection \<open>GetTetrahedronCircumsphere\<close>

text \<open>
  \<^verbatim>\<open>HighPrecisionVector3\<close> and \<^verbatim>\<open>HighPrecisionSphere\<close> hold \<^verbatim>\<open>double\<close>s; over the reals
  the conversion from \<^verbatim>\<open>Vector3\<close> is the identity. The constants \<^verbatim>\<open>M_EPSILON\<close> and
  \<^verbatim>\<open>M_LARGE_VALUE\<close> come from a header that is not among the sources and are parameters.
  The function also writes a warning to the log; the model returns the lines it logs
  together with the sphere.
\<close>

definition min_element :: "real list \<Rightarrow> real" where
  "min_element xs = fold min (tl xs) (hd xs)"

definition corner :: "Vector3 list \<Rightarrow> Tetrahedron \<Rightarrow> nat \<Rightarrow> Vector3" where
  \<comment> \<open>\<^verbatim>\<open>vertices_[tetrahedron.indices_[i]]\<close>\<close>
  "corner vs tetrahedron i = vs ! (indices tetrahedron ! i)"

definition radiusNum :: "Vector3 list \<Rightarrow> Tetrahedron \<Rightarrow> Vector3" where
  "radiusNum vs tetrahedron =
    (let p0 = corner vs tetrahedron 0; p1 = corner vs tetrahedron 1;
         p2 = corner vs tetrahedron 2; p3 = corner vs tetrahedron 3;
         u1 = vsub p1 p0; u2 = vsub p2 p0; u3 = vsub p3 p0;
         d01 = LengthSquared u1; d02 = LengthSquared u2; d03 = LengthSquared u3;
         u2u3 = CrossProduct u2 u3; u3u1 = CrossProduct u3 u1; u1u2 = CrossProduct u1 u2
     in vadd (vadd (vscale u2u3 d01) (vscale u3u1 d02)) (vscale u1u2 d03))"

definition radiusDen :: "Vector3 list \<Rightarrow> Tetrahedron \<Rightarrow> real" where
  "radiusDen vs tetrahedron =
    (let p0 = corner vs tetrahedron 0; p1 = corner vs tetrahedron 1;
         p2 = corner vs tetrahedron 2; p3 = corner vs tetrahedron 3;
         u1 = vsub p1 p0; u2 = vsub p2 p0; u3 = vsub p3 p0;
         u2u3 = CrossProduct u2 u3
     in 2 * DotProduct u1 u2u3)"

definition circumcenter :: "Vector3 list \<Rightarrow> Tetrahedron \<Rightarrow> Vector3" where
  \<comment> \<open>\<^verbatim>\<open>p0 + radiusNum * (1.0 / radiusDen)\<close>\<close>
  "circumcenter vs tetrahedron =
     vadd (corner vs tetrahedron 0) (vscale (radiusNum vs tetrahedron) (1 / radiusDen vs tetrahedron))"

definition GetTetrahedronCircumsphere ::
  "real \<Rightarrow> real \<Rightarrow> Vector3 list \<Rightarrow> Tetrahedron \<Rightarrow> string list \<times> HighPrecisionSphere" where
  "GetTetrahedronCircumsphere M_EPSILON M_LARGE_VALUE vs tetrahedron =
    (if \<bar>radiusDen vs tetrahedron\<bar> < M_EPSILON * M_EPSILON
     then ([''Degenerate tetrahedron in tetrahedral mesh due to error in tetrahedral mesh generation''],
           \<lparr>center = ZERO, radius = M_LARGE_VALUE * M_LARGE_VALUE\<rparr>)
     else
       let c = circumcenter vs tetrahedron;
           squaredDistances =
             [LengthSquared (vsub (corner vs tetrahedron 0) c),
              LengthSquared (vsub (corner vs tetrahedron 1) c),
              LengthSquared (vsub (corner vs tetrahedron 2) c),
              LengthSquared (vsub (corner vs tetrahedron 3) c)];
           radiusSquared = min_element squaredDistances
       in ([], \<lparr>center = c, radius = sqrt radiusSquared\<rparr>))"

text \<open>The distance of a point from another, as \<^verbatim>\<open>(p - c).Length()\<close>.\<close>

definition distance :: "Vector3 \<Rightarrow> Vector3 \<Rightarrow> real" where
  "distance p c = sqrt (LengthSquared (vsub p c))"

subsection \<open>InitializeSuperMesh\<close>

definition NumSuperMeshVertices :: nat where
  "NumSuperMeshVertices = 8"

definition offsets :: "Vector3 list" where
  "offsets =
    [Vector3 0 0 0, Vector3 1 0 0, Vector3 0 1 0, Vector3 1 1 0,
     Vector3 0 0 1, Vector3 1 0 1, Vector3 0 1 1, Vector3 1 1 1]"

definition numTetrahedrons :: nat where
  "numTetrahedrons = 5"

definition superIndices :: "nat list list" where
  \<comment> \<open>the table \<^verbatim>\<open>indices\<close> of \<^verbatim>\<open>InitializeSuperMesh\<close>\<close>
  "superIndices = [[0, 1, 2, 4], [3, 1, 2, 7], [5, 1, 4, 7], [6, 2, 4, 7], [1, 2, 4, 7]]"

definition superNeighbors :: "nat list list" where
  \<comment> \<open>the table \<^verbatim>\<open>neighbors\<close> of \<^verbatim>\<open>InitializeSuperMesh\<close>\<close>
  "superNeighbors =
    [[4, M_MAX_UNSIGNED, M_MAX_UNSIGNED, M_MAX_UNSIGNED],
     [4, M_MAX_UNSIGNED, M_MAX_UNSIGNED, M_MAX_UNSIGNED],
     [4, M_MAX_UNSIGNED, M_MAX_UNSIGNED, M_MAX_UNSIGNED],
     [4, M_MAX_UNSIGNED, M_MAX_UNSIGNED, M_MAX_UNSIGNED],
     [3, 2, 1, 0]]"

definition zeroMatrix :: Matrix3x4 where
  "zeroMatrix = Matrix3x4 0 0 0 0 0 0 0 0 0 0 0 0"

text \<open>
  The mesh. \<^verbatim>\<open>InitializeSuperMesh\<close> resizes the two vectors and overwrites every
  element, so the result does not depend on what the vectors held before. Each cell starts
  as a default-constructed \<^verbatim>\<open>Tetrahedron\<close> whose two arrays are then overwritten entry by
  entry (a list of length four, built from the four new entries); its matrix stays the
  default one. The declaration of \<^verbatim>\<open>Tetrahedron\<close> is not among the sources, so the
  default-constructed cell is a parameter (\<open>fresh\<close>).
\<close>

definition superVertices :: "BoundingBox \<Rightarrow> Vector3 list" where
  "superVertices boundingBox =
     map (\<lambda>i. vadd (box_min boundingBox) (vmul (Size boundingBox) (offsets ! i)))
       [0..<NumSuperMeshVertices]"

definition superTetrahedrons :: "Tetrahedron \<Rightarrow> Tetrahedron list" where
  "superTetrahedrons fresh =
     map (\<lambda>i. fresh\<lparr>indices := map (\<lambda>j. superIndices ! i ! j) [0..<4],
                     neighbors := map (\<lambda>j. superNeighbors ! i ! j) [0..<4]\<rparr>)
       [0..<numTetrahedrons]"

definition InitializeSuperMesh :: "Tetrahedron \<Rightarrow> TetrahedralMesh \<Rightarrow> BoundingBox \<Rightarrow> TetrahedralMesh" where
  "InitializeSuperMesh fresh mesh boundingBox =
     mesh\<lparr>vertices := superVertices boundingBox, tetrahedrons := superTetrahedrons fresh\<rparr>"

subsection \<open>IsAdjacencyValid\<close>

text \<open>
  The two nested loops return \<^verbatim>\<open>false\<close> at the first slot that fails, and \<^verbatim>\<open>true\<close> when
  none does: the conjunction over all cells and all four slots.
\<close>

definition slotValid :: "Tetrahedron list \<Rightarrow> bool \<Rightarrow> nat \<Rightarrow> nat \<Rightarrow> bool" where
  "slotValid ts fullyConnected tetIndex faceIndex =
     (let neighborIndex = neighbors (ts ! tetIndex) ! faceIndex in
      if neighborIndex \<noteq> M_MAX_UNSIGNED then HasNeighbor (ts ! neighborIndex) tetIndex
      else \<not> fullyConnected)"

definition IsAdjacencyValid :: "Tetrahedron list \<Rightarrow> bool \<Rightarrow> bool" where
  "IsAdjacencyValid ts fullyConnected =
     list_all (\<lambda>tetIndex. list_all (slotValid ts fullyConnected tetIndex) [0..<4])
       [0..<length ts]"

text \<open>The face of a cell opposite its slot \<open>i\<close>: the set of its three other vertex indices.\<close>

definition faceVertices :: "Tetrahedron \<Rightarrow> nat \<Rightarrow> nat set" where
  "faceVertices t faceIndex = set (map (\<lambda>j. indices t ! j) (filter (\<lambda>j. j \<noteq> faceIndex) [0..<4]))"


subsection \<open>FindAndRemoveIntersected\<close>

text \<open>
  \<^verbatim>\<open>DelaunayContext::IsInsideCircumsphere\<close> and
  \<^verbatim>\<open>TetrahedralMeshSurfaceTriangle::Normalize\<close> are declared in TetrahedralMesh.h and the
  constant \<^verbatim>\<open>M_LARGE_EPSILON\<close> in MathDefs.h; neither header is among the sources, and the
  spec does not give their arithmetic. They are parameters of the model: \<open>IsInside\<close> takes
  the context, the cell index and the position, \<open>Normalize\<close> the vertices and the triangle.
  Lines written to the log are not modelled in this function.
\<close>

text \<open>The first loop: the first cell that is not removed and whose circumsphere holds the position.\<close>

definition findFirst ::
  "(DelaunayContext \<Rightarrow> nat \<Rightarrow> Vector3 \<Rightarrow> bool) \<Rightarrow> Tetrahedron list \<Rightarrow> DelaunayContext \<Rightarrow> Vector3 \<Rightarrow> nat option" where
  "findFirst IsInside ts ctx position =
     find (\<lambda>tetIndex. \<not> removed ctx ! tetIndex \<and> IsInside ctx tetIndex position) [0..<length ts]"

text \<open>
  The breadth-first search. \<open>processNeighbor\<close> is the body of the loop over the four faces of
  one cell; \<open>collectBad\<close> is the loop over the growing vector \<^verbatim>\<open>removedTetrahedrons\<close>
  (\<open>None\<close>: the loop does not end).
\<close>

definition processNeighbor ::
  "(DelaunayContext \<Rightarrow> nat \<Rightarrow> Vector3 \<Rightarrow> bool) \<Rightarrow> Vector3 \<Rightarrow> Tetrahedron \<Rightarrow> nat \<Rightarrow>
     nat list \<times> DelaunayContext \<Rightarrow> nat list \<times> DelaunayContext" where
  "processNeighbor IsInside position tetrahedron faceIndex st =
    (case st of (removedTetrahedrons, ctx) \<Rightarrow>
      let neighborTetIndex = neighbors tetrahedron ! faceIndex in
      if neighborTetIndex = M_MAX_UNSIGNED then st
      else if removed ctx ! neighborTetIndex then st
      else if IsInside ctx neighborTetIndex position
        then (removedTetrahedrons @ [neighborTetIndex],
              ctx\<lparr>removed := (removed ctx)[neighborTetIndex := True]\<rparr>)
        else st)"

partial_function (option) collectBad ::
  "(DelaunayContext \<Rightarrow> nat \<Rightarrow> Vector3 \<Rightarrow> bool) \<Rightarrow> Vector3 \<Rightarrow> Tetrahedron list \<Rightarrow> nat \<Rightarrow>
     nat list \<times> DelaunayContext \<Rightarrow> (nat list \<times> DelaunayContext) option" where
  "collectBad IsInside position ts i st =
    (if i < length (fst st)
     then collectBad IsInside position ts (Suc i)
            (fold (processNeighbor IsInside position (ts ! (fst st ! i))) [0..<4] st)
     else Some st)"

text \<open>The triangles of the hole surface, cell by cell and face by face.\<close>

definition holeTrianglesOf :: "Tetrahedron list \<Rightarrow> DelaunayContext \<Rightarrow> nat \<Rightarrow> nat \<Rightarrow> TetrahedralMeshSurfaceTriangle list" where
  "holeTrianglesOf ts ctx tetIndex faceIndex =
    (let neighborTetIndex = neighbors (ts ! tetIndex) ! faceIndex in
     if neighborTetIndex = M_MAX_UNSIGNED
       then [GetTriangleFace (ts ! tetIndex) faceIndex M_MAX_UNSIGNED M_MAX_UNSIGNED]
     else if \<not> removed ctx ! neighborTetIndex
       then (let neighborTetrahedron = ts ! neighborTetIndex;
                 neighborFaceIndex = GetNeighborFaceIndex neighborTetrahedron tetIndex
             in [GetTriangleFace neighborTetrahedron neighborFaceIndex neighborTetIndex neighborFaceIndex])
     else [])"

definition collectHoleTriangles :: "Tetrahedron list \<Rightarrow> DelaunayContext \<Rightarrow> nat list \<Rightarrow> TetrahedralMeshSurfaceTriangle list" where
  "collectHoleTriangles ts ctx removedTetrahedrons =
     concat (map (\<lambda>tetIndex. concat (map (holeTrianglesOf ts ctx tetIndex) [0..<4])) removedTetrahedrons)"

text \<open>
  The orientation check. The loop normalises the triangles in place and stops at the first
  one that fails, so the triangles after it stay as they were. The result is the flag
  \<^verbatim>\<open>valid\<close> and the triangles.
\<close>

definition faceDistance :: "Vector3 list \<Rightarrow> Vector3 \<Rightarrow> TetrahedralMeshSurfaceTriangle \<Rightarrow> real" where
  "faceDistance vs p0 triangle =
    (let p1 = vs ! (face_indices triangle ! 0);
         p2 = vs ! (face_indices triangle ! 1);
         p3 = vs ! (face_indices triangle ! 2);
         normal = CrossProduct (vsub p2 p1) (vsub p3 p1)
     in DotProduct (vsub p0 p1) normal)"

fun verifyTriangles ::
  "(Vector3 list \<Rightarrow> TetrahedralMeshSurfaceTriangle \<Rightarrow> TetrahedralMeshSurfaceTriangle) \<Rightarrow> real \<Rightarrow>
     Vector3 list \<Rightarrow> Vector3 \<Rightarrow> TetrahedralMeshSurfaceTriangle list \<Rightarrow>
     bool \<times> TetrahedralMeshSurfaceTriangle list" where
  "verifyTriangles Normalize M_LARGE_EPSILON vs p0 [] = (True, [])"
| "verifyTriangles Normalize M_LARGE_EPSILON vs p0 (triangle # rest) =
    (if face_tetIndex triangle = M_MAX_UNSIGNED
     then (case verifyTriangles Normalize M_LARGE_EPSILON vs p0 rest of
             (valid, rest') \<Rightarrow> (valid, triangle # rest'))
     else
       let triangle' = Normalize vs triangle in
       if faceDistance vs p0 triangle' < M_LARGE_EPSILON
       then (False, triangle' # rest)
       else (case verifyTriangles Normalize M_LARGE_EPSILON vs p0 rest of
               (valid, rest') \<Rightarrow> (valid, triangle' # rest')))"

text \<open>The three edges of every hole triangle, appended when \<^verbatim>\<open>dumpErrors\<close> is set.\<close>

definition dumpEdges :: "TetrahedralMeshSurfaceTriangle list \<Rightarrow> (nat \<times> nat) list" where
  "dumpEdges triangles =
     concat (map (\<lambda>triangle.
       let i0 = face_indices triangle ! 0; i1 = face_indices triangle ! 1; i2 = face_indices triangle ! 2
       in [(i0, i1), (i1, i2), (i2, i0)]) triangles)"

definition revertRemoved :: "nat list \<Rightarrow> bool list \<Rightarrow> bool list" where
  \<comment> \<open>\<^verbatim>\<open>for (unsigned tetIndex : removedTetrahedrons) ctx.removed_[tetIndex] = false;\<close>\<close>
  "revertRemoved removedTetrahedrons flags = fold (\<lambda>tetIndex fl. fl[tetIndex := False]) removedTetrahedrons flags"

text \<open>
  Building the hole surface: \<open>None\<close> when an \<^verbatim>\<open>AddFace\<close> fails (the loop returns at
  once), the surface with all the triangles otherwise.
\<close>

fun addFaces :: "TetrahedralMeshSurface \<Rightarrow> TetrahedralMeshSurfaceTriangle list \<Rightarrow> TetrahedralMeshSurface option" where
  "addFaces s [] = Some s"
| "addFaces s (triangle # rest) =
     (case AddFace s triangle of
        (False, _) \<Rightarrow> None
      | (True, s') \<Rightarrow> addFaces s' rest)"

text \<open>
  The function. Its result is the returned flag and the state it leaves: the mesh (only
  \<^verbatim>\<open>debugHighlightEdges_\<close> can change: the function is \<^verbatim>\<open>const\<close>), the context, the hole
  surface and the vector \<^verbatim>\<open>removedTetrahedrons\<close>. Both outputs are cleared first, so what
  they held before the call does not matter.
\<close>

definition FindAndRemoveIntersected ::
  "(DelaunayContext \<Rightarrow> nat \<Rightarrow> Vector3 \<Rightarrow> bool) \<Rightarrow>
   (Vector3 list \<Rightarrow> TetrahedralMeshSurfaceTriangle \<Rightarrow> TetrahedralMeshSurfaceTriangle) \<Rightarrow> real \<Rightarrow>
   TetrahedralMesh \<Rightarrow> DelaunayContext \<Rightarrow> Vector3 \<Rightarrow> bool \<Rightarrow>
   (bool \<times> TetrahedralMesh \<times> DelaunayContext \<times> TetrahedralMeshSurface \<times> nat list) option" where
  "FindAndRemoveIntersected IsInside Normalize M_LARGE_EPSILON mesh ctx position dumpErrors =
    (let holeSurface = \<lparr>faces = []\<rparr>; ts = tetrahedrons mesh in
     case findFirst IsInside ts ctx position of
       None \<Rightarrow> Some (False, mesh, ctx, holeSurface, [])
     | Some tetIndex \<Rightarrow>
        (case collectBad IsInside position ts 0
                ([tetIndex], ctx\<lparr>removed := (removed ctx)[tetIndex := True]\<rparr>) of
           None \<Rightarrow> None
         | Some (removedTetrahedrons, ctx1) \<Rightarrow>
            (case verifyTriangles Normalize M_LARGE_EPSILON (vertices mesh) position
                    (collectHoleTriangles ts ctx1 removedTetrahedrons) of
               (valid, triangles) \<Rightarrow>
                 let ctx2 = ctx1\<lparr>holeTriangles := triangles\<rparr> in
                 if \<not> valid \<or> dumpErrors then
                   Some (False,
                         (if dumpErrors
                          then mesh\<lparr>debugHighlightEdges := debugHighlightEdges mesh @ dumpEdges triangles\<rparr>
                          else mesh),
                         ctx2\<lparr>removed := revertRemoved removedTetrahedrons (removed ctx2)\<rparr>,
                         holeSurface, [])
                 else
                   (case addFaces holeSurface triangles of
                      None \<Rightarrow> Some (False, mesh, ctx2, \<lparr>faces = []\<rparr>, removedTetrahedrons)
                    | Some holeSurface' \<Rightarrow>
                        if \<not> IsClosedSurface holeSurface'
                        then Some (False, mesh, ctx2, Clear holeSurface', removedTetrahedrons)
                        else Some (True, mesh, ctx2, holeSurface', removedTetrahedrons)))))"

subsection \<open>DisconnectRemovedTetrahedrons\<close>

text \<open>
  One step of the inner loop. \<^verbatim>\<open>tetrahedron\<close> and \<^verbatim>\<open>neighborTetrahedron\<close> are
  references into the vector: the slot of the neighbour is looked up first, then the two
  writes happen in the order of the source.
\<close>

definition setNeighbor :: "Tetrahedron list \<Rightarrow> nat \<Rightarrow> nat \<Rightarrow> nat \<Rightarrow> Tetrahedron list" where
  \<comment> \<open>\<^verbatim>\<open>tetrahedrons_[tetIndex].neighbors_[faceIndex] = n\<close>\<close>
  "setNeighbor ts tetIndex faceIndex n =
     ts[tetIndex := (ts ! tetIndex)\<lparr>neighbors := (neighbors (ts ! tetIndex))[faceIndex := n]\<rparr>]"

definition disconnectFace :: "nat \<Rightarrow> nat \<Rightarrow> Tetrahedron list \<Rightarrow> Tetrahedron list" where
  "disconnectFace tetIndex faceIndex ts =
    (let neighborTetIndex = neighbors (ts ! tetIndex) ! faceIndex in
     if neighborTetIndex \<noteq> M_MAX_UNSIGNED then
       let neighborFaceIndex = GetNeighborFaceIndex (ts ! neighborTetIndex) tetIndex in
       setNeighbor (setNeighbor ts tetIndex faceIndex M_MAX_UNSIGNED)
         neighborTetIndex neighborFaceIndex M_MAX_UNSIGNED
     else ts)"

definition DisconnectRemovedTetrahedrons :: "Tetrahedron list \<Rightarrow> nat list \<Rightarrow> Tetrahedron list" where
  "DisconnectRemovedTetrahedrons ts removedTetrahedrons =
     fold (\<lambda>tetIndex ts'. fold (disconnectFace tetIndex) [0..<4] ts') removedTetrahedrons ts"

subsection \<open>The allocation loop of BuildTetrahedrons and FillStarShapedHole\<close>

text \<open>
  The state the two loops work on: the cells, the context and the vector
  \<^verbatim>\<open>removedTetrahedrons\<close>. \<open>fresh\<close> and \<open>freshSphere\<close> are a default-constructed
  \<^verbatim>\<open>Tetrahedron\<close> and \<^verbatim>\<open>HighPrecisionSphere\<close> (what \<^verbatim>\<open>push_back()\<close> appends); their
  declarations are not among the sources, so they are parameters.
\<close>

function allocateSpace ::
  "Tetrahedron \<Rightarrow> HighPrecisionSphere \<Rightarrow> nat \<Rightarrow> Tetrahedron list \<times> DelaunayContext \<times> nat list \<Rightarrow>
     Tetrahedron list \<times> DelaunayContext \<times> nat list" where
  "allocateSpace fresh freshSphere n (ts, ctx, removedTetrahedrons) =
    (if length removedTetrahedrons < n
     then allocateSpace fresh freshSphere n
            (ts @ [fresh],
             ctx\<lparr>circumspheres := circumspheres ctx @ [freshSphere], removed := removed ctx @ [True]\<rparr>,
             removedTetrahedrons @ [length ts])
     else (ts, ctx, removedTetrahedrons))"
  by pat_completeness auto
termination
  by (relation "measure (\<lambda>(fresh, freshSphere, n, ts, ctx, removedTetrahedrons). n - length removedTetrahedrons)")
     auto

declare allocateSpace.simps [simp del]

text \<open>
  One round of the loop of \<^verbatim>\<open>FillStarShapedHole\<close>. The two arrays of the new cell are
  overwritten entry by entry: the list of the four new entries. The circumsphere is computed
  from the cell as it stands in the vector after the three writes; the warning it may log is
  dropped here.
\<close>

definition fillCell ::
  "real \<Rightarrow> real \<Rightarrow> Vector3 list \<Rightarrow> nat list \<Rightarrow> TetrahedralMeshSurface \<Rightarrow> nat \<Rightarrow> nat \<Rightarrow>
     Tetrahedron list \<times> DelaunayContext \<Rightarrow> Tetrahedron list \<times> DelaunayContext" where
  "fillCell M_EPSILON M_LARGE_VALUE vs outputTetrahedrons holeSurface centerIndex i st =
    (case st of (ts, ctx) \<Rightarrow>
      let newTetIndex = outputTetrahedrons ! i;
          holeTriangle = faces holeSurface ! i;
          ts1 = ts[newTetIndex := (ts ! newTetIndex)
                 \<lparr>indices := [face_indices holeTriangle ! 0, face_indices holeTriangle ! 1,
                               face_indices holeTriangle ! 2, centerIndex],
                  neighbors := [outputTetrahedrons ! (face_neighbors holeTriangle ! 0),
                                outputTetrahedrons ! (face_neighbors holeTriangle ! 1),
                                outputTetrahedrons ! (face_neighbors holeTriangle ! 2),
                                face_tetIndex holeTriangle]\<rparr>];
          ts2 = (if face_tetIndex holeTriangle \<noteq> M_MAX_UNSIGNED
                 then setNeighbor ts1 (face_tetIndex holeTriangle) (face_tetFace holeTriangle) newTetIndex
                 else ts1)
      in (ts2,
          ctx\<lparr>removed := (removed ctx)[newTetIndex := False],
              circumspheres := (circumspheres ctx)[newTetIndex :=
                 snd (GetTetrahedronCircumsphere M_EPSILON M_LARGE_VALUE vs (ts2 ! newTetIndex))]\<rparr>))"

definition FillStarShapedHole ::
  "real \<Rightarrow> real \<Rightarrow> Vector3 list \<Rightarrow> Tetrahedron list \<times> DelaunayContext \<Rightarrow> nat list \<Rightarrow>
     TetrahedralMeshSurface \<Rightarrow> nat \<Rightarrow> Tetrahedron list \<times> DelaunayContext" where
  "FillStarShapedHole M_EPSILON M_LARGE_VALUE vs st outputTetrahedrons holeSurface centerIndex =
     fold (fillCell M_EPSILON M_LARGE_VALUE vs outputTetrahedrons holeSurface centerIndex)
       [0..<Size_surface holeSurface] st"

text \<open>
  Lines 205 to 218 of \<^verbatim>\<open>BuildTetrahedrons\<close>: what follows a successful carve. The cells
  are disconnected, space is allocated, the hole is filled.
\<close>

definition retriangulate ::
  "real \<Rightarrow> real \<Rightarrow> Tetrahedron \<Rightarrow> HighPrecisionSphere \<Rightarrow> Vector3 list \<Rightarrow>
     Tetrahedron list \<times> DelaunayContext \<Rightarrow> nat list \<Rightarrow> TetrahedralMeshSurface \<Rightarrow> nat \<Rightarrow>
     Tetrahedron list \<times> DelaunayContext" where
  "retriangulate M_EPSILON M_LARGE_VALUE fresh freshSphere vs st removedTetrahedrons holeSurface newVertexIndex =
    (case st of (ts, ctx) \<Rightarrow>
      case allocateSpace fresh freshSphere (Size_surface holeSurface)
             (DisconnectRemovedTetrahedrons ts removedTetrahedrons, ctx, removedTetrahedrons) of
        (ts', ctx', outputTetrahedrons) \<Rightarrow>
          FillStarShapedHole M_EPSILON M_LARGE_VALUE vs (ts', ctx') outputTetrahedrons holeSurface newVertexIndex)"

subsection \<open>The retry loop of BuildTetrahedrons\<close>

text \<open>
  The body of the loop over \<^verbatim>\<open>verticesQueue\<close> for one vertex: the carve, and when it
  succeeds the three stages that follow. The result tells whether the vertex was inserted
  (\<open>False\<close>: it is pushed onto \<^verbatim>\<open>postponedVertices\<close>); \<open>None\<close> when the search of the
  carve does not end.
\<close>

definition insertVertex ::
  "(DelaunayContext \<Rightarrow> nat \<Rightarrow> Vector3 \<Rightarrow> bool) \<Rightarrow>
   (Vector3 list \<Rightarrow> TetrahedralMeshSurfaceTriangle \<Rightarrow> TetrahedralMeshSurfaceTriangle) \<Rightarrow>
   real \<Rightarrow> real \<Rightarrow> real \<Rightarrow> Tetrahedron \<Rightarrow> HighPrecisionSphere \<Rightarrow>
   TetrahedralMesh \<times> DelaunayContext \<Rightarrow> nat \<Rightarrow> (bool \<times> TetrahedralMesh \<times> DelaunayContext) option" where
  "insertVertex IsInside Normalize M_LARGE_EPSILON M_EPSILON M_LARGE_VALUE fresh freshSphere st newVertexIndex =
    (case st of (mesh, ctx) \<Rightarrow>
      case FindAndRemoveIntersected IsInside Normalize M_LARGE_EPSILON mesh ctx
             (vertices mesh ! newVertexIndex) False of
        None \<Rightarrow> None
      | Some (carved, mesh', ctx', holeSurface, removedTetrahedrons) \<Rightarrow>
          if \<not> carved then Some (False, mesh', ctx')
          else
            (case retriangulate M_EPSILON M_LARGE_VALUE fresh freshSphere (vertices mesh')
                    (tetrahedrons mesh', ctx') removedTetrahedrons holeSurface newVertexIndex of
               (ts, ctx'') \<Rightarrow> Some (True, mesh'\<lparr>tetrahedrons := ts\<rparr>, ctx'')))"

text \<open>
  One pass over the queue (the \<^verbatim>\<open>for\<close> loop), for any insertion attempt: the state after
  the pass and the vertices postponed, in the order of the queue.
\<close>

fun processBunch ::
  "('s \<Rightarrow> nat \<Rightarrow> (bool \<times> 's) option) \<Rightarrow> 's \<Rightarrow> nat list \<Rightarrow> nat list \<Rightarrow> ('s \<times> nat list) option" where
  "processBunch attempt s [] postponedVertices = Some (s, postponedVertices)"
| "processBunch attempt s (newVertexIndex # rest) postponedVertices =
     (case attempt s newVertexIndex of
        None \<Rightarrow> None
      | Some (inserted, s') \<Rightarrow>
          processBunch attempt s' rest
            (if inserted then postponedVertices else postponedVertices @ [newVertexIndex]))"

text \<open>
  The \<^verbatim>\<open>while\<close> loop. After the pass the two vectors are swapped, so the queue is the
  postponed vertices and the test compares the old queue with the new one. The result is
  the final state, the vertices left in \<^verbatim>\<open>verticesQueue\<close> (those excluded from the
  triangulation) and the numbers written by the warnings it logged. \<open>None\<close>: the loop
  does not end.
\<close>

partial_function (option) triangulate ::
  "('s \<Rightarrow> nat \<Rightarrow> (bool \<times> 's) option) \<Rightarrow> 's \<Rightarrow> nat list \<Rightarrow> ('s \<times> nat list \<times> nat list) option" where
  "triangulate attempt s verticesQueue =
    (if verticesQueue = [] then Some (s, verticesQueue, [])
     else
       case processBunch attempt s verticesQueue [] of
         None \<Rightarrow> None
       | Some (s', postponedVertices) \<Rightarrow>
           if length verticesQueue = length postponedVertices
           then Some (s', postponedVertices, [length verticesQueue])
           else triangulate attempt s' postponedVertices)"

text \<open>
  The start of \<^verbatim>\<open>BuildTetrahedrons\<close>: the context is sized to the cells, the circumspheres
  are computed, the positions are appended to the vertices and their indices are queued.
\<close>

definition initialContext :: "real \<Rightarrow> real \<Rightarrow> TetrahedralMesh \<Rightarrow> DelaunayContext" where
  "initialContext M_EPSILON M_LARGE_VALUE mesh =
     \<lparr>circumspheres = map (\<lambda>t. snd (GetTetrahedronCircumsphere M_EPSILON M_LARGE_VALUE (vertices mesh) t))
                        (tetrahedrons mesh),
      removed = replicate (length (tetrahedrons mesh)) False,
      holeTriangles = []\<rparr>"

definition appendVertices :: "TetrahedralMesh \<Rightarrow> Vector3 list \<Rightarrow> TetrahedralMesh" where
  "appendVertices mesh positions = mesh\<lparr>vertices := vertices mesh @ positions\<rparr>"

definition initialQueue :: "TetrahedralMesh \<Rightarrow> Vector3 list \<Rightarrow> nat list" where
  "initialQueue mesh positions = [length (vertices mesh)..<length (vertices mesh) + length positions]"

definition triangulateAll ::
  "(DelaunayContext \<Rightarrow> nat \<Rightarrow> Vector3 \<Rightarrow> bool) \<Rightarrow>
   (Vector3 list \<Rightarrow> TetrahedralMeshSurfaceTriangle \<Rightarrow> TetrahedralMeshSurfaceTriangle) \<Rightarrow>
   real \<Rightarrow> real \<Rightarrow> real \<Rightarrow> Tetrahedron \<Rightarrow> HighPrecisionSphere \<Rightarrow>
   TetrahedralMesh \<Rightarrow> Vector3 list \<Rightarrow> ((TetrahedralMesh \<times> DelaunayContext) \<times> nat list \<times> nat list) option" where
  "triangulateAll IsInside Normalize M_LARGE_EPSILON M_EPSILON M_LARGE_VALUE fresh freshSphere mesh positions =
     triangulate (insertVertex IsInside Normalize M_LARGE_EPSILON M_EPSILON M_LARGE_VALUE fresh freshSphere)
       (appendVertices mesh positions, initialContext M_EPSILON M_LARGE_VALUE mesh)
       (initialQueue mesh positions)"

text \<open>
  A state of the loop is well formed when the context has one flag per cell, every cell has
  four neighbour slots, and every slot holds the sentinel or the index of a cell. Outside
  such states the source reads or writes beyond a vector.
\<close>

definition wellFormed :: "Tetrahedron list \<Rightarrow> DelaunayContext \<Rightarrow> bool" where
  "wellFormed ts ctx =
     (length (removed ctx) = length ts
      \<and> list_all (\<lambda>t. length (neighbors t) = 4
                      \<and> list_all (\<lambda>n. n = M_MAX_UNSIGNED \<or> n < length ts) (neighbors t)) ts)"

subsection \<open>Stripping the super mesh\<close>

text \<open>
  \<^verbatim>\<open>DisconnectSuperMeshTetrahedrons\<close>, one cell at a time: a cell with a super vertex is
  flagged; a flagged cell is cut from its neighbours. \<open>clearBackLink\<close> is the body of the
  loop over the faces; \<^verbatim>\<open>assert(neighborFaceIndex < 4)\<close> is compiled out.
\<close>

definition clearBackLink :: "nat \<Rightarrow> nat \<Rightarrow> Tetrahedron list \<Rightarrow> Tetrahedron list" where
  "clearBackLink tetIndex faceIndex ts =
    (let neighborIndex = neighbors (ts ! tetIndex) ! faceIndex in
     if neighborIndex \<noteq> M_MAX_UNSIGNED
     then setNeighbor ts neighborIndex (GetNeighborFaceIndex (ts ! neighborIndex) tetIndex) M_MAX_UNSIGNED
     else ts)"

definition disconnectSuperCell :: "nat \<Rightarrow> Tetrahedron list \<times> bool list \<Rightarrow> Tetrahedron list \<times> bool list" where
  "disconnectSuperCell tetIndex st =
    (case st of (ts, flags) \<Rightarrow>
      let flags' = (if list_ex (\<lambda>j. indices (ts ! tetIndex) ! j < NumSuperMeshVertices) [0..<4]
                    then flags[tetIndex := True] else flags)
      in if \<not> flags' ! tetIndex then (ts, flags')
         else (fold (clearBackLink tetIndex) [0..<4] ts, flags'))"

definition DisconnectSuperMeshTetrahedrons :: "Tetrahedron list \<Rightarrow> bool list \<Rightarrow> Tetrahedron list \<times> bool list" where
  "DisconnectSuperMeshTetrahedrons ts flags = fold disconnectSuperCell [0..<length ts] (ts, flags)"

text \<open>
  \<^verbatim>\<open>RemoveMarkedTetrahedrons\<close>: the cells that are not flagged, in their order, and the
  table from old to new indices; then the neighbour slots are mapped through the table
  (\<^verbatim>\<open>assert(newIndex != M_MAX_UNSIGNED)\<close> is compiled out).
\<close>

definition rebuildStep :: "Tetrahedron list \<Rightarrow> bool list \<Rightarrow> nat \<Rightarrow> Tetrahedron list \<times> nat list \<Rightarrow> Tetrahedron list \<times> nat list" where
  "rebuildStep tetrahedronsCopy flags oldTetIndex st =
    (case st of (kept, oldToNewIndexMap) \<Rightarrow>
      if flags ! oldTetIndex
      then (kept, oldToNewIndexMap[oldTetIndex := M_MAX_UNSIGNED])
      else (kept @ [tetrahedronsCopy ! oldTetIndex], oldToNewIndexMap[oldTetIndex := length kept]))"

definition remapNeighbor :: "nat list \<Rightarrow> nat \<Rightarrow> nat" where
  "remapNeighbor oldToNewIndexMap oldIndex =
     (if oldIndex \<noteq> M_MAX_UNSIGNED then oldToNewIndexMap ! oldIndex else oldIndex)"

definition RemoveMarkedTetrahedrons :: "Tetrahedron list \<Rightarrow> bool list \<Rightarrow> Tetrahedron list" where
  "RemoveMarkedTetrahedrons ts flags =
    (case fold (rebuildStep ts flags) [0..<length ts] ([], replicate (length ts) 0) of
       (kept, oldToNewIndexMap) \<Rightarrow>
         map (\<lambda>t. t\<lparr>neighbors := map (\<lambda>faceIndex. remapNeighbor oldToNewIndexMap (neighbors t ! faceIndex)) [0..<4]\<rparr>)
           kept)"

text \<open>
  \<^verbatim>\<open>RemoveSuperMeshVertices\<close>: the vertices are rotated left by eight, and eight is
  subtracted from every vertex index and from the logged edges, in 32-bit arithmetic.
\<close>

definition sub32 :: "nat \<Rightarrow> nat \<Rightarrow> nat" where
  "sub32 a b = (a + 4294967296 - b) mod 4294967296"

definition add32 :: "nat \<Rightarrow> nat \<Rightarrow> nat" where
  "add32 a b = (a + b) mod 4294967296"

definition shiftEdgeIndex :: "nat \<Rightarrow> nat \<Rightarrow> nat" where
  "shiftEdgeIndex n i =
     (if i < NumSuperMeshVertices then add32 i (sub32 n NumSuperMeshVertices)
      else sub32 i NumSuperMeshVertices)"

definition RemoveSuperMeshVertices :: "TetrahedralMesh \<Rightarrow> TetrahedralMesh" where
  "RemoveSuperMeshVertices mesh =
     mesh\<lparr>vertices := drop NumSuperMeshVertices (vertices mesh) @ take NumSuperMeshVertices (vertices mesh),
          tetrahedrons := map (\<lambda>t. t\<lparr>indices := map (\<lambda>faceIndex. sub32 (indices t ! faceIndex) NumSuperMeshVertices) [0..<4]\<rparr>)
                            (tetrahedrons mesh),
          debugHighlightEdges := map (\<lambda>(a, b). (shiftEdgeIndex (length (vertices mesh)) a,
                                                  shiftEdgeIndex (length (vertices mesh)) b))
                                   (debugHighlightEdges mesh)\<rparr>"

definition UpdateIgnoredVertices :: "TetrahedralMesh \<Rightarrow> TetrahedralMesh" where
  "UpdateIgnoredVertices mesh =
    (let ignored = fold (\<lambda>t flags. fold (\<lambda>faceIndex flags'. flags'[indices t ! faceIndex := False]) [0..<4] flags)
                     (tetrahedrons mesh) (replicate (length (vertices mesh)) True)
     in mesh\<lparr>ignoredVertices := filter (\<lambda>vertexIndex. ignored ! vertexIndex)
                                    [0..<length (vertices mesh) - NumSuperMeshVertices]\<rparr>)"

subsection \<open>The hull and the outer cells\<close>

text \<open>
  \<^verbatim>\<open>BuildHullSurface\<close>: every face of a cell whose slot holds the sentinel is added (the
  result of \<^verbatim>\<open>AddFace\<close> is not looked at), then every face is normalised.
  \<^verbatim>\<open>assert(hullSurface.IsClosedSurface())\<close> is compiled out.
\<close>

definition addHullFace :: "Tetrahedron list \<Rightarrow> nat \<times> nat \<Rightarrow> TetrahedralMeshSurface \<Rightarrow> TetrahedralMeshSurface" where
  "addHullFace ts tf hullSurface =
    (case tf of (tetIndex, faceIndex) \<Rightarrow>
      if neighbors (ts ! tetIndex) ! faceIndex \<noteq> M_MAX_UNSIGNED then hullSurface
      else snd (AddFace hullSurface (GetTriangleFace (ts ! tetIndex) faceIndex tetIndex faceIndex)))"

definition cellFaces :: "nat \<Rightarrow> (nat \<times> nat) list" where
  "cellFaces n = concat (map (\<lambda>tetIndex. map (\<lambda>faceIndex. (tetIndex, faceIndex)) [0..<4]) [0..<n])"

definition BuildHullSurface ::
  "(Vector3 list \<Rightarrow> TetrahedralMeshSurfaceTriangle \<Rightarrow> TetrahedralMeshSurfaceTriangle) \<Rightarrow>
     TetrahedralMesh \<Rightarrow> TetrahedralMeshSurface" where
  "BuildHullSurface Normalize mesh =
    (let hullSurface = fold (addHullFace (tetrahedrons mesh)) (cellFaces (length (tetrahedrons mesh))) \<lparr>faces = []\<rparr>
     in hullSurface\<lparr>faces := map (Normalize (vertices mesh)) (faces hullSurface)\<rparr>)"

text \<open>
  Modelled from the spec: \<^verbatim>\<open>Vector3::Normalize\<close> is not among the sources. The spec:
  "normalize (zero-vector left unnormalized ...)"; the source calls it for a vector that is
  not zero, which is divided by its length.
\<close>

definition Normalize_vector :: "Vector3 \<Rightarrow> Vector3" where
  "Normalize_vector v = vscale v (1 / sqrt (LengthSquared v))"

definition accumulateNormal :: "Vector3 list \<Rightarrow> TetrahedralMeshSurfaceTriangle \<Rightarrow> Vector3 list \<Rightarrow> Vector3 list" where
  "accumulateNormal vs triangle normals =
    (let p1 = vs ! (face_indices triangle ! 0);
         p2 = vs ! (face_indices triangle ! 1);
         p3 = vs ! (face_indices triangle ! 2);
         normal = CrossProduct (vsub p2 p1) (vsub p3 p1)
     in fold (\<lambda>j ns. ns[face_indices triangle ! j := vadd (ns ! (face_indices triangle ! j)) normal]) [0..<3] normals)"

definition CalculateHullNormals :: "TetrahedralMesh \<Rightarrow> TetrahedralMeshSurface \<Rightarrow> TetrahedralMesh" where
  "CalculateHullNormals mesh hullSurface =
    (let resized = take (length (vertices mesh))
                     (hullNormals mesh @ replicate (length (vertices mesh) - length (hullNormals mesh)) ZERO);
         summed = fold (accumulateNormal (vertices mesh)) (faces hullSurface) resized
     in mesh\<lparr>hullNormals := map (\<lambda>normal. if normal \<noteq> ZERO then Normalize_vector normal else normal) summed\<rparr>)"

text \<open>
  \<^verbatim>\<open>BuildOuterTetrahedrons\<close>: one default-constructed cell is appended per hull face and
  then filled in; the sum \<^verbatim>\<open>numInnerTetrahedrons_ + neighbors_[faceIndex]\<close> is 32-bit.
  \<^verbatim>\<open>assert(IsAdjacencyValid(true))\<close> is compiled out.
\<close>

definition outerCell :: "nat \<Rightarrow> TetrahedralMeshSurface \<Rightarrow> nat \<Rightarrow> Tetrahedron list \<Rightarrow> Tetrahedron list" where
  "outerCell numInner hullSurface tetIndex ts =
    (let hullTriangle = faces hullSurface ! (tetIndex - numInner);
         ts1 = ts[tetIndex := (ts ! tetIndex)
                 \<lparr>indices := [face_indices hullTriangle ! 0, face_indices hullTriangle ! 1,
                               face_indices hullTriangle ! 2, Infinity3],
                  neighbors := [add32 numInner (face_neighbors hullTriangle ! 0),
                                add32 numInner (face_neighbors hullTriangle ! 1),
                                add32 numInner (face_neighbors hullTriangle ! 2),
                                face_tetIndex hullTriangle]\<rparr>]
     in setNeighbor ts1 (face_tetIndex hullTriangle) (face_tetFace hullTriangle) tetIndex)"

definition BuildOuterTetrahedrons :: "Tetrahedron \<Rightarrow> TetrahedralMesh \<Rightarrow> TetrahedralMeshSurface \<Rightarrow> TetrahedralMesh" where
  "BuildOuterTetrahedrons fresh mesh hullSurface =
    (let numInner = length (tetrahedrons mesh);
         resized = tetrahedrons mesh @ replicate (Size_surface hullSurface) fresh
     in mesh\<lparr>numInnerTetrahedrons := numInner,
             tetrahedrons := fold (outerCell numInner hullSurface) [numInner..<length resized] resized\<rparr>)"

subsection \<open>CalculateInnerMatrices\<close>

datatype Matrix3 = Matrix3
  (n00: real) (n01: real) (n02: real)
  (n10: real) (n11: real) (n12: real)
  (n20: real) (n21: real) (n22: real)

text \<open>
  Modelled from the spec: \<^verbatim>\<open>Matrix3::Inverse\<close>, the conversion of a \<^verbatim>\<open>Matrix3\<close> to the
  \<^verbatim>\<open>Matrix3x4\<close> a cell stores, and the product of a matrix with a vector are declared in
  Matrix3.h and Matrix3x4.h, which are not among the sources. The spec: "compute the inverse
  of the 3x3 matrix whose columns are edge vectors from vertex 0 to vertices 1-3; this
  matrix, applied to (queryPosition - v0), yields barycentric-style weights". The inverse is
  the adjugate divided by the determinant; the conversion adds a zero translation; applying
  a 3x4 matrix to a vector multiplies by the 3x3 part and adds the translation.
\<close>

definition Determinant :: "Matrix3 \<Rightarrow> real" where
  "Determinant m =
     n00 m * n11 m * n22 m + n10 m * n21 m * n02 m + n20 m * n01 m * n12 m
     - n20 m * n11 m * n02 m - n10 m * n01 m * n22 m - n00 m * n21 m * n12 m"

definition Inverse :: "Matrix3 \<Rightarrow> Matrix3" where
  "Inverse m =
    (let invDet = 1 / Determinant m in
     Matrix3
       ((n11 m * n22 m - n21 m * n12 m) * invDet)
       (- (n01 m * n22 m - n21 m * n02 m) * invDet)
       ((n01 m * n12 m - n11 m * n02 m) * invDet)
       (- (n10 m * n22 m - n20 m * n12 m) * invDet)
       ((n00 m * n22 m - n20 m * n02 m) * invDet)
       (- (n00 m * n12 m - n10 m * n02 m) * invDet)
       ((n10 m * n21 m - n20 m * n11 m) * invDet)
       (- (n00 m * n21 m - n20 m * n01 m) * invDet)
       ((n00 m * n11 m - n10 m * n01 m) * invDet))"

definition toMatrix3x4 :: "Matrix3 \<Rightarrow> Matrix3x4" where
  "toMatrix3x4 m =
     Matrix3x4 (n00 m) (n01 m) (n02 m) 0 (n10 m) (n11 m) (n12 m) 0 (n20 m) (n21 m) (n22 m) 0"

definition ApplyMatrix :: "Matrix3x4 \<Rightarrow> Vector3 \<Rightarrow> Vector3" where
  "ApplyMatrix m v =
     Vector3 (m00 m * vx v + m01 m * vy v + m02 m * vz v + m03 m)
             (m10 m * vx v + m11 m * vy v + m12 m * vz v + m13 m)
             (m20 m * vx v + m21 m * vy v + m22 m * vz v + m23 m)"

definition multiply3 :: "Matrix3 \<Rightarrow> Matrix3 \<Rightarrow> Matrix3" where
  "multiply3 a b =
     Matrix3
       (n00 a * n00 b + n01 a * n10 b + n02 a * n20 b)
       (n00 a * n01 b + n01 a * n11 b + n02 a * n21 b)
       (n00 a * n02 b + n01 a * n12 b + n02 a * n22 b)
       (n10 a * n00 b + n11 a * n10 b + n12 a * n20 b)
       (n10 a * n01 b + n11 a * n11 b + n12 a * n21 b)
       (n10 a * n02 b + n11 a * n12 b + n12 a * n22 b)
       (n20 a * n00 b + n21 a * n10 b + n22 a * n20 b)
       (n20 a * n01 b + n21 a * n11 b + n22 a * n21 b)
       (n20 a * n02 b + n21 a * n12 b + n22 a * n22 b)"

definition IDENTITY :: Matrix3 where
  "IDENTITY = Matrix3 1 0 0 0 1 0 0 0 1"

text \<open>The matrix of the source: its columns are the edge vectors \<open>u1\<close>, \<open>u2\<close>, \<open>u3\<close>.\<close>

definition edgeMatrix :: "Vector3 list \<Rightarrow> Tetrahedron \<Rightarrow> Matrix3" where
  "edgeMatrix vs tetrahedron =
    (let p0 = corner vs tetrahedron 0; p1 = corner vs tetrahedron 1;
         p2 = corner vs tetrahedron 2; p3 = corner vs tetrahedron 3;
         u1 = vsub p1 p0; u2 = vsub p2 p0; u3 = vsub p3 p0
     in Matrix3 (vx u1) (vx u2) (vx u3) (vy u1) (vy u2) (vy u3) (vz u1) (vz u2) (vz u3))"

definition innerCell :: "Vector3 list \<Rightarrow> nat \<Rightarrow> Tetrahedron list \<Rightarrow> Tetrahedron list" where
  "innerCell vs tetIndex ts =
     ts[tetIndex := (ts ! tetIndex)\<lparr>matrix := toMatrix3x4 (Inverse (edgeMatrix vs (ts ! tetIndex)))\<rparr>]"

definition CalculateInnerMatrices :: "TetrahedralMesh \<Rightarrow> TetrahedralMesh" where
  "CalculateInnerMatrices mesh =
     mesh\<lparr>tetrahedrons := fold (innerCell (vertices mesh)) [0..<numInnerTetrahedrons mesh] (tetrahedrons mesh)\<rparr>"

subsection \<open>CalculateOuterMatrices\<close>

text \<open>
  The matrix \<open>m\<close> of an outer cell as the source fills it in, entry by entry, from the
  positions and hull normals of the three real corners, and the leading coefficient \<open>a\<close>.
  \<^verbatim>\<open>m * (1.0f / a)\<close> multiplies every entry (the operator is declared in Matrix3x4.h).
\<close>

definition outerMatrix :: "Vector3 list \<Rightarrow> Vector3 list \<Rightarrow> Tetrahedron \<Rightarrow> Matrix3x4" where
  "outerMatrix vs normals tetrahedron =
    (let position0 = vs ! (indices tetrahedron ! 0); position1 = vs ! (indices tetrahedron ! 1);
         position2 = vs ! (indices tetrahedron ! 2);
         normal0 = normals ! (indices tetrahedron ! 0); normal1 = normals ! (indices tetrahedron ! 1);
         normal2 = normals ! (indices tetrahedron ! 2);
         A = vsub position0 position2; Ap = vsub normal0 normal2;
         B = vsub position1 position2; Bp = vsub normal1 normal2;
         P2 = position2; Cp = vscale normal2 (- 1);
         e00 = vy Ap * vz Bp - vz Ap * vy Bp;
         e01 = - vx Ap * vz Bp + vz Ap * vx Bp;
         e02 = vx Ap * vy Bp - vy Ap * vx Bp;
         e03 = vx A * vy Bp * vz Cp - vy A * vx Bp * vz Cp + vx Ap * vy B * vz Cp - vy Ap * vx B * vz Cp
             + vz A * vx Bp * vy Cp - vz A * vy Bp * vx Cp + vz Ap * vx B * vy Cp - vz Ap * vy B * vx Cp
             - vx A * vz Bp * vy Cp + vy A * vz Bp * vx Cp - vx Ap * vz B * vy Cp + vy Ap * vz B * vx Cp;
         e10 = vy Ap * vz B + vy A * vz Bp - vz Ap * vy B - vz A * vy Bp;
         e11 = - vx A * vz Bp - vx Ap * vz B + vz A * vx Bp + vz Ap * vx B;
         e12 = vx A * vy Bp - vy A * vx Bp + vx Ap * vy B - vy Ap * vx B;
         e13 = vx A * vy B * vz Cp - vy A * vx B * vz Cp - vx A * vz B * vy Cp
             + vy A * vz B * vx Cp + vz A * vx B * vy Cp - vz A * vy B * vx Cp;
         e20 = - vz A * vy B + vy A * vz B;
         e21 = - vx A * vz B + vz A * vx B;
         e22 = vx A * vy B - vy A * vx B
     in Matrix3x4
          e00 e01 e02 (e03 - (vx P2 * e00 + vy P2 * e01 + vz P2 * e02))
          e10 e11 e12 (e13 - (vx P2 * e10 + vy P2 * e11 + vz P2 * e12))
          e20 e21 e22 (0 - (vx P2 * e20 + vy P2 * e21 + vz P2 * e22)))"

definition leadingCoefficient :: "Vector3 list \<Rightarrow> Tetrahedron \<Rightarrow> real" where
  "leadingCoefficient normals tetrahedron =
    (let normal0 = normals ! (indices tetrahedron ! 0); normal1 = normals ! (indices tetrahedron ! 1);
         normal2 = normals ! (indices tetrahedron ! 2);
         Ap = vsub normal0 normal2; Bp = vsub normal1 normal2; Cp = vscale normal2 (- 1)
     in vx Ap * vy Bp * vz Cp - vy Ap * vx Bp * vz Cp + vz Ap * vx Bp * vy Cp
      - vz Ap * vy Bp * vx Cp + vy Ap * vz Bp * vx Cp - vx Ap * vz Bp * vy Cp)"

definition scaleMatrix :: "Matrix3x4 \<Rightarrow> real \<Rightarrow> Matrix3x4" where
  "scaleMatrix m k =
     Matrix3x4 (m00 m * k) (m01 m * k) (m02 m * k) (m03 m * k)
               (m10 m * k) (m11 m * k) (m12 m * k) (m13 m * k)
               (m20 m * k) (m21 m * k) (m22 m * k) (m23 m * k)"

definition outerMatrixCell :: "real \<Rightarrow> Vector3 list \<Rightarrow> Vector3 list \<Rightarrow> nat \<Rightarrow> Tetrahedron list \<Rightarrow> Tetrahedron list" where
  "outerMatrixCell M_EPSILON vs normals tetIndex ts =
    (let tetrahedron = ts ! tetIndex;
         m = outerMatrix vs normals tetrahedron;
         a = leadingCoefficient normals tetrahedron
     in if \<bar>a\<bar> > M_EPSILON
        then ts[tetIndex := tetrahedron\<lparr>matrix := scaleMatrix m (1 / a)\<rparr>]
        else ts[tetIndex := tetrahedron\<lparr>matrix := m, indices := (indices tetrahedron)[3 := Infinity2]\<rparr>])"

definition CalculateOuterMatrices :: "real \<Rightarrow> TetrahedralMesh \<Rightarrow> TetrahedralMesh" where
  "CalculateOuterMatrices M_EPSILON mesh =
     mesh\<lparr>tetrahedrons := fold (outerMatrixCell M_EPSILON (vertices mesh) (hullNormals mesh))
                              [numInnerTetrahedrons mesh..<length (tetrahedrons mesh)] (tetrahedrons mesh)\<rparr>"

subsection \<open>BuildTetrahedrons and Define\<close>

text \<open>
  The loop that dumps the failed attempts: one call of \<^verbatim>\<open>FindAndRemoveIntersected\<close> with
  \<^verbatim>\<open>dumpErrors\<close> set per vertex left in the queue, each at the position of the first
  vertex of the queue (\<^verbatim>\<open>vertices_[verticesQueue[0]]\<close>, as the source has it).
\<close>

fun dumpFailed ::
  "(DelaunayContext \<Rightarrow> nat \<Rightarrow> Vector3 \<Rightarrow> bool) \<Rightarrow>
   (Vector3 list \<Rightarrow> TetrahedralMeshSurfaceTriangle \<Rightarrow> TetrahedralMeshSurfaceTriangle) \<Rightarrow> real \<Rightarrow>
   nat \<Rightarrow> nat list \<Rightarrow> TetrahedralMesh \<times> DelaunayContext \<Rightarrow> (TetrahedralMesh \<times> DelaunayContext) option" where
  "dumpFailed IsInside Normalize M_LARGE_EPSILON first [] st = Some st"
| "dumpFailed IsInside Normalize M_LARGE_EPSILON first (ignoredVertex # rest) st =
    (case FindAndRemoveIntersected IsInside Normalize M_LARGE_EPSILON (fst st) (snd st)
            (vertices (fst st) ! first) True of
       None \<Rightarrow> None
     | Some (carved, mesh', ctx', holeSurface, removedTetrahedrons) \<Rightarrow>
         dumpFailed IsInside Normalize M_LARGE_EPSILON first rest (mesh', ctx'))"

text \<open>
  \<^verbatim>\<open>BuildTetrahedrons\<close>. The result is the mesh and the numbers written by the warnings
  of the retry loop; \<open>None\<close> when one of the searches does not end.
\<close>

definition finalize ::
  "(Vector3 list \<Rightarrow> TetrahedralMeshSurfaceTriangle \<Rightarrow> TetrahedralMeshSurfaceTriangle) \<Rightarrow> real \<Rightarrow>
   Tetrahedron \<Rightarrow> TetrahedralMesh \<times> DelaunayContext \<Rightarrow> TetrahedralMesh" where
  "finalize Normalize M_EPSILON fresh st =
    (case st of (mesh, ctx) \<Rightarrow>
      case DisconnectSuperMeshTetrahedrons (tetrahedrons mesh) (removed ctx) of
        (ts, flags) \<Rightarrow>
          let mesh1 = mesh\<lparr>tetrahedrons := RemoveMarkedTetrahedrons ts flags\<rparr>;
              mesh2 = UpdateIgnoredVertices (RemoveSuperMeshVertices mesh1);
              hullSurface = BuildHullSurface Normalize mesh2;
              mesh3 = CalculateHullNormals mesh2 hullSurface;
              mesh4 = BuildOuterTetrahedrons fresh mesh3 hullSurface
          in CalculateOuterMatrices M_EPSILON (CalculateInnerMatrices mesh4))"

definition BuildTetrahedrons ::
  "(DelaunayContext \<Rightarrow> nat \<Rightarrow> Vector3 \<Rightarrow> bool) \<Rightarrow>
   (Vector3 list \<Rightarrow> TetrahedralMeshSurfaceTriangle \<Rightarrow> TetrahedralMeshSurfaceTriangle) \<Rightarrow>
   real \<Rightarrow> real \<Rightarrow> real \<Rightarrow> Tetrahedron \<Rightarrow> HighPrecisionSphere \<Rightarrow>
   TetrahedralMesh \<Rightarrow> Vector3 list \<Rightarrow> (TetrahedralMesh \<times> nat list) option" where
  "BuildTetrahedrons IsInside Normalize M_LARGE_EPSILON M_EPSILON M_LARGE_VALUE fresh freshSphere mesh positions =
    (case triangulateAll IsInside Normalize M_LARGE_EPSILON M_EPSILON M_LARGE_VALUE fresh freshSphere
            mesh positions of
       None \<Rightarrow> None
     | Some ((mesh1, ctx1), verticesQueue, warnings) \<Rightarrow>
        (case dumpFailed IsInside Normalize M_LARGE_EPSILON (verticesQueue ! 0) verticesQueue
                (mesh1\<lparr>debugHighlightEdges := []\<rparr>, ctx1) of
           None \<Rightarrow> None
         | Some st \<Rightarrow> Some (finalize Normalize M_EPSILON fresh st, warnings)))"

text \<open>
  Modelled from the spec: the constructor of \<^verbatim>\<open>BoundingBox\<close> from a span of points is
  declared in BoundingBox.h, which is not among the sources. The spec: the "axis-aligned
  bounding box of all input points". The box of no points has no real coordinates and is
  taken to be the origin here.
\<close>

definition mergePoint :: "Vector3 \<Rightarrow> BoundingBox \<Rightarrow> BoundingBox" where
  "mergePoint p b =
     \<lparr>box_min = Vector3 (min (vx (box_min b)) (vx p)) (min (vy (box_min b)) (vy p)) (min (vz (box_min b)) (vz p)),
      box_max = Vector3 (max (vx (box_max b)) (vx p)) (max (vy (box_max b)) (vy p)) (max (vz (box_max b)) (vz p))\<rparr>"

definition boundingBoxOf :: "Vector3 list \<Rightarrow> BoundingBox" where
  "boundingBoxOf positions =
     (case positions of
        [] \<Rightarrow> \<lparr>box_min = ZERO, box_max = ZERO\<rparr>
      | p # ps \<Rightarrow> fold mergePoint ps \<lparr>box_min = p, box_max = p\<rparr>)"

definition ONE :: Vector3 where
  "ONE = Vector3 1 1 1"

definition Define ::
  "(DelaunayContext \<Rightarrow> nat \<Rightarrow> Vector3 \<Rightarrow> bool) \<Rightarrow>
   (Vector3 list \<Rightarrow> TetrahedralMeshSurfaceTriangle \<Rightarrow> TetrahedralMeshSurfaceTriangle) \<Rightarrow>
   real \<Rightarrow> real \<Rightarrow> real \<Rightarrow> Tetrahedron \<Rightarrow> HighPrecisionSphere \<Rightarrow>
   TetrahedralMesh \<Rightarrow> Vector3 list \<Rightarrow> (TetrahedralMesh \<times> nat list) option" where
  "Define IsInside Normalize M_LARGE_EPSILON M_EPSILON M_LARGE_VALUE fresh freshSphere mesh positions =
    (let boundingBox = boundingBoxOf positions;
         padded = \<lparr>box_min = vsub (box_min boundingBox) ONE, box_max = vadd (box_max boundingBox) ONE\<rparr>
     in BuildTetrahedrons IsInside Normalize M_LARGE_EPSILON M_EPSILON M_LARGE_VALUE fresh freshSphere
          (InitializeSuperMesh fresh mesh padded) positions)"

subsection \<open>Orienting a face\<close>

text \<open>
  \<^verbatim>\<open>TetrahedralMeshSurfaceTriangle::Normalize\<close> is a parameter of the model. The spec has
  hole and hull faces "oriented consistently (outward)"; what the proofs about the loop need
  of the parameter is that it only orients: the triangle comes back as it was, or with the
  first two entries of both arrays exchanged.
\<close>

definition swapFace :: "TetrahedralMeshSurfaceTriangle \<Rightarrow> TetrahedralMeshSurfaceTriangle" where
  "swapFace t =
     t\<lparr>face_indices := [face_indices t ! 1, face_indices t ! 0, face_indices t ! 2],
       face_neighbors := [face_neighbors t ! 1, face_neighbors t ! 0, face_neighbors t ! 2]\<rparr>"

definition orientationOnly ::
  "(Vector3 list \<Rightarrow> TetrahedralMeshSurfaceTriangle \<Rightarrow> TetrahedralMeshSurfaceTriangle) \<Rightarrow> bool" where
  "orientationOnly Normalize = (\<forall>vs t. Normalize vs t = t \<or> Normalize vs t = swapFace t)"

subsection \<open>The two geometric predicates of the absent header\<close>

text \<open>
  Modelled from the spec: \<^verbatim>\<open>DelaunayContext::IsInsideCircumsphere\<close> is not among the
  sources. The spec: "any live tetrahedron whose circumsphere contains \<open>v\<close>", the vertex
  being outside when it "does not lie strictly inside the tetrahedron's circumsphere, up to
  the same epsilon used by the construction's IsInsideCircumsphere predicate": the signed
  distance of the position from the cached sphere is below the epsilon.
\<close>

definition IsInsideCircumsphere :: "real \<Rightarrow> DelaunayContext \<Rightarrow> nat \<Rightarrow> Vector3 \<Rightarrow> bool" where
  "IsInsideCircumsphere M_LARGE_EPSILON ctx tetIndex position =
    (let sphere = circumspheres ctx ! tetIndex
     in distance position (center sphere) - radius sphere < M_LARGE_EPSILON)"

text \<open>
  Modelled from the spec: \<^verbatim>\<open>TetrahedralMeshSurfaceTriangle::Normalize\<close> is not among the
  sources. The spec orients faces "consistently (outward)": the normal \<open>(p2 - p1) x (p3 -
  p1)\<close> of the face points away from the corner of its cell that is not on the face, and
  the first two corners (and the neighbours across the edges opposite them) are exchanged
  when it does not.
\<close>

definition Normalize_face :: "Vector3 list \<Rightarrow> TetrahedralMeshSurfaceTriangle \<Rightarrow> TetrahedralMeshSurfaceTriangle" where
  "Normalize_face vs t =
    (let p0 = vs ! unusedIndex t;
         p1 = vs ! (face_indices t ! 0);
         p2 = vs ! (face_indices t ! 1);
         p3 = vs ! (face_indices t ! 2);
         outsideDirection = vsub p1 p0;
         actualNormal = CrossProduct (vsub p2 p1) (vsub p3 p1)
     in if DotProduct outsideDirection actualNormal < 0 then swapFace t else t)"

subsection \<open>What the loop of FillStarShapedHole has established after \<open>n\<close> rounds\<close>

text \<open>
  The invariant of the loop, used in the proofs below: the first \<open>n\<close> output cells are
  built on the first \<open>n\<close> hole triangles, the back-links of these triangles point at
  them, and a cell that is no output cell has kept its vertex indices, its flag and its
  circumsphere (and everything, unless a triangle refers to it).
\<close>

definition filledUpTo ::
  "real \<Rightarrow> real \<Rightarrow> Vector3 list \<Rightarrow> nat list \<Rightarrow> TetrahedralMeshSurface \<Rightarrow> nat \<Rightarrow> nat \<Rightarrow>
    Tetrahedron list \<times> DelaunayContext \<Rightarrow> Tetrahedron list \<times> DelaunayContext \<Rightarrow> bool" where
  "filledUpTo e l vs out hs c n st st' =
    (case (st, st') of ((ts, ctx), (ts', ctx')) \<Rightarrow>
      length ts' = length ts \<and> length (removed ctx') = length ts
      \<and> length (circumspheres ctx') = length ts
      \<and> (\<forall>i<n. indices (ts' ! (out ! i)) =
                   [face_indices (faces hs ! i) ! 0, face_indices (faces hs ! i) ! 1,
                    face_indices (faces hs ! i) ! 2, c]
               \<and> neighbors (ts' ! (out ! i)) =
                   [out ! (face_neighbors (faces hs ! i) ! 0), out ! (face_neighbors (faces hs ! i) ! 1),
                    out ! (face_neighbors (faces hs ! i) ! 2), face_tetIndex (faces hs ! i)]
               \<and> \<not> removed ctx' ! (out ! i)
               \<and> circumspheres ctx' ! (out ! i)
                   = snd (GetTetrahedronCircumsphere e l vs (ts' ! (out ! i)))
               \<and> (face_tetIndex (faces hs ! i) \<noteq> M_MAX_UNSIGNED \<longrightarrow>
                    neighbors (ts' ! face_tetIndex (faces hs ! i)) ! face_tetFace (faces hs ! i) = out ! i))
      \<and> (\<forall>k<length ts. k \<notin> set (take n out) \<longrightarrow>
             indices (ts' ! k) = indices (ts ! k)
           \<and> length (neighbors (ts' ! k)) = length (neighbors (ts ! k))
           \<and> removed ctx' ! k = removed ctx ! k
           \<and> circumspheres ctx' ! k = circumspheres ctx ! k
           \<and> ((\<forall>i<n. face_tetIndex (faces hs ! i) \<noteq> M_MAX_UNSIGNED \<longrightarrow> face_tetIndex (faces hs ! i) \<noteq> k)
                 \<longrightarrow> ts' ! k = ts ! k)))"

text \<open>The cells of the mesh that are not flagged removed, counted.\<close>

definition live :: "DelaunayContext \<Rightarrow> nat" where
  "live ctx = length (filter Not (removed ctx))"

text \<open>All neighbour slots of the cells are in range: the part of \<open>wellFormed\<close> about the cells.\<close>

definition cellsInRange :: "Tetrahedron list \<Rightarrow> bool" where
  "cellsInRange ts =
     (\<forall>t \<in> set ts. length (neighbors t) = 4
        \<and> (\<forall>n \<in> set (neighbors t). n = M_MAX_UNSIGNED \<or> n < length ts))"

text \<open>
  A boundary triangle is linked within bounds: it has three neighbour entries, each the
  sentinel or below \<open>B\<close>, and it refers to the sentinel or to a cell below \<open>L\<close>.
\<close>

definition linked :: "nat \<Rightarrow> nat \<Rightarrow> TetrahedralMeshSurfaceTriangle \<Rightarrow> bool" where
  "linked L B face =
     (length (face_neighbors face) = 3
      \<and> (\<forall>n \<in> set (face_neighbors face). n = M_MAX_UNSIGNED \<or> n < B)
      \<and> (face_tetIndex face = M_MAX_UNSIGNED \<or> face_tetIndex face < L))"

definition surfaceLinked :: "nat \<Rightarrow> TetrahedralMeshSurface \<Rightarrow> bool" where
  "surfaceLinked L s = (\<forall>face \<in> set (faces s). linked L (length (faces s)) face)"

text \<open>One cell has four neighbour slots, each the sentinel or below \<open>L\<close>.\<close>

definition cellInRange :: "nat \<Rightarrow> Tetrahedron \<Rightarrow> bool" where
  "cellInRange L t =
     (length (neighbors t) = 4 \<and> (\<forall>n \<in> set (neighbors t). n = M_MAX_UNSIGNED \<or> n < L))"

text \<open>
  Four points are affinely independent when the three edge vectors from the first are
  linearly independent: their triple product is not zero.
\<close>

definition affinelyIndependent :: "Vector3 \<Rightarrow> Vector3 \<Rightarrow> Vector3 \<Rightarrow> Vector3 \<Rightarrow> bool" where
  "affinelyIndependent p0 p1 p2 p3 =
     (DotProduct (vsub p1 p0) (CrossProduct (vsub p2 p0) (vsub p3 p0)) \<noteq> 0)"


text \<open>
  The flags of a context during the search of \<^verbatim>\<open>FindAndRemoveIntersected\<close>, relative to
  the flags at the call: the cells collected so far were live at the call, and the flags are
  those of the call with the collected cells set.
\<close>

definition flaggedFrom :: "bool list \<Rightarrow> nat list \<Rightarrow> DelaunayContext \<Rightarrow> bool" where
  "flaggedFrom flags rl ctx =
     (length (removed ctx) = length flags
      \<and> list_all (\<lambda>x. x < length flags \<and> \<not> flags ! x) rl
      \<and> list_all (\<lambda>i. removed ctx ! i = (flags ! i \<or> i \<in> set rl)) [0..<length flags])"
subsection \<open>Concrete inputs\<close>

text \<open>The inputs at which the theorems below are instantiated.\<close>

definition noNeighbors :: "nat list" where
  "noNeighbors = [M_MAX_UNSIGNED, M_MAX_UNSIGNED, M_MAX_UNSIGNED, M_MAX_UNSIGNED]"

definition unitVertices :: "Vector3 list" where
  "unitVertices = [Vector3 0 0 0, Vector3 1 0 0, Vector3 0 1 0, Vector3 0 0 1, Vector3 1 1 0]"

definition unitCell :: Tetrahedron where
  "unitCell = \<lparr>indices = [0, 1, 2, 3], neighbors = noNeighbors, matrix = zeroMatrix\<rparr>"

definition flatCell :: Tetrahedron where
  "flatCell = \<lparr>indices = [0, 1, 2, 4], neighbors = noNeighbors, matrix = zeroMatrix\<rparr>"

definition emptyMesh :: TetrahedralMesh where
  "emptyMesh = \<lparr>vertices = [], tetrahedrons = [], hullNormals = [], numInnerTetrahedrons = 0,
     ignoredVertices = [], debugHighlightEdges = []\<rparr>"

definition paddedBox :: BoundingBox where
  \<comment> \<open>the box of the unit cube, padded by one as \<^verbatim>\<open>Define\<close> does\<close>
  "paddedBox = \<lparr>box_min = Vector3 (- 1) (- 1) (- 1), box_max = Vector3 2 2 2\<rparr>"

text \<open>
  Two cells that shared the face \<open>(1, 2, 3)\<close>, after cell 0 was carved out and
  disconnected; the hole surface is the boundary of cell 0, whose first face refers to slot
  0 of cell 1.
\<close>

definition exCells :: "Tetrahedron list" where
  "exCells = [\<lparr>indices = [0, 1, 2, 3], neighbors = noNeighbors, matrix = zeroMatrix\<rparr>,
              \<lparr>indices = [4, 1, 2, 3], neighbors = noNeighbors, matrix = zeroMatrix\<rparr>]"

definition exSphere :: HighPrecisionSphere where
  "exSphere = \<lparr>center = ZERO, radius = 0\<rparr>"

definition exContext :: DelaunayContext where
  "exContext = \<lparr>circumspheres = [exSphere, exSphere], removed = [True, False], holeTriangles = []\<rparr>"

definition exHole :: TetrahedralMeshSurface where
  "exHole = \<lparr>faces =
     [\<lparr>face_indices = [1, 2, 3], face_neighbors = [1, 2, 3], unusedIndex = 4,
        face_tetIndex = 1, face_tetFace = 0\<rparr>,
      \<lparr>face_indices = [0, 2, 3], face_neighbors = [0, 2, 3], unusedIndex = 1,
        face_tetIndex = M_MAX_UNSIGNED, face_tetFace = M_MAX_UNSIGNED\<rparr>,
      \<lparr>face_indices = [0, 1, 3], face_neighbors = [0, 1, 3], unusedIndex = 2,
        face_tetIndex = M_MAX_UNSIGNED, face_tetFace = M_MAX_UNSIGNED\<rparr>,
      \<lparr>face_indices = [0, 1, 2], face_neighbors = [0, 1, 2], unusedIndex = 3,
        face_tetIndex = M_MAX_UNSIGNED, face_tetFace = M_MAX_UNSIGNED\<rparr>]\<rparr>"

definition exFresh :: Tetrahedron where
  "exFresh = \<lparr>indices = [0, 0, 0, 0], neighbors = noNeighbors, matrix = zeroMatrix\<rparr>"

definition exAllocated :: "Tetrahedron list \<times> DelaunayContext \<times> nat list" where
  "exAllocated = allocateSpace exFresh exSphere (Size_surface exHole) (exCells, exContext, [0])"

definition exFilled :: "Tetrahedron list \<times> DelaunayContext" where
  "exFilled = FillStarShapedHole (1 / 1000000) 100000000 []
     (fst exAllocated, fst (snd exAllocated)) (snd (snd exAllocated)) exHole 5"

text \<open>
  The unit tetrahedron as a mesh of one cell, its hull surface (face \<open>f\<close> is the face of
  the cell opposite corner \<open>f\<close>), and two choices of hull normals.
\<close>

definition exHull :: TetrahedralMeshSurface where
  "exHull = \<lparr>faces =
     [\<lparr>face_indices = [1, 2, 3], face_neighbors = [1, 2, 3], unusedIndex = 0,
        face_tetIndex = 0, face_tetFace = 0\<rparr>,
      \<lparr>face_indices = [0, 2, 3], face_neighbors = [0, 2, 3], unusedIndex = 1,
        face_tetIndex = 0, face_tetFace = 1\<rparr>,
      \<lparr>face_indices = [0, 1, 3], face_neighbors = [0, 1, 3], unusedIndex = 2,
        face_tetIndex = 0, face_tetFace = 2\<rparr>,
      \<lparr>face_indices = [0, 1, 2], face_neighbors = [0, 1, 2], unusedIndex = 3,
        face_tetIndex = 0, face_tetFace = 3\<rparr>]\<rparr>"

definition unitMesh :: "Vector3 list \<Rightarrow> TetrahedralMesh" where
  "unitMesh normals = \<lparr>vertices = unitVertices, tetrahedrons = [unitCell], hullNormals = normals,
     numInnerTetrahedrons = 1, ignoredVertices = [], debugHighlightEdges = []\<rparr>"

definition steepNormals :: "Vector3 list" where
  "steepNormals = [Vector3 (- 1) (- 1) (- 1), Vector3 1 0 0, Vector3 0 2 0, Vector3 0 0 1, Vector3 0 0 0]"

definition parallelNormals :: "Vector3 list" where
  "parallelNormals = [Vector3 0 0 1, Vector3 0 0 1, Vector3 0 0 1, Vector3 0 0 1, Vector3 0 0 1]"

text \<open>
  Two states for \<^verbatim>\<open>FindAndRemoveIntersected\<close>. In both every cell is live, linked cells
  share the face between them, and the context is the one \<^verbatim>\<open>BuildTetrahedrons\<close> computes
  for the cells: their circumspheres and no flag set.

  In the first, cells 0 and 1 share the face \<open>(1, 2, 3)\<close> in the plane \<open>z = 0\<close>, cell 0
  above it and cell 1 below. Vertex 5 lies below the face, inside the circumsphere of cell 0
  (radius 4 around the origin) and outside the one of cell 1 (radius 5 around
  \<open>(0, 0, 3)\<close>).
\<close>

definition duoVertices :: "Vector3 list" where
  "duoVertices = [Vector3 0 0 4, Vector3 4 0 0, Vector3 (- 4) 0 0, Vector3 0 4 0, Vector3 0 0 (- 2),
                  Vector3 0 0 (- 3)]"

definition duoCells :: "Tetrahedron list" where
  "duoCells =
     [\<lparr>indices = [0, 1, 2, 3],
       neighbors = [1, M_MAX_UNSIGNED, M_MAX_UNSIGNED, M_MAX_UNSIGNED], matrix = zeroMatrix\<rparr>,
      \<lparr>indices = [4, 1, 2, 3],
       neighbors = [0, M_MAX_UNSIGNED, M_MAX_UNSIGNED, M_MAX_UNSIGNED], matrix = zeroMatrix\<rparr>]"

definition duoMesh :: TetrahedralMesh where
  "duoMesh = \<lparr>vertices = duoVertices, tetrahedrons = duoCells, hullNormals = [],
     numInnerTetrahedrons = 0, ignoredVertices = [], debugHighlightEdges = []\<rparr>"

definition duoContext :: DelaunayContext where
  "duoContext = initialContext (1 / 1000000) 100000000 duoMesh"

definition duoTriangles :: "TetrahedralMeshSurfaceTriangle list" where
  \<comment> \<open>the face of cell 1 towards cell 0, turned by \<open>Normalize\<close>, and the three hull faces of cell 0\<close>
  "duoTriangles =
     [\<lparr>face_indices = [2, 1, 3], face_neighbors = [M_MAX_UNSIGNED, M_MAX_UNSIGNED, M_MAX_UNSIGNED],
        unusedIndex = 4, face_tetIndex = 1, face_tetFace = 0\<rparr>,
      \<lparr>face_indices = [0, 2, 3], face_neighbors = [M_MAX_UNSIGNED, M_MAX_UNSIGNED, M_MAX_UNSIGNED],
        unusedIndex = 1, face_tetIndex = M_MAX_UNSIGNED, face_tetFace = M_MAX_UNSIGNED\<rparr>,
      \<lparr>face_indices = [0, 1, 3], face_neighbors = [M_MAX_UNSIGNED, M_MAX_UNSIGNED, M_MAX_UNSIGNED],
        unusedIndex = 2, face_tetIndex = M_MAX_UNSIGNED, face_tetFace = M_MAX_UNSIGNED\<rparr>,
      \<lparr>face_indices = [0, 1, 2], face_neighbors = [M_MAX_UNSIGNED, M_MAX_UNSIGNED, M_MAX_UNSIGNED],
        unusedIndex = 3, face_tetIndex = M_MAX_UNSIGNED, face_tetFace = M_MAX_UNSIGNED\<rparr>]"

text \<open>
  In the second, four cells form a chain around vertex 0: cell 0 \<open>(0, 1, 2, 3)\<close>, cell 1
  \<open>(0, 2, 3, 4)\<close>, cell 2 \<open>(0, 3, 4, 5)\<close> and cell 3 \<open>(0, 1, 4, 5)\<close>, each sharing a face
  with the next. Cells 0 and 3 meet in the edge \<open>(0, 1)\<close> only, so that four hull faces
  meet in this edge. Vertex 6 lies inside cell 0 and inside the circumspheres of all four
  cells.
\<close>

definition pinchVertices :: "Vector3 list" where
  "pinchVertices = [Vector3 (- 2) 0 2, Vector3 (- 2) 1 1, Vector3 1 2 (- 2), Vector3 (- 1) 1 2,
                    Vector3 0 (- 2) (- 2), Vector3 (- 2) (- 1) 2, Vector3 (- 1) 1 1]"

definition pinchCells :: "Tetrahedron list" where
  "pinchCells =
     [\<lparr>indices = [0, 1, 2, 3],
       neighbors = [M_MAX_UNSIGNED, 1, M_MAX_UNSIGNED, M_MAX_UNSIGNED], matrix = zeroMatrix\<rparr>,
      \<lparr>indices = [0, 2, 3, 4],
       neighbors = [M_MAX_UNSIGNED, 2, M_MAX_UNSIGNED, 0], matrix = zeroMatrix\<rparr>,
      \<lparr>indices = [0, 3, 4, 5],
       neighbors = [M_MAX_UNSIGNED, 3, M_MAX_UNSIGNED, 1], matrix = zeroMatrix\<rparr>,
      \<lparr>indices = [0, 1, 4, 5],
       neighbors = [M_MAX_UNSIGNED, 2, M_MAX_UNSIGNED, M_MAX_UNSIGNED], matrix = zeroMatrix\<rparr>]"

definition pinchMesh :: TetrahedralMesh where
  "pinchMesh = \<lparr>vertices = pinchVertices, tetrahedrons = pinchCells, hullNormals = [],
     numInnerTetrahedrons = 0, ignoredVertices = [], debugHighlightEdges = []\<rparr>"

definition pinchContext :: DelaunayContext where
  "pinchContext = initialContext (1 / 1000000) 100000000 pinchMesh"

definition hullTriangle :: "nat list \<Rightarrow> nat \<Rightarrow> TetrahedralMeshSurfaceTriangle" where
  "hullTriangle is u = \<lparr>face_indices = is,
     face_neighbors = [M_MAX_UNSIGNED, M_MAX_UNSIGNED, M_MAX_UNSIGNED],
     unusedIndex = u, face_tetIndex = M_MAX_UNSIGNED, face_tetFace = M_MAX_UNSIGNED\<rparr>"

definition pinchTriangles :: "TetrahedralMeshSurfaceTriangle list" where
  \<comment> \<open>the ten hull faces of the four cells, as \<^verbatim>\<open>GetTriangleFace\<close> gives them\<close>
  "pinchTriangles =
     [hullTriangle [1, 2, 3] 0, hullTriangle [0, 1, 3] 2, hullTriangle [0, 1, 2] 3,
      hullTriangle [2, 3, 4] 0, hullTriangle [0, 2, 4] 3,
      hullTriangle [3, 4, 5] 0, hullTriangle [0, 3, 5] 4,
      hullTriangle [1, 4, 5] 0, hullTriangle [0, 1, 5] 4, hullTriangle [0, 1, 4] 5]"

section \<open>Properties\<close>

subsection \<open>The super mesh\<close>

lemma less4: "(c::nat) < 4 \<longleftrightarrow> c = 0 \<or> c = 1 \<or> c = 2 \<or> c = 3"
  by auto

lemma all_less4: "(\<forall>i<4. P i) \<longleftrightarrow> P (0::nat) \<and> P 1 \<and> P 2 \<and> P 3"
  by (auto simp add: less4)

lemma all_less3: "(\<forall>i<3. P i) \<longleftrightarrow> P (0::nat) \<and> P 1 \<and> P 2"
proof -
  have "(i::nat) < 3 \<longleftrightarrow> i = 0 \<or> i = 1 \<or> i = 2" for i
    by auto
  then show ?thesis
    by auto
qed

lemma superVertices_corners:
  "superVertices b =
    [Vector3 (vx (box_min b)) (vy (box_min b)) (vz (box_min b)),
     Vector3 (vx (box_max b)) (vy (box_min b)) (vz (box_min b)),
     Vector3 (vx (box_min b)) (vy (box_max b)) (vz (box_min b)),
     Vector3 (vx (box_max b)) (vy (box_max b)) (vz (box_min b)),
     Vector3 (vx (box_min b)) (vy (box_min b)) (vz (box_max b)),
     Vector3 (vx (box_max b)) (vy (box_min b)) (vz (box_max b)),
     Vector3 (vx (box_min b)) (vy (box_max b)) (vz (box_max b)),
     Vector3 (vx (box_max b)) (vy (box_max b)) (vz (box_max b))]"
  by (simp add: superVertices_def NumSuperMeshVertices_def offsets_def upt_rec vadd_def vmul_def
      Size_def vsub_def)

lemma superTetrahedrons_cells:
  "superTetrahedrons fresh =
    [fresh\<lparr>indices := [0, 1, 2, 4], neighbors := [4, M_MAX_UNSIGNED, M_MAX_UNSIGNED, M_MAX_UNSIGNED]\<rparr>,
     fresh\<lparr>indices := [3, 1, 2, 7], neighbors := [4, M_MAX_UNSIGNED, M_MAX_UNSIGNED, M_MAX_UNSIGNED]\<rparr>,
     fresh\<lparr>indices := [5, 1, 4, 7], neighbors := [4, M_MAX_UNSIGNED, M_MAX_UNSIGNED, M_MAX_UNSIGNED]\<rparr>,
     fresh\<lparr>indices := [6, 2, 4, 7], neighbors := [4, M_MAX_UNSIGNED, M_MAX_UNSIGNED, M_MAX_UNSIGNED]\<rparr>,
     fresh\<lparr>indices := [1, 2, 4, 7], neighbors := [3, 2, 1, 0]\<rparr>]"
  by (simp add: superTetrahedrons_def numTetrahedrons_def superIndices_def superNeighbors_def upt_rec)

lemma faceVertices_four:
  "indices t = [a, b, c, d] \<Longrightarrow> faceVertices t k =
     (if k = 0 then {b, c, d} else if k = 1 then {a, c, d} else if k = 2 then {a, b, d}
      else if k = 3 then {a, b, c} else {a, b, c, d})"
  by (auto simp add: faceVertices_def upt_rec)

lemma superTetrahedrons_adjacency: "IsAdjacencyValid (superTetrahedrons fresh) False"
  by (simp add: superTetrahedrons_cells IsAdjacencyValid_def upt_rec slotValid_def HasNeighbor_def
      M_MAX_UNSIGNED_def)

text \<open>
  Claim C6. \<^verbatim>\<open>InitializeSuperMesh\<close> leaves exactly eight vertices, the eight corners of
  the box it is given, and exactly five cells: four corner cells, whose only neighbour is
  cell 4 in slot 0, and the central cell 4, whose slots name the corner cells 3, 2, 1, 0.
  Across every slot of the central cell the two cells have the same face (the three vertex
  indices of the central cell's face are those of the corner cell's face opposite its slot
  0), and \<^verbatim>\<open>IsAdjacencyValid(false)\<close> holds of the five cells.
\<close>

theorem InitializeSuperMesh_result:
  fixes fresh mesh boundingBox
  defines "m \<equiv> InitializeSuperMesh fresh mesh boundingBox"
  defines "lo \<equiv> box_min boundingBox" and "hi \<equiv> box_max boundingBox"
  shows "vertices m =
      [Vector3 (vx lo) (vy lo) (vz lo), Vector3 (vx hi) (vy lo) (vz lo),
       Vector3 (vx lo) (vy hi) (vz lo), Vector3 (vx hi) (vy hi) (vz lo),
       Vector3 (vx lo) (vy lo) (vz hi), Vector3 (vx hi) (vy lo) (vz hi),
       Vector3 (vx lo) (vy hi) (vz hi), Vector3 (vx hi) (vy hi) (vz hi)]
    \<and> length (vertices m) = 8
    \<and> length (tetrahedrons m) = 5
    \<and> map indices (tetrahedrons m) = [[0, 1, 2, 4], [3, 1, 2, 7], [5, 1, 4, 7], [6, 2, 4, 7], [1, 2, 4, 7]]
    \<and> (\<forall>c < 4. neighbors (tetrahedrons m ! c) = [4, M_MAX_UNSIGNED, M_MAX_UNSIGNED, M_MAX_UNSIGNED])
    \<and> neighbors (tetrahedrons m ! 4) = [3, 2, 1, 0]
    \<and> (\<forall>k < 4. faceVertices (tetrahedrons m ! 4) k
                 = faceVertices (tetrahedrons m ! (neighbors (tetrahedrons m ! 4) ! k)) 0)
    \<and> IsAdjacencyValid (tetrahedrons m) False"
  unfolding m_def lo_def hi_def InitializeSuperMesh_def
  apply (simp add: superVertices_corners superTetrahedrons_adjacency)
  apply (simp add: superTetrahedrons_cells less4 faceVertices_four)
  done

theorem InitializeSuperMesh_result_witness:
  "vertices (InitializeSuperMesh unitCell emptyMesh paddedBox) ! 7 = Vector3 2 2 2
   \<and> vertices (InitializeSuperMesh unitCell emptyMesh paddedBox) ! 0 = Vector3 (- 1) (- 1) (- 1)
   \<and> length (tetrahedrons (InitializeSuperMesh unitCell emptyMesh paddedBox)) = 5
   \<and> neighbors (tetrahedrons (InitializeSuperMesh unitCell emptyMesh paddedBox) ! 2)
        = [4, M_MAX_UNSIGNED, M_MAX_UNSIGNED, M_MAX_UNSIGNED]
   \<and> faceVertices (tetrahedrons (InitializeSuperMesh unitCell emptyMesh paddedBox) ! 4) 1
        = faceVertices (tetrahedrons (InitializeSuperMesh unitCell emptyMesh paddedBox) ! 2) 0
   \<and> IsAdjacencyValid (tetrahedrons (InitializeSuperMesh unitCell emptyMesh paddedBox)) False"
  using InitializeSuperMesh_result [of unitCell emptyMesh paddedBox]
  by (simp add: paddedBox_def all_less4)

subsection \<open>The circumsphere\<close>

lemma LengthSquared_shift:
  "LengthSquared (vsub p (vadd p0 r)) =
     LengthSquared (vsub p p0) - 2 * DotProduct (vsub p p0) r + LengthSquared r"
  by (cases p; cases p0; cases r)
     (simp add: LengthSquared_def vsub_def vadd_def DotProduct_def algebra_simps)

lemma DotProduct_vadd: "DotProduct a (vadd b c) = DotProduct a b + DotProduct a c"
  by (simp add: DotProduct_def vadd_def algebra_simps)

lemma DotProduct_vscale: "DotProduct a (vscale b k) = k * DotProduct a b"
  by (simp add: DotProduct_def vscale_def algebra_simps)

lemma LengthSquared_vscale: "LengthSquared (vscale b k) = k * k * LengthSquared b"
  by (simp add: LengthSquared_def vscale_def algebra_simps)

lemma DotProduct_cross_self:
  "DotProduct a (CrossProduct a b) = 0" "DotProduct a (CrossProduct b a) = 0"
  by (simp_all add: DotProduct_def CrossProduct_def algebra_simps)

lemma DotProduct_cross_cyclic:
  "DotProduct b (CrossProduct c a) = DotProduct a (CrossProduct b c)"
  "DotProduct c (CrossProduct a b) = DotProduct a (CrossProduct b c)"
  by (simp_all add: DotProduct_def CrossProduct_def algebra_simps)

lemma dot_num:
  "2 * DotProduct (vsub (corner vs t 1) (corner vs t 0)) (radiusNum vs t)
     = LengthSquared (vsub (corner vs t 1) (corner vs t 0)) * radiusDen vs t"
  "2 * DotProduct (vsub (corner vs t 2) (corner vs t 0)) (radiusNum vs t)
     = LengthSquared (vsub (corner vs t 2) (corner vs t 0)) * radiusDen vs t"
  "2 * DotProduct (vsub (corner vs t 3) (corner vs t 0)) (radiusNum vs t)
     = LengthSquared (vsub (corner vs t 3) (corner vs t 0)) * radiusDen vs t"
  by (simp_all add: radiusNum_def radiusDen_def Let_def DotProduct_vadd DotProduct_vscale
      DotProduct_cross_self DotProduct_cross_cyclic)

lemma vsub_self: "vsub p p = ZERO"
  by (simp add: vsub_def ZERO_def)

lemma squared_distance_corner0:
  "LengthSquared (vsub (corner vs t 0) (circumcenter vs t))
     = LengthSquared (vscale (radiusNum vs t) (1 / radiusDen vs t))"
  by (simp add: circumcenter_def LengthSquared_shift vsub_self)
     (simp add: ZERO_def LengthSquared_def DotProduct_def)

lemma squared_distance_corner:
  assumes "radiusDen vs t \<noteq> 0" and "2 * DotProduct (vsub p (corner vs t 0)) (radiusNum vs t)
     = LengthSquared (vsub p (corner vs t 0)) * radiusDen vs t"
  shows "LengthSquared (vsub p (circumcenter vs t))
     = LengthSquared (vscale (radiusNum vs t) (1 / radiusDen vs t))"
proof -
  have "2 * DotProduct (vsub p (corner vs t 0)) (vscale (radiusNum vs t) (1 / radiusDen vs t))
      = (2 * DotProduct (vsub p (corner vs t 0)) (radiusNum vs t)) / radiusDen vs t"
    by (simp add: DotProduct_vscale)
  also have "\<dots> = LengthSquared (vsub p (corner vs t 0))"
    using assms by simp
  finally show ?thesis
    by (simp add: circumcenter_def LengthSquared_shift)
qed

lemma sqrt_min: "sqrt (min a b) = min (sqrt a) (sqrt b)"
  by (simp add: min_def)

lemma min_element4: "min_element [a, b, c, d] = min (min (min a b) c) d"
  by (simp add: min_element_def min.commute)

text \<open>
  Claim C10. \<^verbatim>\<open>GetTetrahedronCircumsphere\<close> has two branches and both return a sphere.
  When the absolute value of the denominator \<open>2 * u1 . (u2 x u3)\<close> is below
  \<^verbatim>\<open>M_EPSILON\<close> squared, it logs the warning and returns the sphere with centre zero and
  radius \<^verbatim>\<open>M_LARGE_VALUE\<close> squared, which holds every point whose distance from the origin
  is at most that radius. Otherwise it logs nothing, the centre is the computed circumcentre,
  and the radius is the least of the distances of the four corners from it; when the
  denominator is not zero these four distances are equal (in exact arithmetic), so the
  radius is each of them.
\<close>

theorem GetTetrahedronCircumsphere_cases:
  fixes M_EPSILON M_LARGE_VALUE vs t
  defines "r \<equiv> GetTetrahedronCircumsphere M_EPSILON M_LARGE_VALUE vs t"
    and "c \<equiv> circumcenter vs t"
  defines "d \<equiv> (\<lambda>i. distance (corner vs t i) c)"
  shows "(\<bar>radiusDen vs t\<bar> < M_EPSILON * M_EPSILON \<longrightarrow>
            fst r = [''Degenerate tetrahedron in tetrahedral mesh due to error in tetrahedral mesh generation'']
          \<and> snd r = \<lparr>center = ZERO, radius = M_LARGE_VALUE * M_LARGE_VALUE\<rparr>
          \<and> (\<forall>q. distance q ZERO \<le> M_LARGE_VALUE * M_LARGE_VALUE
                 \<longrightarrow> distance q (center (snd r)) \<le> radius (snd r)))
       \<and> (\<not> \<bar>radiusDen vs t\<bar> < M_EPSILON * M_EPSILON \<longrightarrow>
            fst r = []
          \<and> center (snd r) = c
          \<and> radius (snd r) = min (min (min (d 0) (d 1)) (d 2)) (d 3)
          \<and> (radiusDen vs t \<noteq> 0 \<longrightarrow> d 1 = d 0 \<and> d 2 = d 0 \<and> d 3 = d 0 \<and> radius (snd r) = d 0))"
proof (intro conjI impI)
  assume deg: "\<bar>radiusDen vs t\<bar> < M_EPSILON * M_EPSILON"
  then show "fst r = [''Degenerate tetrahedron in tetrahedral mesh due to error in tetrahedral mesh generation'']"
    and s: "snd r = \<lparr>center = ZERO, radius = M_LARGE_VALUE * M_LARGE_VALUE\<rparr>"
    by (simp_all add: r_def GetTetrahedronCircumsphere_def)
  show "\<forall>q. distance q ZERO \<le> M_LARGE_VALUE * M_LARGE_VALUE
                 \<longrightarrow> distance q (center (snd r)) \<le> radius (snd r)"
    by (simp add: s)
next
  assume nd: "\<not> \<bar>radiusDen vs t\<bar> < M_EPSILON * M_EPSILON"
  then show "fst r = []" and "center (snd r) = c"
    by (simp_all add: r_def c_def GetTetrahedronCircumsphere_def Let_def)
  from nd show rad: "radius (snd r) = min (min (min (d 0) (d 1)) (d 2)) (d 3)"
    by (simp add: r_def c_def d_def GetTetrahedronCircumsphere_def Let_def min_element4 sqrt_min
        distance_def)
  assume nz: "radiusDen vs t \<noteq> 0"
  have e: "LengthSquared (vsub (corner vs t i) c)
         = LengthSquared (vscale (radiusNum vs t) (1 / radiusDen vs t))"
    if "i = 0 \<or> i = 1 \<or> i = 2 \<or> i = 3" for i
    using that squared_distance_corner0 [of vs t] squared_distance_corner [OF nz dot_num(1)]
      squared_distance_corner [OF nz dot_num(2)] squared_distance_corner [OF nz dot_num(3)]
    unfolding c_def by auto
  show "d 1 = d 0" "d 2 = d 0" "d 3 = d 0"
    by (simp_all add: d_def distance_def e)
  then show "radius (snd r) = d 0"
    by (simp add: rad)
qed

lemma corner_unitCell:
  "corner unitVertices unitCell 0 = Vector3 0 0 0" "corner unitVertices unitCell 1 = Vector3 1 0 0"
  "corner unitVertices unitCell (Suc 0) = Vector3 1 0 0"
  "corner unitVertices unitCell 2 = Vector3 0 1 0" "corner unitVertices unitCell 3 = Vector3 0 0 1"
  by (simp_all add: corner_def unitVertices_def unitCell_def noNeighbors_def)

lemma corner_flatCell:
  "corner unitVertices flatCell 0 = Vector3 0 0 0" "corner unitVertices flatCell 1 = Vector3 1 0 0"
  "corner unitVertices flatCell (Suc 0) = Vector3 1 0 0"
  "corner unitVertices flatCell 2 = Vector3 0 1 0" "corner unitVertices flatCell 3 = Vector3 1 1 0"
  by (simp_all add: corner_def unitVertices_def flatCell_def noNeighbors_def)

lemma den_unit: "radiusDen unitVertices unitCell = 2"
  by (simp add: radiusDen_def corner_unitCell Let_def vsub_def CrossProduct_def DotProduct_def)

lemma den_flat: "radiusDen unitVertices flatCell = 0"
  by (simp add: radiusDen_def corner_flatCell Let_def vsub_def CrossProduct_def DotProduct_def)

lemma center_unit: "circumcenter unitVertices unitCell = Vector3 (1/2) (1/2) (1/2)"
  by (simp add: circumcenter_def den_unit radiusNum_def corner_unitCell Let_def vsub_def
      CrossProduct_def DotProduct_def LengthSquared_def vadd_def vscale_def)

theorem GetTetrahedronCircumsphere_cases_witness:
  "snd (GetTetrahedronCircumsphere (1 / 1000000) 100000000 unitVertices flatCell)
      = \<lparr>center = ZERO, radius = 10000000000000000\<rparr>
   \<and> fst (GetTetrahedronCircumsphere (1 / 1000000) 100000000 unitVertices flatCell) \<noteq> []
   \<and> distance (Vector3 3 4 0) (center (snd (GetTetrahedronCircumsphere (1 / 1000000) 100000000 unitVertices flatCell)))
      \<le> radius (snd (GetTetrahedronCircumsphere (1 / 1000000) 100000000 unitVertices flatCell))
   \<and> center (snd (GetTetrahedronCircumsphere (1 / 1000000) 100000000 unitVertices unitCell))
      = Vector3 (1/2) (1/2) (1/2)
   \<and> radius (snd (GetTetrahedronCircumsphere (1 / 1000000) 100000000 unitVertices unitCell))
      = distance (Vector3 0 0 0) (Vector3 (1/2) (1/2) (1/2))
   \<and> distance (Vector3 1 0 0) (Vector3 (1/2) (1/2) (1/2)) = distance (Vector3 0 0 0) (Vector3 (1/2) (1/2) (1/2))"
proof -
  have d5: "distance (Vector3 3 4 0) ZERO = 5"
    by (simp add: distance_def vsub_def ZERO_def LengthSquared_def real_sqrt_unique [of 5 25])
  show ?thesis
    using GetTetrahedronCircumsphere_cases [of unitVertices flatCell "1 / 1000000" 100000000]
      GetTetrahedronCircumsphere_cases [of unitVertices unitCell "1 / 1000000" 100000000]
    by (simp add: den_unit den_flat center_unit d5 corner_unitCell)
qed

subsection \<open>Retriangulation\<close>

lemma allocateSpace_eq:
  "allocateSpace fresh freshSphere n (ts, ctx, rl) =
     (ts @ replicate (n - length rl) fresh,
      ctx\<lparr>circumspheres := circumspheres ctx @ replicate (n - length rl) freshSphere,
          removed := removed ctx @ replicate (n - length rl) True\<rparr>,
      rl @ [length ts..<length ts + (n - length rl)])"
proof (induction fresh freshSphere n "(ts, ctx, rl)" arbitrary: ts ctx rl rule: allocateSpace.induct)
  case (1 fresh freshSphere n ts ctx rl)
  show ?case
  proof (cases "length rl < n")
    case False
    then show ?thesis
      by (subst allocateSpace.simps) simp
  next
    case True
    define k where "k = n - Suc (length rl)"
    have n: "n - length rl = Suc k" and n': "n - length (rl @ [length ts]) = k"
      using True by (simp_all add: k_def)
    have u: "[length ts..<length ts + Suc k] = length ts # [Suc (length ts)..<Suc (length ts) + k]"
      by (simp add: upt_conv_Cons del: upt_Suc)
    have "allocateSpace fresh freshSphere n (ts, ctx, rl)
        = allocateSpace fresh freshSphere n
            (ts @ [fresh],
             ctx\<lparr>circumspheres := circumspheres ctx @ [freshSphere], removed := removed ctx @ [True]\<rparr>,
             rl @ [length ts])"
      using True by (subst allocateSpace.simps) simp
    also have "\<dots> = ((ts @ [fresh]) @ replicate k fresh,
      ctx\<lparr>circumspheres := (circumspheres ctx @ [freshSphere]) @ replicate k freshSphere,
          removed := (removed ctx @ [True]) @ replicate k True\<rparr>,
      (rl @ [length ts]) @ [length (ts @ [fresh])..<length (ts @ [fresh]) + k])"
      using 1 [OF True] unfolding n' by simp
    finally show ?thesis
      unfolding n u by simp
  qed
qed

lemma circumsphere_indices:
  "indices t = indices t' \<Longrightarrow>
     GetTetrahedronCircumsphere e l vs t = GetTetrahedronCircumsphere e l vs t'"
  by (simp add: GetTetrahedronCircumsphere_def radiusDen_def radiusNum_def circumcenter_def corner_def)

lemma setNeighbor_length [simp]: "length (setNeighbor ts a f n) = length ts"
  by (simp add: setNeighbor_def)

lemma setNeighbor_nth:
  "k < length ts \<Longrightarrow> setNeighbor ts a f n ! k =
     (if k = a then (ts ! a)\<lparr>neighbors := (neighbors (ts ! a))[f := n]\<rparr> else ts ! k)"
  by (simp add: setNeighbor_def)

lemma fillCell_step:
  assumes f: "fillCell e l vs out hs c i (ts, ctx) = (ts', ctx')"
    and X: "out ! i < length ts"
    and T: "face_tetIndex (faces hs ! i) \<noteq> M_MAX_UNSIGNED \<Longrightarrow> face_tetIndex (faces hs ! i) \<noteq> out ! i"
  shows "length ts' = length ts"
    and "indices (ts' ! (out ! i)) =
           [face_indices (faces hs ! i) ! 0, face_indices (faces hs ! i) ! 1,
            face_indices (faces hs ! i) ! 2, c]"
    and "neighbors (ts' ! (out ! i)) =
           [out ! (face_neighbors (faces hs ! i) ! 0), out ! (face_neighbors (faces hs ! i) ! 1),
            out ! (face_neighbors (faces hs ! i) ! 2), face_tetIndex (faces hs ! i)]"
    and "\<And>k. k < length ts \<Longrightarrow> k \<noteq> out ! i \<Longrightarrow> indices (ts' ! k) = indices (ts ! k)"
    and "\<And>k. k < length ts \<Longrightarrow> k \<noteq> out ! i \<Longrightarrow>
           (face_tetIndex (faces hs ! i) \<noteq> M_MAX_UNSIGNED \<Longrightarrow> k \<noteq> face_tetIndex (faces hs ! i)) \<Longrightarrow>
           ts' ! k = ts ! k"
    and "\<And>k. k < length ts \<Longrightarrow> length (neighbors (ts' ! k)) = length (neighbors (ts ! k))
                 \<or> k = out ! i"
    and "face_tetIndex (faces hs ! i) \<noteq> M_MAX_UNSIGNED \<Longrightarrow> face_tetIndex (faces hs ! i) < length ts \<Longrightarrow>
           neighbors (ts' ! face_tetIndex (faces hs ! i))
             = (neighbors (ts ! face_tetIndex (faces hs ! i)))[face_tetFace (faces hs ! i) := out ! i]"
    and "removed ctx' = (removed ctx)[out ! i := False]"
    and "circumspheres ctx' =
           (circumspheres ctx)[out ! i := snd (GetTetrahedronCircumsphere e l vs (ts' ! (out ! i)))]"
  using f X T
  by (auto simp add: fillCell_def Let_def setNeighbor_nth split: if_splits)

lemma fill_invariant:
  assumes n: "n \<le> length out"
    and d: "distinct (take n out)"
    and rng: "\<And>i. i < n \<Longrightarrow> out ! i < length ts"
    and bref: "\<And>i. i < n \<Longrightarrow> face_tetIndex (faces hs ! i) \<noteq> M_MAX_UNSIGNED \<Longrightarrow>
                 face_tetIndex (faces hs ! i) \<notin> set (take n out)"
    and uniq: "\<And>i j. i < j \<Longrightarrow> j < n \<Longrightarrow> face_tetIndex (faces hs ! i) \<noteq> M_MAX_UNSIGNED \<Longrightarrow>
                 face_tetIndex (faces hs ! i) = face_tetIndex (faces hs ! j) \<Longrightarrow>
                 face_tetFace (faces hs ! i) \<noteq> face_tetFace (faces hs ! j)"
    and tf: "\<And>i. i < n \<Longrightarrow> face_tetIndex (faces hs ! i) \<noteq> M_MAX_UNSIGNED \<Longrightarrow>
                 face_tetIndex (faces hs ! i) < length ts
               \<and> face_tetFace (faces hs ! i) < length (neighbors (ts ! face_tetIndex (faces hs ! i)))"
    and lens: "length (removed ctx) = length ts" "length (circumspheres ctx) = length ts"
  shows "filledUpTo e l vs out hs c n (ts, ctx) (fold (fillCell e l vs out hs c) [0..<n] (ts, ctx))"
  using n d rng bref uniq tf
proof (induction n)
  case 0
  show ?case
    by (simp add: filledUpTo_def lens)
next
  case (Suc n)
  obtain ts1 ctx1 where st1: "fold (fillCell e l vs out hs c) [0..<n] (ts, ctx) = (ts1, ctx1)"
    by (cases "fold (fillCell e l vs out hs c) [0..<n] (ts, ctx)")
  obtain ts2 ctx2 where st2: "fillCell e l vs out hs c n (ts1, ctx1) = (ts2, ctx2)"
    by (cases "fillCell e l vs out hs c n (ts1, ctx1)")
  have tk: "take (Suc n) out = take n out @ [out ! n]"
    using Suc.prems(1) by (simp add: take_Suc_conv_app_nth)
  have dn: "distinct (take n out)" and xn: "out ! n \<notin> set (take n out)"
    using Suc.prems(2) by (simp_all add: tk)
  have mem: "out ! i \<in> set (take n out)" if "i < n" for i
    using that Suc.prems(1) by (auto simp add: in_set_conv_nth intro!: exI [of _ i])
  have backn: "face_tetIndex (faces hs ! i) \<notin> set (take n out)"
    and backx: "face_tetIndex (faces hs ! i) \<noteq> out ! n"
    if "i < Suc n" "face_tetIndex (faces hs ! i) \<noteq> M_MAX_UNSIGNED" for i
    using Suc.prems(4) [OF that] by (simp_all add: tk)
  have IH: "filledUpTo e l vs out hs c n (ts, ctx) (ts1, ctx1)"
    using Suc.IH [OF _ dn] Suc.prems(1,3,5,6) backn st1 by simp
  have len1: "length ts1 = length ts" "length (removed ctx1) = length ts"
    "length (circumspheres ctx1) = length ts"
    using IH by (simp_all add: filledUpTo_def)
  have old: "indices (ts1 ! (out ! i)) =
                   [face_indices (faces hs ! i) ! 0, face_indices (faces hs ! i) ! 1,
                    face_indices (faces hs ! i) ! 2, c]"
      "neighbors (ts1 ! (out ! i)) =
                   [out ! (face_neighbors (faces hs ! i) ! 0), out ! (face_neighbors (faces hs ! i) ! 1),
                    out ! (face_neighbors (faces hs ! i) ! 2), face_tetIndex (faces hs ! i)]"
      "\<not> removed ctx1 ! (out ! i)"
      "circumspheres ctx1 ! (out ! i) = snd (GetTetrahedronCircumsphere e l vs (ts1 ! (out ! i)))"
      "face_tetIndex (faces hs ! i) \<noteq> M_MAX_UNSIGNED \<Longrightarrow>
          neighbors (ts1 ! face_tetIndex (faces hs ! i)) ! face_tetFace (faces hs ! i) = out ! i"
    if "i < n" for i
    using IH that by (simp_all add: filledUpTo_def)
  have frame1: "indices (ts1 ! k) = indices (ts ! k)"
      "length (neighbors (ts1 ! k)) = length (neighbors (ts ! k))"
      "removed ctx1 ! k = removed ctx ! k"
      "circumspheres ctx1 ! k = circumspheres ctx ! k"
      "(\<And>i. i < n \<Longrightarrow> face_tetIndex (faces hs ! i) \<noteq> M_MAX_UNSIGNED \<Longrightarrow>
            face_tetIndex (faces hs ! i) \<noteq> k) \<Longrightarrow> ts1 ! k = ts ! k"
    if "k < length ts" "k \<notin> set (take n out)" for k
    using IH that by (simp_all add: filledUpTo_def)
  have X: "out ! n < length ts1"
    using Suc.prems(3) [of n] len1 by simp
  note step = fillCell_step [OF st2 X backx [of n, simplified]]
  have keep: "ts2 ! k = ts1 ! k"
    if "k < length ts" "k \<noteq> out ! n"
      "face_tetIndex (faces hs ! n) \<noteq> M_MAX_UNSIGNED \<Longrightarrow> k \<noteq> face_tetIndex (faces hs ! n)" for k
    using step(5) [of k] that len1 by simp
  have newlen: "length ts2 = length ts" "length (removed ctx2) = length ts"
    "length (circumspheres ctx2) = length ts"
    using step(1,8,9) len1 by simp_all
  have a: "indices (ts2 ! (out ! i)) =
                   [face_indices (faces hs ! i) ! 0, face_indices (faces hs ! i) ! 1,
                    face_indices (faces hs ! i) ! 2, c]
         \<and> neighbors (ts2 ! (out ! i)) =
                   [out ! (face_neighbors (faces hs ! i) ! 0), out ! (face_neighbors (faces hs ! i) ! 1),
                    out ! (face_neighbors (faces hs ! i) ! 2), face_tetIndex (faces hs ! i)]
         \<and> \<not> removed ctx2 ! (out ! i)
         \<and> circumspheres ctx2 ! (out ! i) = snd (GetTetrahedronCircumsphere e l vs (ts2 ! (out ! i)))"
    if i: "i < Suc n" for i
  proof (cases "i = n")
    case True
    then show ?thesis
      using step(2,3,8,9) X len1 by simp
  next
    case False
    then have lt: "i < n" using i by simp
    have ne: "out ! i \<noteq> out ! n"
      using mem [OF lt] xn by auto
    have "out ! i \<noteq> face_tetIndex (faces hs ! n)"
      if "face_tetIndex (faces hs ! n) \<noteq> M_MAX_UNSIGNED"
      using mem [OF lt] backn [of n] that by auto
    then have "ts2 ! (out ! i) = ts1 ! (out ! i)"
      using keep [of "out ! i"] ne Suc.prems(3) [of i] lt by simp
    then show ?thesis
      using old [OF lt] step(8,9) ne by simp
  qed
  have b: "neighbors (ts2 ! face_tetIndex (faces hs ! i)) ! face_tetFace (faces hs ! i) = out ! i"
    if i: "i < Suc n" and m: "face_tetIndex (faces hs ! i) \<noteq> M_MAX_UNSIGNED" for i
  proof -
    have ti: "face_tetIndex (faces hs ! i) < length ts"
      and fi: "face_tetFace (faces hs ! i) < length (neighbors (ts ! face_tetIndex (faces hs ! i)))"
      using Suc.prems(6) [OF i m] by simp_all
    have fi1: "face_tetFace (faces hs ! i) < length (neighbors (ts1 ! face_tetIndex (faces hs ! i)))"
      using fi frame1(2) [OF ti backn [OF i m]] by simp
    show ?thesis
    proof (cases "i = n")
      case True
      then show ?thesis
        using step(7) m ti fi1 len1 by simp
    next
      case False
      then have lt: "i < n" using i by simp
      show ?thesis
      proof (cases "face_tetIndex (faces hs ! i) = face_tetIndex (faces hs ! n)")
        case True
        then have "face_tetFace (faces hs ! i) \<noteq> face_tetFace (faces hs ! n)"
          using Suc.prems(5) [of i n] lt m by simp
        then show ?thesis
          using step(7) True m ti len1 old(5) [OF lt m] by simp
      next
        case False
        then show ?thesis
          using keep [OF ti backx [OF i m]] False old(5) [OF lt m] by simp
      qed
    qed
  qed
  have fr: "indices (ts2 ! k) = indices (ts ! k)
           \<and> length (neighbors (ts2 ! k)) = length (neighbors (ts ! k))
           \<and> removed ctx2 ! k = removed ctx ! k
           \<and> circumspheres ctx2 ! k = circumspheres ctx ! k
           \<and> ((\<forall>i<Suc n. face_tetIndex (faces hs ! i) \<noteq> M_MAX_UNSIGNED \<longrightarrow> face_tetIndex (faces hs ! i) \<noteq> k)
                 \<longrightarrow> ts2 ! k = ts ! k)"
    if k: "k < length ts" and kn: "k \<notin> set (take (Suc n) out)" for k
  proof -
    have k1: "k \<notin> set (take n out)" and k2: "k \<noteq> out ! n"
      using kn by (simp_all add: tk)
    have i1: "indices (ts2 ! k) = indices (ts ! k)"
      using step(4) [of k] k k2 len1 frame1(1) [OF k k1] by simp
    have l1: "length (neighbors (ts2 ! k)) = length (neighbors (ts ! k))"
      using step(6) [of k] k k2 len1 frame1(2) [OF k k1] by simp
    have r1: "removed ctx2 ! k = removed ctx ! k" "circumspheres ctx2 ! k = circumspheres ctx ! k"
      using step(8,9) k2 frame1(3,4) [OF k k1] by simp_all
    have "ts2 ! k = ts ! k"
      if q: "\<forall>i<Suc n. face_tetIndex (faces hs ! i) \<noteq> M_MAX_UNSIGNED \<longrightarrow> face_tetIndex (faces hs ! i) \<noteq> k"
    proof -
      have "k \<noteq> face_tetIndex (faces hs ! n)" if "face_tetIndex (faces hs ! n) \<noteq> M_MAX_UNSIGNED"
        using q that by auto
      moreover have "ts1 ! k = ts ! k"
        using frame1(5) [OF k k1] q by auto
      ultimately show ?thesis
        using keep [OF k k2] by simp
    qed
    then show ?thesis
      using i1 l1 r1 by simp
  qed
  have "filledUpTo e l vs out hs c (Suc n) (ts, ctx) (ts2, ctx2)"
    unfolding filledUpTo_def using newlen a b fr by simp
  then show ?case
    by (simp add: st1 st2)
qed

lemma faceVertices_new:
  assumes "indices t = [f ! 0, f ! 1, f ! 2, v]" and "j < 3"
  shows "faceVertices t j = {f ! ((j + 1) mod 3), f ! ((j + 2) mod 3)} \<union> {v}"
proof -
  have "j = 0 \<or> j = 1 \<or> j = 2"
    using assms(2) by auto
  then show ?thesis
    using assms(1) by (auto simp add: faceVertices_def upt_rec numeral_2_eq_2)
qed

lemma GetEdge_set:
  assumes "GetEdge f j = GetEdge g k"
  shows "{face_indices f ! ((j + 1) mod 3), face_indices f ! ((j + 2) mod 3)}
       = {face_indices g ! ((k + 1) mod 3), face_indices g ! ((k + 2) mod 3)}"
  using assms by (auto simp add: GetEdge_def Let_def min_def max_def split: if_splits)

text \<open>
  Claim C4. The allocation loop and \<^verbatim>\<open>FillStarShapedHole\<close>, run on a hole surface of
  \<open>F\<close> faces and the vector of removed cells: the output cells are the removed cells
  followed by as many appended cells as are missing, so removed cells are reused before
  cells are appended; exactly \<open>F\<close> distinct cells are written, one per face. The cell of
  face \<open>i\<close> has the three vertex indices of the face and the inserted vertex as its corner
  3; its neighbour in slot 3 is the cell the face refers to (or the sentinel), and that cell's
  slot \<open>tetFace\<close> points back at it; its neighbours in slots 0 to 2 are the output cells of
  the faces adjacent to face \<open>i\<close>, which are new cells too, and where the adjacent face
  shares the edge, the two cells share the face; its removed flag is cleared and its cached
  circumsphere is the one of the cell. No other cell changes its vertex indices or its flag.
  The hypotheses say that the removed cells are distinct cells of the mesh, that the faces
  refer to cells that are not removed, no two faces to the same slot, and that the
  neighbours of a face are faces of the surface (it is closed).
\<close>

theorem retriangulation_star:
  fixes ts :: "Tetrahedron list" and hs :: TetrahedralMeshSurface
  defines "F \<equiv> Size_surface hs"
  defines "tri \<equiv> (\<lambda>i. faces hs ! i)"
  assumes alloc: "allocateSpace fresh freshSphere F (ts, ctx, removedTetrahedrons) = (ts1, ctx1, out)"
    and fill: "FillStarShapedHole e l vs (ts1, ctx1) out hs newVertexIndex = (ts2, ctx2)"
    and slots: "distinct removedTetrahedrons" "\<forall>r \<in> set removedTetrahedrons. r < length ts"
    and lens: "length (removed ctx) = length ts" "length (circumspheres ctx) = length ts"
    and refs: "\<forall>i<F. face_tetIndex (tri i) \<noteq> M_MAX_UNSIGNED \<longrightarrow>
                 face_tetIndex (tri i) < length ts \<and> face_tetIndex (tri i) \<notin> set removedTetrahedrons
               \<and> face_tetFace (tri i) < length (neighbors (ts ! face_tetIndex (tri i)))"
    and uniq: "\<forall>i<F. \<forall>j<F. i \<noteq> j \<and> face_tetIndex (tri i) \<noteq> M_MAX_UNSIGNED
                 \<and> face_tetIndex (tri i) = face_tetIndex (tri j) \<longrightarrow> face_tetFace (tri i) \<noteq> face_tetFace (tri j)"
    and closed: "\<forall>i<F. \<forall>j<3. face_neighbors (tri i) ! j < F"
  shows "out = removedTetrahedrons @ [length ts..<length ts + (F - length removedTetrahedrons)]
    \<and> length ts2 = length ts + (F - length removedTetrahedrons)
    \<and> distinct (take F out) \<and> length (take F out) = F
    \<and> (\<forall>i<F.
          indices (ts2 ! (out ! i)) =
            [face_indices (tri i) ! 0, face_indices (tri i) ! 1, face_indices (tri i) ! 2, newVertexIndex]
        \<and> neighbors (ts2 ! (out ! i)) =
            [out ! (face_neighbors (tri i) ! 0), out ! (face_neighbors (tri i) ! 1),
             out ! (face_neighbors (tri i) ! 2), face_tetIndex (tri i)]
        \<and> (\<forall>j<3. neighbors (ts2 ! (out ! i)) ! j \<in> set (take F out))
        \<and> (face_tetIndex (tri i) \<noteq> M_MAX_UNSIGNED \<longrightarrow>
              neighbors (ts2 ! face_tetIndex (tri i)) ! face_tetFace (tri i) = out ! i)
        \<and> \<not> removed ctx2 ! (out ! i)
        \<and> circumspheres ctx2 ! (out ! i) = snd (GetTetrahedronCircumsphere e l vs (ts2 ! (out ! i))))
    \<and> (\<forall>k<length ts2. k \<notin> set (take F out) \<longrightarrow>
          indices (ts2 ! k) = indices (ts ! k) \<and> removed ctx2 ! k = removed ctx ! k)
    \<and> (\<forall>i<F. \<forall>j<3. \<forall>j'<3.
          GetEdge (tri (face_neighbors (tri i) ! j)) j' = GetEdge (tri i) j \<longrightarrow>
          faceVertices (ts2 ! (out ! (face_neighbors (tri i) ! j))) j' = faceVertices (ts2 ! (out ! i)) j)"
proof -
  define R where "R = length removedTetrahedrons"
  define A where "A = F - R"
  have out: "out = removedTetrahedrons @ [length ts..<length ts + A]"
    and ts1: "ts1 = ts @ replicate A fresh"
    and ctx1: "ctx1 = ctx\<lparr>circumspheres := circumspheres ctx @ replicate A freshSphere,
          removed := removed ctx @ replicate A True\<rparr>"
    using alloc [unfolded allocateSpace_eq] by (simp_all add: A_def R_def)
  have lout: "F \<le> length out"
    by (simp add: out A_def R_def)
  have dout: "distinct out"
    using slots by (auto simp add: out)
  have dtake: "distinct (take F out)"
    using dout by (rule distinct_take)
  have rng: "out ! i < length ts1" if "i < length out" for i
    using that slots(2) by (auto simp add: out ts1 nth_append intro: trans_less_add1)
  have notin: "face_tetIndex (tri i) \<notin> set (take F out)"
    if "i < F" "face_tetIndex (tri i) \<noteq> M_MAX_UNSIGNED" for i
  proof -
    have "face_tetIndex (tri i) \<notin> set out"
      using refs that by (auto simp add: out)
    then show ?thesis
      by (auto dest: in_set_takeD)
  qed
  have tf: "face_tetIndex (tri i) < length ts1
        \<and> face_tetFace (tri i) < length (neighbors (ts1 ! face_tetIndex (tri i)))"
    if "i < F" "face_tetIndex (tri i) \<noteq> M_MAX_UNSIGNED" for i
    using refs that by (auto simp add: ts1 nth_append)
  have inv: "filledUpTo e l vs out hs newVertexIndex F (ts1, ctx1) (ts2, ctx2)"
    using fill_invariant [of F out ts1 hs ctx1 e l vs newVertexIndex, OF lout dtake]
      rng lout notin uniq tf fill lens
    by (simp add: FillStarShapedHole_def F_def [symmetric] tri_def ts1 ctx1) 
  have l2: "length ts2 = length ts + A"
    using inv by (simp add: filledUpTo_def ts1)
  have cell: "indices (ts2 ! (out ! i)) =
            [face_indices (tri i) ! 0, face_indices (tri i) ! 1, face_indices (tri i) ! 2, newVertexIndex]"
      "neighbors (ts2 ! (out ! i)) =
            [out ! (face_neighbors (tri i) ! 0), out ! (face_neighbors (tri i) ! 1),
             out ! (face_neighbors (tri i) ! 2), face_tetIndex (tri i)]"
      "face_tetIndex (tri i) \<noteq> M_MAX_UNSIGNED \<Longrightarrow>
              neighbors (ts2 ! face_tetIndex (tri i)) ! face_tetFace (tri i) = out ! i"
      "\<not> removed ctx2 ! (out ! i)"
      "circumspheres ctx2 ! (out ! i) = snd (GetTetrahedronCircumsphere e l vs (ts2 ! (out ! i)))"
    if "i < F" for i
    using inv that by (simp_all add: filledUpTo_def tri_def)
  have isnew: "out ! k \<in> set (take F out)" if "k < F" for k
    using that lout by (auto simp add: in_set_conv_nth intro!: exI [of _ k])
  have nb: "neighbors (ts2 ! (out ! i)) ! j \<in> set (take F out)" if "i < F" "j < 3" for i j
  proof -
    have "j = 0 \<or> j = 1 \<or> j = 2"
      using that(2) by auto
    then have "neighbors (ts2 ! (out ! i)) ! j = out ! (face_neighbors (tri i) ! j)"
      by (auto simp add: cell(2) [OF that(1)])
    then show ?thesis
      using isnew closed that by simp
  qed
  have frame: "indices (ts2 ! k) = indices (ts ! k) \<and> removed ctx2 ! k = removed ctx ! k"
    if k: "k < length ts2" "k \<notin> set (take F out)" for k
  proof -
    have k1: "k < length ts1"
      using k(1) l2 by (simp add: ts1)
    have "k < length ts"
    proof (rule ccontr)
      assume "\<not> k < length ts"
      then obtain m where m: "k = length ts + m" "m < A"
        using k1 by (auto simp add: ts1 intro: that [of "k - length ts"])
      have "R + m < F"
        using m(2) by (simp add: A_def)
      moreover have "out ! (R + m) = k"
        using m by (simp add: out R_def nth_append)
      ultimately show False
        using k(2) isnew by blast
    qed
    moreover have "indices (ts2 ! k) = indices (ts1 ! k) \<and> removed ctx2 ! k = removed ctx1 ! k"
      using inv k1 k(2) by (simp add: filledUpTo_def)
    ultimately show ?thesis
      using lens by (simp add: ts1 ctx1 nth_append)
  qed
  have shared: "faceVertices (ts2 ! (out ! (face_neighbors (tri i) ! j))) j' = faceVertices (ts2 ! (out ! i)) j"
    if "i < F" "j < 3" "j' < 3"
      and e: "GetEdge (tri (face_neighbors (tri i) ! j)) j' = GetEdge (tri i) j" for i j j'
  proof -
    have k: "face_neighbors (tri i) ! j < F"
      using closed that by simp
    show ?thesis
      unfolding faceVertices_new [OF cell(1) [OF k] that(3)] faceVertices_new [OF cell(1) [OF that(1)] that(2)]
        GetEdge_set [OF e] ..
  qed
  show ?thesis
    apply (intro conjI allI impI)
    subgoal using out by (simp add: A_def R_def)
    subgoal using l2 by (simp add: A_def R_def)
    subgoal by (rule dtake)
    subgoal using lout by simp
    subgoal for i by (rule cell(1))
    subgoal for i by (rule cell(2))
    subgoal for i j by (rule nb)
    subgoal for i by (rule cell(3))
    subgoal for i using cell(4) by simp
    subgoal for i by (rule cell(5))
    subgoal for k using frame by simp
    subgoal for k using frame by simp
    subgoal for i j j' by (rule shared)
    done
qed

theorem retriangulation_star_witness:
  "snd (snd exAllocated) = [0, 2, 3, 4]
   \<and> length (fst exFilled) = 5
   \<and> indices (fst exFilled ! 0) = [1, 2, 3, 5]
   \<and> neighbors (fst exFilled ! 0) = [2, 3, 4, 1]
   \<and> neighbors (fst exFilled ! 1) ! 0 = 0
   \<and> \<not> removed (snd exFilled) ! 0
   \<and> faceVertices (fst exFilled ! 2) 0 = faceVertices (fst exFilled ! 0) 0
   \<and> indices (fst exFilled ! 1) = [4, 1, 2, 3]"
proof -
  have sz: "Size_surface exHole = 4"
    by (simp add: Size_surface_def exHole_def)
  have t0: "faces exHole ! 0 = \<lparr>face_indices = [1, 2, 3], face_neighbors = [1, 2, 3], unusedIndex = 4,
        face_tetIndex = 1, face_tetFace = 0\<rparr>"
    by (simp add: exHole_def)
  have ix: "face_tetIndex (faces exHole ! i) = (if i = 0 then 1 else M_MAX_UNSIGNED)"
    "face_tetFace (faces exHole ! i) = (if i = 0 then 0 else M_MAX_UNSIGNED)" if "i < 4" for i
    using that unfolding less4 by (auto simp add: exHole_def)
  have "\<forall>i<4. \<forall>j<3. face_neighbors (faces exHole ! i) ! j < 4"
    unfolding all_less4 all_less3 by (simp add: exHole_def)
  then have nbs: "face_neighbors (faces exHole ! i) ! j < 4" if "i < 4" "j < 3" for i j
    using that by simp
  have big: "(1::nat) \<noteq> M_MAX_UNSIGNED" "Suc 0 \<noteq> M_MAX_UNSIGNED"
    by (simp_all add: M_MAX_UNSIGNED_def)
  have out: "snd (snd exAllocated) = [0, 2, 3, 4]"
    by (simp add: exAllocated_def allocateSpace_eq sz exCells_def upt_rec)
  have a: "allocateSpace exFresh exSphere (Size_surface exHole) (exCells, exContext, [0])
      = (fst exAllocated, fst (snd exAllocated), snd (snd exAllocated))"
    by (simp add: exAllocated_def)
  have f: "FillStarShapedHole (1 / 1000000) 100000000 [] (fst exAllocated, fst (snd exAllocated))
      (snd (snd exAllocated)) exHole 5 = (fst exFilled, snd exFilled)"
    by (simp add: exFilled_def)
  have h: "distinct [0::nat]" "\<forall>r \<in> set [0::nat]. r < length exCells"
    "length (removed exContext) = length exCells" "length (circumspheres exContext) = length exCells"
    by (simp_all add: exCells_def exContext_def)
  have refs: "\<forall>i<Size_surface exHole. face_tetIndex (faces exHole ! i) \<noteq> M_MAX_UNSIGNED \<longrightarrow>
                 face_tetIndex (faces exHole ! i) < length exCells
               \<and> face_tetIndex (faces exHole ! i) \<notin> set [0]
               \<and> face_tetFace (faces exHole ! i) < length (neighbors (exCells ! face_tetIndex (faces exHole ! i)))"
    unfolding sz by (simp add: ix) (simp add: exCells_def noNeighbors_def)
  have uniq: "\<forall>i<Size_surface exHole. \<forall>j<Size_surface exHole.
       i \<noteq> j \<and> face_tetIndex (faces exHole ! i) \<noteq> M_MAX_UNSIGNED
     \<and> face_tetIndex (faces exHole ! i) = face_tetIndex (faces exHole ! j) \<longrightarrow>
       face_tetFace (faces exHole ! i) \<noteq> face_tetFace (faces exHole ! j)"
    unfolding sz by (auto simp add: ix big)
  have closed: "\<forall>i<Size_surface exHole. \<forall>j<3. face_neighbors (faces exHole ! i) ! j < Size_surface exHole"
    unfolding sz using nbs by simp
  note r = retriangulation_star [OF a f h refs uniq closed, unfolded sz out]
  note len = r [THEN conjunct2, THEN conjunct1]
  note cells = r [THEN conjunct2, THEN conjunct2, THEN conjunct2, THEN conjunct2, THEN conjunct1, rule_format]
  note frame = r [THEN conjunct2, THEN conjunct2, THEN conjunct2, THEN conjunct2, THEN conjunct2,
      THEN conjunct1, rule_format]
  note shared = r [THEN conjunct2, THEN conjunct2, THEN conjunct2, THEN conjunct2, THEN conjunct2,
      THEN conjunct2, rule_format]
  have c0: "indices (fst exFilled ! 0) = [1, 2, 3, 5]" "neighbors (fst exFilled ! 0) = [2, 3, 4, 1]"
    "neighbors (fst exFilled ! 1) ! 0 = 0" "\<not> removed (snd exFilled) ! 0"
    using cells [of 0] by (simp_all add: t0 big)
  have sh: "faceVertices (fst exFilled ! 2) 0 = faceVertices (fst exFilled ! 0) 0"
    using shared [of 0 0 0] by (simp add: t0) (simp add: exHole_def GetEdge_def)
  have fr: "indices (fst exFilled ! 1) = [4, 1, 2, 3]"
    using frame [of 1] len by (simp add: exCells_def)
  have l5: "length (fst exFilled) = 5"
    using len by (simp add: exCells_def)
  show ?thesis
    using out c0 sh fr l5 by simp
qed

subsection \<open>The retry loop\<close>

lemma wellFormed_iff:
  "wellFormed ts ctx \<longleftrightarrow> length (removed ctx) = length ts \<and> cellsInRange ts"
  by (auto simp add: wellFormed_def cellsInRange_def list_all_iff)

lemma filter_Not_update:
  "n < length xs \<Longrightarrow> \<not> xs ! n \<Longrightarrow>
     Suc (length (filter Not (xs[n := True]))) = length (filter Not xs)"
proof (induction xs arbitrary: n)
  case Nil
  then show ?case by simp
next
  case (Cons x xs)
  then show ?case
    by (cases n) auto
qed

lemma live_update:
  "n < length (removed ctx) \<Longrightarrow> \<not> removed ctx ! n \<Longrightarrow>
     Suc (live (ctx\<lparr>removed := (removed ctx)[n := True]\<rparr>)) = live ctx"
  by (simp add: live_def filter_Not_update)

lemma processNeighbor_props:
  assumes L: "length (removed ctx) = L"
    and nb: "neighbors tetrahedron ! faceIndex = M_MAX_UNSIGNED \<or> neighbors tetrahedron ! faceIndex < L"
    and r: "\<forall>x \<in> set rl. x < L"
  shows "\<exists>rl' ctx'. processNeighbor IsInside position tetrahedron faceIndex (rl, ctx) = (rl', ctx')
          \<and> length (removed ctx') = L \<and> live ctx' + length rl' = live ctx + length rl
          \<and> (\<forall>x \<in> set rl'. x < L) \<and> length rl \<le> length rl'
          \<and> take (length rl) rl' = rl
          \<and> circumspheres ctx' = circumspheres ctx"
proof (cases "neighbors tetrahedron ! faceIndex \<noteq> M_MAX_UNSIGNED
    \<and> \<not> removed ctx ! (neighbors tetrahedron ! faceIndex)
    \<and> IsInside ctx (neighbors tetrahedron ! faceIndex) position")
  case False
  then have "processNeighbor IsInside position tetrahedron faceIndex (rl, ctx) = (rl, ctx)"
    by (auto simp add: processNeighbor_def Let_def)
  then show ?thesis
    using L r by simp
next
  case True
  define n where "n = neighbors tetrahedron ! faceIndex"
  have n: "n < length (removed ctx)" "\<not> removed ctx ! n"
    using True nb L by (simp_all add: n_def)
  have "processNeighbor IsInside position tetrahedron faceIndex (rl, ctx)
      = (rl @ [n], ctx\<lparr>removed := (removed ctx)[n := True]\<rparr>)"
    using True by (simp add: processNeighbor_def Let_def n_def)
  moreover have "live (ctx\<lparr>removed := (removed ctx)[n := True]\<rparr>) + length (rl @ [n]) = live ctx + length rl"
    using live_update [OF n] by simp
  ultimately show ?thesis
    using L r n by simp
qed

lemma processNeighbors_props:
  assumes L: "length (removed ctx) = L"
    and nb: "\<forall>f \<in> set fs. neighbors tetrahedron ! f = M_MAX_UNSIGNED \<or> neighbors tetrahedron ! f < L"
    and r: "\<forall>x \<in> set rl. x < L"
  shows "\<exists>rl' ctx'. fold (processNeighbor IsInside position tetrahedron) fs (rl, ctx) = (rl', ctx')
          \<and> length (removed ctx') = L \<and> live ctx' + length rl' = live ctx + length rl
          \<and> (\<forall>x \<in> set rl'. x < L) \<and> length rl \<le> length rl'
          \<and> take (length rl) rl' = rl
          \<and> circumspheres ctx' = circumspheres ctx"
  using assms
proof (induction fs arbitrary: rl ctx)
  case Nil
  then show ?case by simp
next
  case (Cons f fs)
  have nbf: "neighbors tetrahedron ! f = M_MAX_UNSIGNED \<or> neighbors tetrahedron ! f < L"
    and nbs: "\<forall>f \<in> set fs. neighbors tetrahedron ! f = M_MAX_UNSIGNED \<or> neighbors tetrahedron ! f < L"
    using Cons.prems(2) by simp_all
  obtain rl1 ctx1 where s: "processNeighbor IsInside position tetrahedron f (rl, ctx) = (rl1, ctx1)"
    and p: "length (removed ctx1) = L" "live ctx1 + length rl1 = live ctx + length rl"
      "\<forall>x \<in> set rl1. x < L" "length rl \<le> length rl1" "take (length rl) rl1 = rl"
      "circumspheres ctx1 = circumspheres ctx"
    using processNeighbor_props [OF Cons.prems(1) nbf Cons.prems(3), of IsInside position] by blast
  obtain rl' ctx' where s': "fold (processNeighbor IsInside position tetrahedron) fs (rl1, ctx1) = (rl', ctx')"
    and p': "length (removed ctx') = L" "live ctx' + length rl' = live ctx1 + length rl1"
      "\<forall>x \<in> set rl'. x < L" "length rl1 \<le> length rl'" "take (length rl1) rl' = rl1"
      "circumspheres ctx' = circumspheres ctx1"
    using Cons.IH [OF p(1) nbs p(3)] by blast
  have "take (length rl) (take (length rl1) rl') = rl"
    using p(5) p'(5) by simp
  then have t: "take (length rl) rl' = rl"
    using p(4) by (simp add: min_def)
  have f: "fold (processNeighbor IsInside position tetrahedron) (f # fs) (rl, ctx) = (rl', ctx')"
    using s s' by simp
  show ?case
    unfolding f using p p' t by simp
qed

lemma cellsInRange_nth:
  assumes "cellsInRange ts" "k < length ts" "f < 4"
  shows "neighbors (ts ! k) ! f = M_MAX_UNSIGNED \<or> neighbors (ts ! k) ! f < length ts"
  using assms by (auto simp add: cellsInRange_def) (metis nth_mem)

lemma collectBad_returns:
  assumes c: "cellsInRange ts"
    and L: "length (removed ctx) = length ts"
    and r: "\<forall>x \<in> set rl. x < length ts"
  shows "\<exists>rl' ctx'. collectBad IsInside position ts i (rl, ctx) = Some (rl', ctx')
          \<and> length (removed ctx') = length ts \<and> (\<forall>x \<in> set rl'. x < length ts)
          \<and> circumspheres ctx' = circumspheres ctx"
  using L r
proof (induction "live ctx + length rl - i" arbitrary: i rl ctx rule: less_induct)
  case less
  show ?case
  proof (cases "i < length rl")
    case False
    then show ?thesis
      using less.prems by (subst collectBad.simps) simp
  next
    case True
    have k: "rl ! i < length ts"
      using True less.prems(2) by simp
    have nb: "\<forall>f \<in> set [0..<4]. neighbors (ts ! (rl ! i)) ! f = M_MAX_UNSIGNED
                \<or> neighbors (ts ! (rl ! i)) ! f < length ts"
      using cellsInRange_nth [OF c k] by simp
    obtain rl1 ctx1 where s: "fold (processNeighbor IsInside position (ts ! (rl ! i))) [0..<4] (rl, ctx) = (rl1, ctx1)"
      and p: "length (removed ctx1) = length ts" "live ctx1 + length rl1 = live ctx + length rl"
        "\<forall>x \<in> set rl1. x < length ts" "length rl \<le> length rl1"
        "circumspheres ctx1 = circumspheres ctx"
      using processNeighbors_props [OF less.prems(1) nb less.prems(2), of IsInside position] by auto
    have m: "live ctx1 + length rl1 - Suc i < live ctx + length rl - i"
      using True p(2) by simp
    have eq: "collectBad IsInside position ts i (rl, ctx) = collectBad IsInside position ts (Suc i) (rl1, ctx1)"
      using True s by (subst collectBad.simps) simp
    show ?thesis
      using less.hyps [OF m p(1) p(3)] p(5) unfolding eq by auto
  qed
qed

lemma linked_mono: "linked L B face \<Longrightarrow> B \<le> B' \<Longrightarrow> linked L B' face"
  by (auto simp add: linked_def)

lemma setFaceNeighbor_linked:
  "linked L B face \<Longrightarrow> n < B \<Longrightarrow> linked L B (setFaceNeighbor face e n)"
  by (auto simp add: linked_def setFaceNeighbor_def dest!: set_update_subset_insert [THEN subsetD])

lemma linkEdges_linked:
  assumes "\<forall>face \<in> set fs. linked L (Suc N) face" and "linked L N nf"
    and "length fs = N" and "old < N"
    and "linkEdges N (old, oe, ne) (Some (fs, nf)) = Some (fs', nf')"
  shows "(\<forall>face \<in> set fs'. linked L (Suc N) face) \<and> linked L N nf' \<and> length fs' = N"
proof (cases "GetEdge (fs ! old) oe = GetEdge nf ne")
  case False
  then show ?thesis
    using assms by (simp add: linkEdges_def)
next
  case True
  then have fs': "fs' = fs[old := setFaceNeighbor (fs ! old) oe N]" and nf': "nf' = setFaceNeighbor nf ne old"
    using assms(5) by (auto simp add: linkEdges_def split: if_splits)
  have "linked L (Suc N) (setFaceNeighbor (fs ! old) oe N)"
    using assms(1,3,4) by (simp add: setFaceNeighbor_linked)
  then have "\<forall>face \<in> set fs'. linked L (Suc N) face"
    using assms(1) unfolding fs' by (auto dest!: set_update_subset_insert [THEN subsetD])
  moreover have "linked L N nf'"
    unfolding nf' using assms(2,4) by (rule setFaceNeighbor_linked)
  ultimately show ?thesis
    using assms(3) by (simp add: fs')
qed

lemma fold_linkEdges_None: "fold (linkEdges N) es None = None"
  by (induction es) (simp_all add: linkEdges_def split: prod.splits)

lemma fold_linkEdges_linked:
  assumes "\<forall>face \<in> set fs. linked L (Suc N) face" and "linked L N nf"
    and "length fs = N" and "\<forall>e \<in> set es. fst e < N"
    and "fold (linkEdges N) es (Some (fs, nf)) = Some (fs', nf')"
  shows "(\<forall>face \<in> set fs'. linked L (Suc N) face) \<and> linked L N nf' \<and> length fs' = N"
  using assms
proof (induction es arbitrary: fs nf)
  case Nil
  then show ?case by simp
next
  case (Cons e es)
  obtain old oe ne where e: "e = (old, oe, ne)"
    by (cases e)
  show ?case
  proof (cases "linkEdges N e (Some (fs, nf))")
    case None
    then show ?thesis
      using Cons.prems(5) by (simp add: fold_linkEdges_None)
  next
    case (Some st)
    obtain fs1 nf1 where st: "st = (fs1, nf1)"
      by (cases st)
    have old: "old < N"
      using Cons.prems(4) e by simp
    have 1: "(\<forall>face \<in> set fs1. linked L (Suc N) face) \<and> linked L N nf1 \<and> length fs1 = N"
      using linkEdges_linked [OF Cons.prems(1,2,3) old] Some st e by simp
    have 2: "fold (linkEdges N) es (Some (fs1, nf1)) = Some (fs', nf')"
      using Cons.prems(5) Some st by simp
    show ?thesis
      using Cons.IH [OF _ _ _ _ 2] 1 Cons.prems(4) by simp
  qed
qed

lemma edgePairs_fst: "\<forall>e \<in> set (edgePairs n). fst e < n"
  by (auto simp add: edgePairs_def)

lemma AddFace_linked:
  assumes "surfaceLinked L s" and "linked L 0 newFace" and "AddFace s newFace = (True, s')"
  shows "surfaceLinked L s'"
proof -
  define N where "N = length (faces s)"
  obtain fs' nf' where f: "fold (linkEdges N) (edgePairs N) (Some (faces s, newFace)) = Some (fs', nf')"
    and s': "s' = s\<lparr>faces := fs' @ [nf']\<rparr>"
    using assms(3) by (auto simp add: AddFace_def N_def split: option.splits)
  have a: "\<forall>face \<in> set (faces s). linked L (Suc N) face"
    using assms(1) by (auto simp add: surfaceLinked_def N_def intro: linked_mono)
  have b: "linked L N newFace"
    using assms(2) by (rule linked_mono) simp
  have "(\<forall>face \<in> set fs'. linked L (Suc N) face) \<and> linked L N nf' \<and> length fs' = N"
    using fold_linkEdges_linked [OF a b _ edgePairs_fst f] by (simp add: N_def)
  then show ?thesis
    by (auto simp add: surfaceLinked_def s' intro: linked_mono)
qed

lemma addFaces_linked:
  assumes "surfaceLinked L s" and "\<forall>t \<in> set triangles. linked L 0 t"
    and "addFaces s triangles = Some s'"
  shows "surfaceLinked L s'"
  using assms
proof (induction triangles arbitrary: s)
  case Nil
  then show ?case by simp
next
  case (Cons t triangles)
  obtain ok s1 where a: "AddFace s t = (ok, s1)"
    by (cases "AddFace s t")
  have ok: ok
    using Cons.prems(3) a by (cases ok) simp_all
  have t: "linked L 0 t" and ts: "\<forall>t \<in> set triangles. linked L 0 t"
    using Cons.prems(2) by simp_all
  have a': "AddFace s t = (True, s1)"
    using a ok by simp
  have 1: "surfaceLinked L s1"
    using Cons.prems(1) t a' by (rule AddFace_linked)
  have 2: "addFaces s1 triangles = Some s'"
    using Cons.prems(3) a' by simp
  show ?case
    using 1 ts 2 by (rule Cons.IH)
qed

lemma closed_links:
  assumes "surfaceLinked L s" and "IsClosedSurface s" and "i < length (faces s)" and "j < 3"
  shows "face_neighbors (faces s ! i) ! j < length (faces s)"
proof -
  have l: "linked L (length (faces s)) (faces s ! i)"
    using assms(1,3) by (simp add: surfaceLinked_def)
  have "face_neighbors (faces s ! i) ! j \<noteq> M_MAX_UNSIGNED"
    using assms(2,3,4) by (simp add: IsClosedSurface_def list_all_iff)
  moreover have "face_neighbors (faces s ! i) ! j \<in> set (face_neighbors (faces s ! i))"
    using l assms(4) by (simp add: linked_def)
  ultimately show ?thesis
    using l by (auto simp add: linked_def)
qed

lemma GetTriangleFace_linked:
  "n = M_MAX_UNSIGNED \<or> n < L \<Longrightarrow> linked L 0 (GetTriangleFace t f n nf)"
  by (simp add: linked_def GetTriangleFace_def)

lemma holeTrianglesOf_linked:
  assumes "cellsInRange ts" "k < length ts" "f < 4"
  shows "\<forall>t \<in> set (holeTrianglesOf ts ctx k f). linked (length ts) 0 t"
  using cellsInRange_nth [OF assms]
  by (auto simp add: holeTrianglesOf_def Let_def GetTriangleFace_linked)

lemma collectHoleTriangles_linked:
  assumes "cellsInRange ts" "\<forall>x \<in> set rl. x < length ts"
  shows "\<forall>t \<in> set (collectHoleTriangles ts ctx rl). linked (length ts) 0 t"
  using assms holeTrianglesOf_linked [OF assms(1)]
  by (auto simp add: collectHoleTriangles_def)

lemma swapFace_linked: "linked L 0 t \<Longrightarrow> linked L 0 (swapFace t)"
  by (simp add: linked_def swapFace_def)

lemma Normalize_linked: "orientationOnly Normalize \<Longrightarrow> linked L 0 t \<Longrightarrow> linked L 0 (Normalize vs t)"
  using swapFace_linked [of L t] unfolding orientationOnly_def by metis

lemma verifyTriangles_linked:
  assumes "orientationOnly Normalize" "\<forall>t \<in> set triangles. linked L 0 t"
  shows "\<forall>t \<in> set (snd (verifyTriangles Normalize e vs p0 triangles)). linked L 0 t"
  using assms(2)
proof (induction triangles)
  case Nil
  then show ?case by simp
next
  case (Cons t triangles)
  then show ?case
    using Normalize_linked [OF assms(1), of L t vs]
    by (auto simp add: Let_def split: prod.splits)
qed

lemma revertRemoved_length [simp]: "length (revertRemoved rl flags) = length flags"
  unfolding revertRemoved_def by (induction rl arbitrary: flags) simp_all

lemma findFirst_range: "findFirst IsInside ts ctx position = Some k \<Longrightarrow> k < length ts"
  by (auto simp add: findFirst_def find_Some_iff)

lemma surfaceLinked_empty: "surfaceLinked L \<lparr>faces = []\<rparr>"
  by (simp add: surfaceLinked_def)

lemma FindAndRemoveIntersected_returns:
  assumes wf: "wellFormed (tetrahedrons mesh) ctx" and no: "orientationOnly Normalize"
  shows "\<exists>carved mesh' ctx' holeSurface rl.
           FindAndRemoveIntersected IsInside Normalize e mesh ctx position dumpErrors
             = Some (carved, mesh', ctx', holeSurface, rl)
         \<and> tetrahedrons mesh' = tetrahedrons mesh \<and> vertices mesh' = vertices mesh
         \<and> length (removed ctx') = length (tetrahedrons mesh)
         \<and> (carved \<longrightarrow> (\<forall>x \<in> set rl. x < length (tetrahedrons mesh))
               \<and> surfaceLinked (length (tetrahedrons mesh)) holeSurface
               \<and> IsClosedSurface holeSurface)"
proof -
  define ts where "ts = tetrahedrons mesh"
  have c: "cellsInRange ts" and L: "length (removed ctx) = length ts"
    using wf by (simp_all add: wellFormed_iff ts_def)
  show ?thesis
  proof (cases "findFirst IsInside ts ctx position")
    case None
    then show ?thesis
      using L by (auto simp add: FindAndRemoveIntersected_def ts_def [symmetric])
  next
    case (Some k)
    have k: "k < length ts"
      using Some by (rule findFirst_range)
    obtain rl ctx1 where b: "collectBad IsInside position ts 0 ([k], ctx\<lparr>removed := (removed ctx)[k := True]\<rparr>)
          = Some (rl, ctx1)"
      and L1: "length (removed ctx1) = length ts" and r: "\<forall>x \<in> set rl. x < length ts"
      using collectBad_returns [OF c, of "ctx\<lparr>removed := (removed ctx)[k := True]\<rparr>" "[k]" IsInside position 0]
        L k by auto
    obtain valid triangles where v: "verifyTriangles Normalize e (vertices mesh) position
          (collectHoleTriangles ts ctx1 rl) = (valid, triangles)"
      by (cases "verifyTriangles Normalize e (vertices mesh) position (collectHoleTriangles ts ctx1 rl)")
    have tl: "\<forall>t \<in> set triangles. linked (length ts) 0 t"
      using verifyTriangles_linked [OF no collectHoleTriangles_linked [OF c r], of e "vertices mesh" position ctx1] v
      by simp
    show ?thesis
    proof (cases "\<not> valid \<or> dumpErrors")
      case True
      then show ?thesis
        using Some b v L1 by (auto simp add: FindAndRemoveIntersected_def ts_def [symmetric])
    next
      case False
      show ?thesis
      proof (cases "addFaces \<lparr>faces = []\<rparr> triangles")
        case None
        then show ?thesis
          using Some b v L1 False by (auto simp add: FindAndRemoveIntersected_def ts_def [symmetric])
      next
        case (Some hs)
        have sl: "surfaceLinked (length ts) hs"
          using surfaceLinked_empty tl Some by (rule addFaces_linked)
        have "FindAndRemoveIntersected IsInside Normalize e mesh ctx position dumpErrors
            = (if \<not> IsClosedSurface hs
               then Some (False, mesh, ctx1\<lparr>holeTriangles := triangles\<rparr>, Clear hs, rl)
               else Some (True, mesh, ctx1\<lparr>holeTriangles := triangles\<rparr>, hs, rl))"
          using \<open>findFirst IsInside ts ctx position = Some k\<close> b v False Some
          by (simp add: FindAndRemoveIntersected_def ts_def [symmetric] Let_def)
        then show ?thesis
          using sl L1 r by (auto simp add: ts_def [symmetric])
      qed
    qed
  qed
qed

lemma cellsInRange_iff:
  "cellsInRange ts \<longleftrightarrow> (\<forall>k<length ts. cellInRange (length ts) (ts ! k))"
  by (auto simp add: cellsInRange_def cellInRange_def all_set_conv_all_nth)

lemma cellInRange_mono: "cellInRange L t \<Longrightarrow> L \<le> L' \<Longrightarrow> cellInRange L' t"
  by (auto simp add: cellInRange_def)

lemma cellInRange_update:
  "cellInRange L t \<Longrightarrow> n = M_MAX_UNSIGNED \<or> n < L \<Longrightarrow>
     cellInRange L (t\<lparr>neighbors := (neighbors t)[f := n]\<rparr>)"
  by (auto simp add: cellInRange_def dest!: set_update_subset_insert [THEN subsetD])

lemma setNeighbor_cell:
  assumes "k < length ts" "cellInRange L (ts ! k)" "n = M_MAX_UNSIGNED \<or> n < L"
  shows "cellInRange L (setNeighbor ts a f n ! k)"
  using assms cellInRange_update [of L "ts ! k" n f] by (auto simp add: setNeighbor_nth)

lemma setNeighbor_inRange:
  assumes "cellsInRange ts" "n = M_MAX_UNSIGNED \<or> n < length ts"
  shows "cellsInRange (setNeighbor ts a f n)"
  using assms by (simp add: cellsInRange_iff setNeighbor_cell)

lemma disconnectFace_inRange:
  "cellsInRange ts \<Longrightarrow> cellsInRange (disconnectFace k f ts) \<and> length (disconnectFace k f ts) = length ts"
  by (simp add: disconnectFace_def Let_def setNeighbor_inRange)

lemma fold_disconnectFace_inRange:
  "cellsInRange ts \<Longrightarrow>
     cellsInRange (fold (disconnectFace k) fs ts) \<and> length (fold (disconnectFace k) fs ts) = length ts"
proof (induction fs arbitrary: ts)
  case Nil
  then show ?case by simp
next
  case (Cons f fs)
  then show ?case
    using disconnectFace_inRange [of ts k f] by simp
qed

lemma Disconnect_inRange:
  "cellsInRange ts \<Longrightarrow>
     cellsInRange (DisconnectRemovedTetrahedrons ts rl)
   \<and> length (DisconnectRemovedTetrahedrons ts rl) = length ts"
  unfolding DisconnectRemovedTetrahedrons_def
proof (induction rl arbitrary: ts)
  case Nil
  then show ?case by simp
next
  case (Cons k rl)
  then show ?case
    using fold_disconnectFace_inRange [of ts k "[0..<4]"] by simp
qed

lemma fillCell_inRange:
  assumes f: "fillCell e l vs out hs c i (ts, ctx) = (ts', ctx')"
    and X: "out ! i < length ts"
    and links: "\<forall>j<3. out ! (face_neighbors (faces hs ! i) ! j) < length ts"
    and T: "face_tetIndex (faces hs ! i) = M_MAX_UNSIGNED \<or> face_tetIndex (faces hs ! i) < length ts"
  shows "length ts' = length ts" and "length (removed ctx') = length (removed ctx)"
    and "\<And>k. k < length ts \<Longrightarrow> cellInRange (length ts) (ts ! k) \<or> k = out ! i \<Longrightarrow>
           cellInRange (length ts) (ts' ! k)"
proof -
  define new where "new = (ts ! (out ! i))
                 \<lparr>indices := [face_indices (faces hs ! i) ! 0, face_indices (faces hs ! i) ! 1,
                               face_indices (faces hs ! i) ! 2, c],
                  neighbors := [out ! (face_neighbors (faces hs ! i) ! 0),
                                out ! (face_neighbors (faces hs ! i) ! 1),
                                out ! (face_neighbors (faces hs ! i) ! 2),
                                face_tetIndex (faces hs ! i)]\<rparr>"
  define ts1 where "ts1 = ts[out ! i := new]"
  have ts': "ts' = (if face_tetIndex (faces hs ! i) \<noteq> M_MAX_UNSIGNED
                 then setNeighbor ts1 (face_tetIndex (faces hs ! i)) (face_tetFace (faces hs ! i)) (out ! i)
                 else ts1)"
    and ctx': "removed ctx' = (removed ctx)[out ! i := False]"
    using f by (auto simp add: fillCell_def Let_def ts1_def new_def)
  show "length ts' = length ts"
    by (simp add: ts' ts1_def)
  show "length (removed ctx') = length (removed ctx)"
    by (simp add: ctx')
  have l: "out ! (face_neighbors (faces hs ! i) ! 0) < length ts"
    "out ! (face_neighbors (faces hs ! i) ! 1) < length ts"
    "out ! (face_neighbors (faces hs ! i) ! 2) < length ts"
    using links by simp_all
  have new: "cellInRange (length ts) new"
    using l T by (auto simp add: cellInRange_def new_def)
  show "cellInRange (length ts) (ts' ! k)"
    if k: "k < length ts" and g: "cellInRange (length ts) (ts ! k) \<or> k = out ! i" for k
  proof -
    have 1: "cellInRange (length ts) (ts1 ! k)"
      using k g new X by (auto simp add: ts1_def nth_list_update)
    have k1: "k < length ts1"
      using k by (simp add: ts1_def)
    show ?thesis
      using setNeighbor_cell [OF k1 1, of "out ! i"] 1 X by (simp add: ts')
  qed
qed

lemma fill_inRange:
  assumes X: "\<forall>i<n. out ! i < length ts"
    and links: "\<forall>i<n. \<forall>j<3. out ! (face_neighbors (faces hs ! i) ! j) < length ts"
    and T: "\<forall>i<n. face_tetIndex (faces hs ! i) = M_MAX_UNSIGNED \<or> face_tetIndex (faces hs ! i) < length ts"
  shows "\<exists>ts' ctx'. fold (fillCell e l vs out hs c) [0..<n] (ts, ctx) = (ts', ctx')
          \<and> length ts' = length ts \<and> length (removed ctx') = length (removed ctx)
          \<and> (\<forall>k<length ts. cellInRange (length ts) (ts ! k) \<or> (\<exists>i<n. k = out ! i)
                \<longrightarrow> cellInRange (length ts) (ts' ! k))"
  using assms
proof (induction n)
  case 0
  then show ?case by simp
next
  case (Suc n)
  obtain ts1 ctx1 where s1: "fold (fillCell e l vs out hs c) [0..<n] (ts, ctx) = (ts1, ctx1)"
    and p1: "length ts1 = length ts" "length (removed ctx1) = length (removed ctx)"
      "\<forall>k<length ts. cellInRange (length ts) (ts ! k) \<or> (\<exists>i<n. k = out ! i)
                \<longrightarrow> cellInRange (length ts) (ts1 ! k)"
    using Suc.IH Suc.prems by auto
  obtain ts2 ctx2 where s2: "fillCell e l vs out hs c n (ts1, ctx1) = (ts2, ctx2)"
    by (cases "fillCell e l vs out hs c n (ts1, ctx1)")
  note step = fillCell_inRange [OF s2, unfolded p1(1)]
  have a: "out ! n < length ts"
    and b: "\<forall>j<3. out ! (face_neighbors (faces hs ! n) ! j) < length ts"
    and c: "face_tetIndex (faces hs ! n) = M_MAX_UNSIGNED \<or> face_tetIndex (faces hs ! n) < length ts"
    using Suc.prems by simp_all
  have "cellInRange (length ts) (ts2 ! k)"
    if k: "k < length ts" and g: "cellInRange (length ts) (ts ! k) \<or> (\<exists>i<Suc n. k = out ! i)" for k
  proof (cases "k = out ! n")
    case True
    then show ?thesis
      using step(3) [OF a b c k] by simp
  next
    case False
    then have "cellInRange (length ts) (ts ! k) \<or> (\<exists>i<n. k = out ! i)"
      using g less_Suc_eq by auto
    then have "cellInRange (length ts) (ts1 ! k)"
      using p1(3) k by blast
    then show ?thesis
      using step(3) [OF a b c k] by simp
  qed
  then show ?case
    using s1 s2 step(1,2) [OF a b c] p1(2) by simp
qed

lemma processBunch_returns:
  assumes step: "\<And>s v. Inv s \<Longrightarrow> \<exists>inserted s'. attempt s v = Some (inserted, s') \<and> Inv s'"
    and "Inv s"
  shows "\<exists>s' p. processBunch attempt s q acc = Some (s', acc @ p) \<and> Inv s' \<and> subseq p q"
  using assms(2)
proof (induction q arbitrary: s acc)
  case Nil
  then show ?case by simp
next
  case (Cons v q)
  obtain inserted s1 where a: "attempt s v = Some (inserted, s1)" and i1: "Inv s1"
    using step [OF Cons.prems] by blast
  obtain s' p where p: "processBunch attempt s1 q (if inserted then acc else acc @ [v])
        = Some (s', (if inserted then acc else acc @ [v]) @ p)" "Inv s'" "subseq p q"
    using Cons.IH [OF i1] by blast
  show ?case
  proof (cases inserted)
    case True
    then show ?thesis
      using a p by (auto intro!: exI [of _ p])
  next
    case False
    then show ?thesis
      using a p by (auto intro!: exI [of _ "v # p"])
  qed
qed

lemma triangulate_returns:
  fixes attempt :: "'s \<Rightarrow> nat \<Rightarrow> (bool \<times> 's) option"
  assumes step: "\<And>s v. Inv s \<Longrightarrow> \<exists>inserted s'. attempt s v = Some (inserted, s') \<and> Inv s'"
    and init: "Inv s"
  shows "(\<exists>s' excluded warnings.
            triangulate attempt s q = Some (s', excluded, warnings) \<and> Inv s' \<and> subseq excluded q
          \<and> (if excluded = [] then warnings = []
              else warnings = [length excluded]
                 \<and> (\<exists>s0. Inv s0 \<and> processBunch attempt s0 excluded [] = Some (s', excluded))))
       \<and> (q \<noteq> [] \<longrightarrow>
            (\<exists>s' p. processBunch attempt s q [] = Some (s', p) \<and> Inv s' \<and> subseq p q
              \<and> (if length p < length q then triangulate attempt s q = triangulate attempt s' p
                  else p = q \<and> triangulate attempt s q = Some (s', q, [length q]))))"
  using init
proof (induction "length q" arbitrary: s q rule: less_induct)
  case less
  show ?case
  proof (cases "q = []")
    case True
    then show ?thesis
      using less.prems by (simp add: triangulate.simps)
  next
    case False
    obtain s1 p where b: "processBunch attempt s q [] = Some (s1, p)" and i1: "Inv s1" and sub: "subseq p q"
      using processBunch_returns [of Inv attempt s q "[]", OF step less.prems] by auto
    have le: "length p \<le> length q"
      using sub by (rule list_emb_length)
    show ?thesis
    proof (cases "length p < length q")
      case True
      have eq: "triangulate attempt s q = triangulate attempt s1 p"
        using False b True by (subst triangulate.simps) simp
      obtain s' excluded warnings where r:
        "triangulate attempt s1 p = Some (s', excluded, warnings)" "Inv s'" "subseq excluded p"
        "if excluded = [] then warnings = []
              else warnings = [length excluded]
                 \<and> (\<exists>s0. Inv s0 \<and> processBunch attempt s0 excluded [] = Some (s', excluded))"
        using less.hyps [OF True i1] by blast
      have "subseq excluded q"
        using r(3) sub by (rule subseq_order.trans)
      then show ?thesis
        using False b i1 sub True eq r by auto
    next
      case nlt: False
      then have pq: "p = q"
        using le sub by (simp add: subseq_same_length)
      have eq: "triangulate attempt s q = Some (s1, q, [length q])"
        using False b pq by (subst triangulate.simps) simp
      show ?thesis
        using False b i1 pq eq less.prems by auto
    qed
  qed
qed

lemma retriangulate_wellFormed:
  assumes wf: "wellFormed ts ctx"
    and r: "\<forall>x \<in> set rl. x < length ts"
    and sl: "surfaceLinked (length ts) hs" and cl: "IsClosedSurface hs"
  shows "\<exists>ts' ctx'. retriangulate e l fresh freshSphere vs (ts, ctx) rl hs v = (ts', ctx')
           \<and> wellFormed ts' ctx'"
proof -
  define F where "F = Size_surface hs"
  define A where "A = F - length rl"
  define tsD where "tsD = DisconnectRemovedTetrahedrons ts rl"
  define ts1 where "ts1 = tsD @ replicate A fresh"
  define ctx1 where "ctx1 = ctx\<lparr>circumspheres := circumspheres ctx @ replicate A freshSphere,
          removed := removed ctx @ replicate A True\<rparr>"
  define out where "out = rl @ [length tsD..<length tsD + A]"
  have c: "cellsInRange ts" and L: "length (removed ctx) = length ts"
    using wf by (simp_all add: wellFormed_iff)
  have cD: "cellsInRange tsD" and lD: "length tsD = length ts"
    using Disconnect_inRange [OF c, of rl] by (simp_all add: tsD_def)
  have l1: "length ts1 = length ts + A"
    by (simp add: ts1_def lD)
  have lo: "F \<le> length out"
    by (simp add: out_def A_def)
  have o: "out ! i < length ts1" if "i < length out" for i
    using that r by (auto simp add: out_def l1 lD nth_append intro: trans_less_add1)
  have X: "\<forall>i<F. out ! i < length ts1"
    using o lo by simp
  have links: "\<forall>i<F. \<forall>j<3. out ! (face_neighbors (faces hs ! i) ! j) < length ts1"
  proof (intro allI impI)
    fix i j :: nat
    assume "i < F" "j < 3"
    then have "face_neighbors (faces hs ! i) ! j < length out"
      using closed_links [OF sl cl, of i j] lo by (simp add: F_def Size_surface_def)
    then show "out ! (face_neighbors (faces hs ! i) ! j) < length ts1"
      by (rule o)
  qed
  have T: "\<forall>i<F. face_tetIndex (faces hs ! i) = M_MAX_UNSIGNED \<or> face_tetIndex (faces hs ! i) < length ts1"
    using sl by (auto simp add: surfaceLinked_def linked_def F_def Size_surface_def l1)
  obtain ts' ctx' where f: "fold (fillCell e l vs out hs v) [0..<F] (ts1, ctx1) = (ts', ctx')"
    and p: "length ts' = length ts1" "length (removed ctx') = length (removed ctx1)"
      "\<forall>k<length ts1. cellInRange (length ts1) (ts1 ! k) \<or> (\<exists>i<F. k = out ! i)
                \<longrightarrow> cellInRange (length ts1) (ts' ! k)"
    using fill_inRange [OF X links T, of e l vs v ctx1] by auto
  have g: "cellInRange (length ts1) (ts1 ! k) \<or> (\<exists>i<F. k = out ! i)" if k: "k < length ts1" for k
  proof (cases "k < length ts")
    case True
    then have "cellInRange (length ts) (tsD ! k)"
      using cD by (simp add: cellsInRange_iff lD)
    then show ?thesis
      using True by (auto simp add: ts1_def nth_append lD l1 intro: cellInRange_mono)
  next
    case False
    define m where "m = k - length ts"
    have m: "k = length ts + m" "m < A"
      using False k by (simp_all add: m_def l1)
    have "length rl + m < F"
      using m(2) by (simp add: A_def)
    moreover have "out ! (length rl + m) = k"
      using m by (simp add: out_def nth_append lD)
    ultimately show ?thesis
      by blast
  qed
  have "cellsInRange ts'"
    using p(1,3) g by (simp add: cellsInRange_iff)
  moreover have "length (removed ctx') = length ts'"
    using p(1,2) L by (simp add: ctx1_def l1)
  moreover have "retriangulate e l fresh freshSphere vs (ts, ctx) rl hs v = (ts', ctx')"
    using f by (simp add: retriangulate_def allocateSpace_eq FillStarShapedHole_def
        F_def [symmetric] A_def [symmetric] tsD_def [symmetric] ts1_def [symmetric]
        ctx1_def [symmetric] out_def [symmetric])
  ultimately show ?thesis
    by (simp add: wellFormed_iff)
qed

lemma insertVertex_wellFormed:
  assumes no: "orientationOnly Normalize"
    and wf: "wellFormed (tetrahedrons (fst st)) (snd st)"
  shows "\<exists>inserted st'. insertVertex IsInside Normalize le e l fresh freshSphere st v = Some (inserted, st')
           \<and> wellFormed (tetrahedrons (fst st')) (snd st')"
proof -
  obtain mesh ctx where st: "st = (mesh, ctx)"
    by (cases st)
  obtain carved mesh' ctx' hs rl where
    f: "FindAndRemoveIntersected IsInside Normalize le mesh ctx (vertices mesh ! v) False
             = Some (carved, mesh', ctx', hs, rl)"
    and p: "tetrahedrons mesh' = tetrahedrons mesh" "length (removed ctx') = length (tetrahedrons mesh)"
      "carved \<longrightarrow> (\<forall>x \<in> set rl. x < length (tetrahedrons mesh))
               \<and> surfaceLinked (length (tetrahedrons mesh)) hs \<and> IsClosedSurface hs"
    using FindAndRemoveIntersected_returns [OF _ no, of mesh ctx IsInside le "vertices mesh ! v" False]
      wf st by auto
  have wf': "wellFormed (tetrahedrons mesh') ctx'"
    using wf st p(1,2) by (simp add: wellFormed_iff)
  show ?thesis
  proof (cases carved)
    case False
    then show ?thesis
      using f wf' by (auto simp add: insertVertex_def st)
  next
    case True
    obtain ts2 ctx2 where r: "retriangulate e l fresh freshSphere (vertices mesh') (tetrahedrons mesh', ctx')
        rl hs v = (ts2, ctx2)" and w: "wellFormed ts2 ctx2"
      using retriangulate_wellFormed [OF wf', of rl hs e l fresh freshSphere "vertices mesh'" v] p True
      by auto
    show ?thesis
      using f True r w by (auto simp add: insertVertex_def st)
  qed
qed

lemma initial_wellFormed:
  "wellFormed (tetrahedrons (appendVertices (InitializeSuperMesh fresh mesh box) positions))
     (initialContext e l (InitializeSuperMesh fresh mesh box))"
  by (simp add: wellFormed_def appendVertices_def initialContext_def InitializeSuperMesh_def
      superTetrahedrons_cells)

lemma dumpFailed_returns:
  assumes no: "orientationOnly Normalize"
    and wf: "wellFormed (tetrahedrons (fst st)) (snd st)"
  shows "\<exists>st'. dumpFailed IsInside Normalize le first q st = Some st'"
  using wf
proof (induction q arbitrary: st)
  case Nil
  then show ?case by simp
next
  case (Cons v q)
  obtain carved mesh' ctx' hs rl where
    f: "FindAndRemoveIntersected IsInside Normalize le (fst st) (snd st) (vertices (fst st) ! first) True
             = Some (carved, mesh', ctx', hs, rl)"
    and p: "tetrahedrons mesh' = tetrahedrons (fst st)" "length (removed ctx') = length (tetrahedrons (fst st))"
    using FindAndRemoveIntersected_returns [OF Cons.prems no, of IsInside le "vertices (fst st) ! first" True]
    by auto
  have "wellFormed (tetrahedrons (fst (mesh', ctx'))) (snd (mesh', ctx'))"
    using Cons.prems p by (simp add: wellFormed_iff)
  then show ?case
    using Cons.IH [of "(mesh', ctx')"] f by simp
qed

text \<open>
  Claim C5. The retry loop of \<^verbatim>\<open>BuildTetrahedrons\<close>, started from the super mesh,
  returns for every list of positions; the vertices left in the queue are a subsequence of
  the queued ones; when some are left, the warning with their number was logged and the last
  pass postponed every one of them again; and \<^verbatim>\<open>BuildTetrahedrons\<close> and \<^verbatim>\<open>Define\<close>
  return a mesh. In every pass from a well-formed state the postponed vertices are a
  subsequence of the queue: either they are fewer and the loop goes on with them, or they are
  the whole queue and the loop exits with them. The only hypothesis is that the absent
  \<^verbatim>\<open>Normalize\<close> does nothing but orient a triangle.
\<close>

theorem retry_loop_terminates:
  fixes IsInside Normalize M_LARGE_EPSILON M_EPSILON M_LARGE_VALUE fresh freshSphere mesh positions boundingBox
  defines "attempt \<equiv> insertVertex IsInside Normalize M_LARGE_EPSILON M_EPSILON M_LARGE_VALUE fresh freshSphere"
    and "start \<equiv> InitializeSuperMesh fresh mesh boundingBox"
  defines "run \<equiv> triangulateAll IsInside Normalize M_LARGE_EPSILON M_EPSILON M_LARGE_VALUE fresh freshSphere"
  assumes no: "orientationOnly Normalize"
  shows "(\<exists>st' excluded warnings.
            run start positions = Some (st', excluded, warnings)
          \<and> subseq excluded (initialQueue start positions)
          \<and> (if excluded = [] then warnings = []
              else warnings = [length excluded]
                 \<and> (\<exists>st0. wellFormed (tetrahedrons (fst st0)) (snd st0)
                        \<and> processBunch attempt st0 excluded [] = Some (st', excluded)))
          \<and> (\<exists>m. BuildTetrahedrons IsInside Normalize M_LARGE_EPSILON M_EPSILON M_LARGE_VALUE fresh freshSphere
                     start positions = Some (m, warnings)))
       \<and> (\<forall>st q. wellFormed (tetrahedrons (fst st)) (snd st) \<and> q \<noteq> [] \<longrightarrow>
            (\<exists>st' p. processBunch attempt st q [] = Some (st', p)
              \<and> wellFormed (tetrahedrons (fst st')) (snd st') \<and> subseq p q
              \<and> (if length p < length q then triangulate attempt st q = triangulate attempt st' p
                  else p = q \<and> triangulate attempt st q = Some (st', q, [length q]))))
       \<and> (\<exists>m warnings. Define IsInside Normalize M_LARGE_EPSILON M_EPSILON M_LARGE_VALUE fresh freshSphere
                          mesh positions = Some (m, warnings))"
proof -
  let ?Inv = "\<lambda>st. wellFormed (tetrahedrons (fst st)) (snd st)"
  have step: "\<exists>inserted s'. attempt s v = Some (inserted, s') \<and> ?Inv s'" if "?Inv s" for s v
    unfolding attempt_def using no that by (rule insertVertex_wellFormed)
  note gen = triangulate_returns [of ?Inv attempt, OF step]
  have build: "\<exists>st' excluded warnings.
            triangulateAll IsInside Normalize M_LARGE_EPSILON M_EPSILON M_LARGE_VALUE fresh freshSphere
              (InitializeSuperMesh fresh mesh' box) positions = Some (st', excluded, warnings)
          \<and> subseq excluded (initialQueue (InitializeSuperMesh fresh mesh' box) positions)
          \<and> (if excluded = [] then warnings = []
              else warnings = [length excluded]
                 \<and> (\<exists>st0. ?Inv st0 \<and> processBunch attempt st0 excluded [] = Some (st', excluded)))
          \<and> (\<exists>m. BuildTetrahedrons IsInside Normalize M_LARGE_EPSILON M_EPSILON M_LARGE_VALUE fresh freshSphere
                     (InitializeSuperMesh fresh mesh' box) positions = Some (m, warnings))" for mesh' box
  proof -
    define s0 where "s0 = (appendVertices (InitializeSuperMesh fresh mesh' box) positions,
        initialContext M_EPSILON M_LARGE_VALUE (InitializeSuperMesh fresh mesh' box))"
    have i0: "?Inv s0"
      by (simp add: s0_def initial_wellFormed)
    obtain st' excluded warnings where
      t: "triangulate attempt s0 (initialQueue (InitializeSuperMesh fresh mesh' box) positions)
            = Some (st', excluded, warnings)"
      and i: "?Inv st'" and sub: "subseq excluded (initialQueue (InitializeSuperMesh fresh mesh' box) positions)"
      and w: "if excluded = [] then warnings = []
              else warnings = [length excluded]
                 \<and> (\<exists>st0. ?Inv st0 \<and> processBunch attempt st0 excluded [] = Some (st', excluded))"
      using gen [OF _ i0, of "initialQueue (InitializeSuperMesh fresh mesh' box) positions", THEN conjunct1]
      by blast
    have i': "?Inv ((fst st')\<lparr>debugHighlightEdges := []\<rparr>, snd st')"
      using i by simp
    obtain st2 where d: "dumpFailed IsInside Normalize M_LARGE_EPSILON (excluded ! 0) excluded
        ((fst st')\<lparr>debugHighlightEdges := []\<rparr>, snd st') = Some st2"
      using dumpFailed_returns [OF no i'] by blast
    have ta: "triangulateAll IsInside Normalize M_LARGE_EPSILON M_EPSILON M_LARGE_VALUE fresh freshSphere
              (InitializeSuperMesh fresh mesh' box) positions = Some (st', excluded, warnings)"
      using t by (simp add: triangulateAll_def attempt_def s0_def)
    have "BuildTetrahedrons IsInside Normalize M_LARGE_EPSILON M_EPSILON M_LARGE_VALUE fresh freshSphere
            (InitializeSuperMesh fresh mesh' box) positions
          = Some (finalize Normalize M_EPSILON fresh st2, warnings)"
      using d by (cases st') (simp add: BuildTetrahedrons_def ta)
    then show ?thesis
      using ta sub w by blast
  qed
  have pass: "\<exists>st' p. processBunch attempt st q [] = Some (st', p) \<and> ?Inv st' \<and> subseq p q
              \<and> (if length p < length q then triangulate attempt st q = triangulate attempt st' p
                  else p = q \<and> triangulate attempt st q = Some (st', q, [length q]))"
    if "?Inv st \<and> q \<noteq> []" for st q
    using gen [OF _ conjunct1 [OF that], of q, THEN conjunct2] that by blast
  have "\<exists>m warnings. Define IsInside Normalize M_LARGE_EPSILON M_EPSILON M_LARGE_VALUE fresh freshSphere
                          mesh positions = Some (m, warnings)"
    unfolding Define_def Let_def using build by blast
  then show ?thesis
    unfolding run_def start_def using build pass by blast
qed

lemma Normalize_face_orientationOnly: "orientationOnly Normalize_face"
  by (simp add: orientationOnly_def Normalize_face_def Let_def)

theorem retry_loop_terminates_witness:
  "\<exists>m warnings. Define (IsInsideCircumsphere (1 / 20000)) Normalize_face (1 / 20000) (1 / 1000000) 100000000
      exFresh exSphere emptyMesh [Vector3 0 0 0, Vector3 1 0 0] = Some (m, warnings)"
  using retry_loop_terminates [OF Normalize_face_orientationOnly, THEN conjunct2, THEN conjunct2] .

subsection \<open>The exits of FindAndRemoveIntersected\<close>

lemma flaggedFrom_iff:
  "flaggedFrom flags rl ctx \<longleftrightarrow>
     length (removed ctx) = length flags
     \<and> (\<forall>x \<in> set rl. x < length flags \<and> \<not> flags ! x)
     \<and> (\<forall>i < length flags. removed ctx ! i = (flags ! i \<or> i \<in> set rl))"
  by (auto simp add: flaggedFrom_def list_all_iff)

lemma revertRemoved_nth:
  "i < length fl \<Longrightarrow> revertRemoved rl fl ! i = (fl ! i \<and> i \<notin> set rl)"
proof (induction rl arbitrary: fl)
  case Nil
  then show ?case by (simp add: revertRemoved_def)
next
  case (Cons a rl)
  have u: "fl[a := False] ! i = (fl ! i \<and> i \<noteq> a)"
    using Cons.prems by (cases "i = a") simp_all
  have "revertRemoved (a # rl) fl = revertRemoved rl (fl[a := False])"
    by (simp add: revertRemoved_def)
  then show ?case
    using Cons.IH [of "fl[a := False]"] Cons.prems u by auto
qed

lemma revertRemoved_flaggedFrom:
  assumes "flaggedFrom flags rl ctx"
  shows "revertRemoved rl (removed ctx) = flags"
proof (rule nth_equalityI)
  show "length (revertRemoved rl (removed ctx)) = length flags"
    using assms by (simp add: revertRemoved_length flaggedFrom_iff)
next
  fix i
  assume "i < length (revertRemoved rl (removed ctx))"
  then have i: "i < length flags" "i < length (removed ctx)"
    using assms by (simp_all add: revertRemoved_length flaggedFrom_iff)
  show "revertRemoved rl (removed ctx) ! i = flags ! i"
    using assms i by (auto simp add: revertRemoved_nth flaggedFrom_iff)
qed

lemma processNeighbor_flaggedFrom:
  assumes J: "flaggedFrom flags rl ctx"
    and nb: "neighbors tetrahedron ! faceIndex = M_MAX_UNSIGNED
             \<or> neighbors tetrahedron ! faceIndex < length flags"
    and s: "processNeighbor IsInside position tetrahedron faceIndex (rl, ctx) = (rl', ctx')"
  shows "flaggedFrom flags rl' ctx'"
proof (cases "neighbors tetrahedron ! faceIndex \<noteq> M_MAX_UNSIGNED
    \<and> \<not> removed ctx ! (neighbors tetrahedron ! faceIndex)
    \<and> IsInside ctx (neighbors tetrahedron ! faceIndex) position")
  case False
  then have "processNeighbor IsInside position tetrahedron faceIndex (rl, ctx) = (rl, ctx)"
    by (auto simp add: processNeighbor_def Let_def)
  then show ?thesis
    using J s by simp
next
  case True
  define n where "n = neighbors tetrahedron ! faceIndex"
  have n: "n < length flags" "\<not> removed ctx ! n"
    using True nb by (simp_all add: n_def)
  have "processNeighbor IsInside position tetrahedron faceIndex (rl, ctx)
      = (rl @ [n], ctx\<lparr>removed := (removed ctx)[n := True]\<rparr>)"
    using True by (simp add: processNeighbor_def Let_def n_def)
  then have e: "rl' = rl @ [n]" "ctx' = ctx\<lparr>removed := (removed ctx)[n := True]\<rparr>"
    using s by simp_all
  show ?thesis
    unfolding e using J n by (auto simp add: flaggedFrom_iff nth_list_update)
qed

lemma processNeighbors_flaggedFrom:
  assumes "flaggedFrom flags rl ctx"
    and "\<forall>f \<in> set fs. neighbors tetrahedron ! f = M_MAX_UNSIGNED \<or> neighbors tetrahedron ! f < length flags"
    and "fold (processNeighbor IsInside position tetrahedron) fs (rl, ctx) = (rl', ctx')"
  shows "flaggedFrom flags rl' ctx'"
  using assms
proof (induction fs arbitrary: rl ctx)
  case Nil
  then show ?case by simp
next
  case (Cons f fs)
  obtain rl1 ctx1 where s: "processNeighbor IsInside position tetrahedron f (rl, ctx) = (rl1, ctx1)"
    by (cases "processNeighbor IsInside position tetrahedron f (rl, ctx)") simp
  have J1: "flaggedFrom flags rl1 ctx1"
    using processNeighbor_flaggedFrom [OF Cons.prems(1) _ s] Cons.prems(2) by simp
  show ?case
    using Cons.IH [OF J1] Cons.prems(2, 3) s by simp
qed

lemma collectBad_flaggedFrom:
  assumes c: "cellsInRange ts"
    and L: "length flags = length ts"
    and J: "flaggedFrom flags rl ctx"
  shows "\<exists>rl' ctx'. collectBad IsInside position ts i (rl, ctx) = Some (rl', ctx')
          \<and> flaggedFrom flags rl' ctx' \<and> length rl \<le> length rl'"
  using J
proof (induction "live ctx + length rl - i" arbitrary: i rl ctx rule: less_induct)
  case less
  have len: "length (removed ctx) = length ts" and r: "\<forall>x \<in> set rl. x < length ts"
    using less.prems L by (simp_all add: flaggedFrom_iff)
  show ?case
  proof (cases "i < length rl")
    case False
    then show ?thesis
      using less.prems by (subst collectBad.simps) simp
  next
    case True
    have k: "rl ! i < length ts"
      using True r by simp
    have nb: "\<forall>f \<in> set [0..<4]. neighbors (ts ! (rl ! i)) ! f = M_MAX_UNSIGNED
                \<or> neighbors (ts ! (rl ! i)) ! f < length ts"
      using cellsInRange_nth [OF c k] by simp
    obtain rl1 ctx1 where s: "fold (processNeighbor IsInside position (ts ! (rl ! i))) [0..<4] (rl, ctx) = (rl1, ctx1)"
      and p: "live ctx1 + length rl1 = live ctx + length rl" "length rl \<le> length rl1"
      using processNeighbors_props [OF len nb r, of IsInside position] by auto
    have J1: "flaggedFrom flags rl1 ctx1"
      using processNeighbors_flaggedFrom [OF less.prems _ s] nb L by simp
    have m: "live ctx1 + length rl1 - Suc i < live ctx + length rl - i"
      using True p(1) by simp
    have eq: "collectBad IsInside position ts i (rl, ctx) = collectBad IsInside position ts (Suc i) (rl1, ctx1)"
      using True s by (subst collectBad.simps) simp
    show ?thesis
      using less.hyps [OF m J1] p(2) unfolding eq by auto
  qed
qed

lemma findFirst_live:
  "findFirst IsInside ts ctx position = Some tetIndex \<Longrightarrow> \<not> removed ctx ! tetIndex"
  by (auto simp add: findFirst_def find_Some_iff)

lemma FindAndRemoveIntersected_exits:
  assumes f: "findFirst IsInside (tetrahedrons mesh) ctx position = Some tetIndex"
    and b: "collectBad IsInside position (tetrahedrons mesh) 0
              ([tetIndex], ctx\<lparr>removed := (removed ctx)[tetIndex := True]\<rparr>) = Some (rl, ctx1)"
    and v: "verifyTriangles Normalize e (vertices mesh) position
              (collectHoleTriangles (tetrahedrons mesh) ctx1 rl) = (valid, triangles)"
  shows "FindAndRemoveIntersected IsInside Normalize e mesh ctx position False =
        (if \<not> valid
         then Some (False, mesh,
                    ctx1\<lparr>holeTriangles := triangles, removed := revertRemoved rl (removed ctx1)\<rparr>,
                    \<lparr>faces = []\<rparr>, [])
         else (case addFaces \<lparr>faces = []\<rparr> triangles of
                 None \<Rightarrow> Some (False, mesh, ctx1\<lparr>holeTriangles := triangles\<rparr>, \<lparr>faces = []\<rparr>, rl)
               | Some holeSurface' \<Rightarrow>
                   if \<not> IsClosedSurface holeSurface'
                   then Some (False, mesh, ctx1\<lparr>holeTriangles := triangles\<rparr>, \<lparr>faces = []\<rparr>, rl)
                   else Some (True, mesh, ctx1\<lparr>holeTriangles := triangles\<rparr>, holeSurface', rl)))"
  using f b v by (simp add: FindAndRemoveIntersected_def Let_def Clear_def split: option.splits)

lemma search_flags:
  assumes wf: "wellFormed (tetrahedrons mesh) ctx"
    and f: "findFirst IsInside (tetrahedrons mesh) ctx position = Some tetIndex"
    and b: "collectBad IsInside position (tetrahedrons mesh) 0
              ([tetIndex], ctx\<lparr>removed := (removed ctx)[tetIndex := True]\<rparr>) = Some (rl, ctx1)"
  shows "flaggedFrom (removed ctx) rl ctx1" and "rl \<noteq> []"
    and "circumspheres ctx1 = circumspheres ctx"
proof -
  define ts where "ts = tetrahedrons mesh"
  have c: "cellsInRange ts" and L: "length (removed ctx) = length ts"
    using wf by (simp_all add: wellFormed_iff ts_def)
  have t: "tetIndex < length ts" "\<not> removed ctx ! tetIndex"
    using findFirst_range [OF f] findFirst_live [OF f] by (simp_all add: ts_def)
  define ctx0 where "ctx0 = ctx\<lparr>removed := (removed ctx)[tetIndex := True]\<rparr>"
  have J: "flaggedFrom (removed ctx) [tetIndex] ctx0"
    using t L by (auto simp add: flaggedFrom_iff ctx0_def nth_list_update)
  obtain rl1 ctx1' where b1: "collectBad IsInside position ts 0 ([tetIndex], ctx0) = Some (rl1, ctx1')"
    and J1: "flaggedFrom (removed ctx) rl1 ctx1'" and n0: "length [tetIndex] \<le> length rl1"
    using collectBad_flaggedFrom [OF c L J, of IsInside position 0] by blast
  have e: "rl1 = rl" "ctx1' = ctx1"
    using b b1 by (simp_all add: ts_def ctx0_def)
  show "flaggedFrom (removed ctx) rl ctx1"
    using J1 e by simp
  show "rl \<noteq> []"
    using n0 e by auto
  show "circumspheres ctx1 = circumspheres ctx"
    using collectBad_returns [OF c, of ctx0 "[tetIndex]" IsInside position 0] b1 e t L
    by (simp add: ctx0_def)
qed



text \<open>The two states.\<close>

lemma IsInside_yes:
  assumes "circumspheres ctx ! i = \<lparr>center = c, radius = sqrt q\<rparr>"
    and "LengthSquared (vsub p c) < q" and "0 < e"
  shows "IsInsideCircumsphere e ctx i p"
proof -
  have "sqrt (LengthSquared (vsub p c)) < sqrt q"
    using assms(2) by simp
  then have "sqrt (LengthSquared (vsub p c)) - sqrt q < e"
    using assms(3) by linarith
  then show ?thesis
    unfolding IsInsideCircumsphere_def distance_def Let_def assms(1) by simp
qed

lemma IsInside_no:
  assumes "circumspheres ctx ! i = \<lparr>center = c, radius = sqrt q\<rparr>"
    and q: "0 \<le> q" and e: "0 \<le> e"
    and far: "q + e * (q + 1) + e * e \<le> LengthSquared (vsub p c)"
  shows "\<not> IsInsideCircumsphere e ctx i p"
proof -
  define r where "r = sqrt q"
  have r: "0 \<le> r" "r * r = q"
    using q by (simp_all add: r_def)
  have "0 \<le> (r - 1) * (r - 1)"
    by simp
  then have "2 * r \<le> q + 1"
    using r(2) by (simp add: algebra_simps)
  then have "e * (2 * r) \<le> e * (q + 1)"
    using e by (rule mult_left_mono)
  then have "(r + e)\<^sup>2 \<le> q + e * (q + 1) + e * e"
    using r(2) by (simp add: power2_eq_square algebra_simps)
  then have "(r + e)\<^sup>2 \<le> LengthSquared (vsub p c)"
    using far by simp
  then have "r + e \<le> sqrt (LengthSquared (vsub p c))"
    by (rule real_le_rsqrt)
  then have "\<not> sqrt (LengthSquared (vsub p c)) - sqrt q < e"
    unfolding r_def by linarith
  then show ?thesis
    unfolding IsInsideCircumsphere_def distance_def Let_def assms(1) by simp
qed

lemma upt4: "[0..<4] = [0, 1, 2, 3::nat]"
  by (simp add: upt_rec)

lemma duoContext_eq:
  "duoContext = \<lparr>circumspheres = [\<lparr>center = Vector3 0 0 0, radius = sqrt 16\<rparr>,
                                   \<lparr>center = Vector3 0 0 3, radius = sqrt 25\<rparr>],
                  removed = [False, False], holeTriangles = []\<rparr>"
  by (simp add: duoContext_def initialContext_def duoMesh_def duoCells_def duoVertices_def
      GetTetrahedronCircumsphere_def circumcenter_def radiusNum_def radiusDen_def corner_def Let_def
      min_element_def vadd_def vsub_def vscale_def CrossProduct_def DotProduct_def LengthSquared_def ZERO_def)

lemma sentinel_small: "(0::nat) \<noteq> M_MAX_UNSIGNED" "(1::nat) \<noteq> M_MAX_UNSIGNED" "Suc 0 \<noteq> M_MAX_UNSIGNED"
  "(2::nat) \<noteq> M_MAX_UNSIGNED" "(3::nat) \<noteq> M_MAX_UNSIGNED"
  by (simp_all add: M_MAX_UNSIGNED_def)

lemma duo_wellFormed: "wellFormed (tetrahedrons duoMesh) duoContext"
  by (simp add: wellFormed_def duoMesh_def duoCells_def duoContext_eq)

lemma duo_inside:
  "IsInsideCircumsphere (1 / 20000) (duoContext\<lparr>removed := fl\<rparr>) 0 (Vector3 0 0 (- 3))"
  "\<not> IsInsideCircumsphere (1 / 20000) (duoContext\<lparr>removed := fl\<rparr>) (Suc 0) (Vector3 0 0 (- 3))"
   apply (rule IsInside_yes [where c = "Vector3 0 0 0" and q = 16])
     apply (simp_all add: duoContext_eq vsub_def LengthSquared_def DotProduct_def)
  apply (rule IsInside_no [where c = "Vector3 0 0 3" and q = 25])
     apply (simp_all add: duoContext_eq vsub_def LengthSquared_def DotProduct_def)
  done

lemma duo_position: "vertices duoMesh ! 5 = Vector3 0 0 (- 3)"
  by (simp add: duoMesh_def duoVertices_def)

lemma duo_findFirst:
  "findFirst (IsInsideCircumsphere (1 / 20000)) (tetrahedrons duoMesh) duoContext (vertices duoMesh ! 5) = Some 0"
proof -
  have "[0..<length (tetrahedrons duoMesh)] = [0, 1]"
    by (simp add: duoMesh_def duoCells_def upt_rec)
  moreover have "IsInsideCircumsphere (1 / 20000) duoContext 0 (Vector3 0 0 (- 3))"
    using duo_inside(1) [of "removed duoContext"] by simp
  ultimately show ?thesis
    by (simp add: findFirst_def duo_position duoContext_eq)
qed

lemma duo_collectBad:
  "collectBad (IsInsideCircumsphere (1 / 20000)) (vertices duoMesh ! 5) (tetrahedrons duoMesh) 0
     ([0], duoContext\<lparr>removed := (removed duoContext)[0 := True]\<rparr>)
   = Some ([0], duoContext\<lparr>removed := (removed duoContext)[0 := True]\<rparr>)"
proof -
  have "fold (processNeighbor (IsInsideCircumsphere (1 / 20000)) (vertices duoMesh ! 5)
            (tetrahedrons duoMesh ! 0)) [0..<4]
          ([0], duoContext\<lparr>removed := (removed duoContext)[0 := True]\<rparr>)
        = ([0], duoContext\<lparr>removed := (removed duoContext)[0 := True]\<rparr>)"
    unfolding upt4 duo_position using duo_inside(2) [of "(removed duoContext)[0 := True]"]
    by (simp add: processNeighbor_def duoMesh_def duoCells_def Let_def duoContext_eq sentinel_small)
  then show ?thesis
    by (subst collectBad.simps, simp, subst collectBad.simps, simp)
qed

lemma duo_verify:
  "verifyTriangles Normalize_face (1 / 20000) (vertices duoMesh) (vertices duoMesh ! 5)
     (collectHoleTriangles (tetrahedrons duoMesh) (duoContext\<lparr>removed := (removed duoContext)[0 := True]\<rparr>) [0])
   = (False, duoTriangles)"
  by (simp add: collectHoleTriangles_def upt4 holeTrianglesOf_def duoMesh_def duoCells_def duoContext_eq
      duoTriangles_def GetTriangleFace_def GetNeighborFaceIndex_def Let_def sentinel_small
      Normalize_face_def swapFace_def faceDistance_def duoVertices_def
      vsub_def CrossProduct_def DotProduct_def)

lemma pinchContext_eq:
  "pinchContext = \<lparr>circumspheres =
       [\<lparr>center = Vector3 (1 / 2) (- 3 / 2) (- 1 / 2), radius = sqrt (59 / 4)\<rparr>,
        \<lparr>center = Vector3 (- 3 / 2) (1 / 2) (- 1), radius = sqrt (19 / 2)\<rparr>,
        \<lparr>center = Vector3 (- 1 / 2) (- 1 / 2) 0, radius = sqrt (13 / 2)\<rparr>,
        \<lparr>center = Vector3 (1 / 2) (- 1 / 2) (1 / 2), radius = sqrt (35 / 4)\<rparr>],
     removed = [False, False, False, False], holeTriangles = []\<rparr>"
  by (simp add: pinchContext_def initialContext_def pinchMesh_def pinchCells_def pinchVertices_def
      GetTetrahedronCircumsphere_def circumcenter_def radiusNum_def radiusDen_def corner_def Let_def
      min_element_def vadd_def vsub_def vscale_def CrossProduct_def DotProduct_def LengthSquared_def ZERO_def)

lemma pinch_wellFormed: "wellFormed (tetrahedrons pinchMesh) pinchContext"
  by (simp add: wellFormed_def pinchMesh_def pinchCells_def pinchContext_eq sentinel_small)

lemma pinch_position: "vertices pinchMesh ! 6 = Vector3 (- 1) 1 1"
  by (simp add: pinchMesh_def pinchVertices_def)

lemma pinch_inside:
  "IsInsideCircumsphere (1 / 20000) (pinchContext\<lparr>removed := fl\<rparr>) 0 (Vector3 (- 1) 1 1)"
  "IsInsideCircumsphere (1 / 20000) (pinchContext\<lparr>removed := fl\<rparr>) (Suc 0) (Vector3 (- 1) 1 1)"
  "IsInsideCircumsphere (1 / 20000) (pinchContext\<lparr>removed := fl\<rparr>) 2 (Vector3 (- 1) 1 1)"
  "IsInsideCircumsphere (1 / 20000) (pinchContext\<lparr>removed := fl\<rparr>) 3 (Vector3 (- 1) 1 1)"
     apply (rule IsInside_yes [where c = "Vector3 (1 / 2) (- 3 / 2) (- 1 / 2)" and q = "59 / 4"])
       apply (simp_all add: pinchContext_eq vsub_def LengthSquared_def DotProduct_def)
    apply (rule IsInside_yes [where c = "Vector3 (- 3 / 2) (1 / 2) (- 1)" and q = "19 / 2"])
      apply (simp_all add: pinchContext_eq vsub_def LengthSquared_def DotProduct_def)
   apply (rule IsInside_yes [where c = "Vector3 (- 1 / 2) (- 1 / 2) 0" and q = "13 / 2"])
     apply (simp_all add: pinchContext_eq vsub_def LengthSquared_def DotProduct_def)
  apply (rule IsInside_yes [where c = "Vector3 (1 / 2) (- 1 / 2) (1 / 2)" and q = "35 / 4"])
    apply (simp_all add: pinchContext_eq vsub_def LengthSquared_def DotProduct_def)
  done

lemma pinch_findFirst:
  "findFirst (IsInsideCircumsphere (1 / 20000)) (tetrahedrons pinchMesh) pinchContext (vertices pinchMesh ! 6)
     = Some 0"
proof -
  have "[0..<length (tetrahedrons pinchMesh)] = [0, 1, 2, 3]"
    by (simp add: pinchMesh_def pinchCells_def upt_rec)
  moreover have "IsInsideCircumsphere (1 / 20000) pinchContext 0 (Vector3 (- 1) 1 1)"
    using pinch_inside(1) [of "removed pinchContext"] by simp
  ultimately show ?thesis
    by (simp add: findFirst_def pinch_position pinchContext_eq)
qed

lemma pinch_verify:
  "verifyTriangles Normalize_face (1 / 20000) (vertices pinchMesh) (vertices pinchMesh ! 6)
     (collectHoleTriangles (tetrahedrons pinchMesh) (pinchContext\<lparr>removed := [True, True, True, True]\<rparr>)
        [0, 1, 2, 3])
   = (True, pinchTriangles)"
  by (simp add: collectHoleTriangles_def upt4 holeTrianglesOf_def pinchMesh_def pinchCells_def pinchContext_eq
      pinchTriangles_def hullTriangle_def GetTriangleFace_def Let_def sentinel_small)

lemma sentinel_numeral:
  "(numeral k = M_MAX_UNSIGNED) = (numeral k = (4294967295::nat))"
  "(M_MAX_UNSIGNED = numeral k) = ((4294967295::nat) = numeral k)"
  by (simp_all add: M_MAX_UNSIGNED_def)

lemma upt_small: "[0..<3] = [0, 1, 2::nat]" "[0..<2] = [0, 1::nat]" "[0..<1] = [0::nat]"
    "[0..<8] = [0, 1, 2, 3, 4, 5, 6, 7::nat]" "[0..<7] = [0, 1, 2, 3, 4, 5, 6::nat]"
    "[0..<6] = [0, 1, 2, 3, 4, 5::nat]" "[0..<5] = [0, 1, 2, 3, 4::nat]"
  by (simp_all add: upt_rec)

lemmas add_simps = AddFace_def edgePairs_def upt_small upt4 linkEdges_def GetEdge_def setFaceNeighbor_def
  sentinel_small sentinel_numeral

lemma addFaces_step: "AddFace s t = (True, s') \<Longrightarrow> addFaces s (t # rest) = addFaces s' rest"
  by simp

lemma addFaces_fail: "fst (AddFace s t) = False \<Longrightarrow> addFaces s (t # rest) = None"
  by (cases "AddFace s t") simp

lemma pinch_AddFace0:
  "AddFace \<lparr>faces = []\<rparr>
     (hullTriangle [1, 2, 3] 0)
   = (True, \<lparr>faces = [\<lparr>face_indices = [1, 2, 3], face_neighbors = [M_MAX_UNSIGNED, M_MAX_UNSIGNED, M_MAX_UNSIGNED], unusedIndex = 0, face_tetIndex = M_MAX_UNSIGNED, face_tetFace = M_MAX_UNSIGNED\<rparr>]\<rparr>)"
  by (simp add: add_simps hullTriangle_def)

lemma pinch_AddFace1:
  "AddFace \<lparr>faces = [\<lparr>face_indices = [1, 2, 3], face_neighbors = [M_MAX_UNSIGNED, M_MAX_UNSIGNED, M_MAX_UNSIGNED], unusedIndex = 0, face_tetIndex = M_MAX_UNSIGNED, face_tetFace = M_MAX_UNSIGNED\<rparr>]\<rparr>
     (hullTriangle [0, 1, 3] 2)
   = (True, \<lparr>faces = [\<lparr>face_indices = [1, 2, 3], face_neighbors = [M_MAX_UNSIGNED, 1, M_MAX_UNSIGNED], unusedIndex = 0, face_tetIndex = M_MAX_UNSIGNED, face_tetFace = M_MAX_UNSIGNED\<rparr>,
                \<lparr>face_indices = [0, 1, 3], face_neighbors = [0, M_MAX_UNSIGNED, M_MAX_UNSIGNED], unusedIndex = 2, face_tetIndex = M_MAX_UNSIGNED, face_tetFace = M_MAX_UNSIGNED\<rparr>]\<rparr>)"
  by (simp add: add_simps hullTriangle_def)

lemma pinch_AddFace2:
  "AddFace \<lparr>faces = [\<lparr>face_indices = [1, 2, 3], face_neighbors = [M_MAX_UNSIGNED, 1, M_MAX_UNSIGNED], unusedIndex = 0, face_tetIndex = M_MAX_UNSIGNED, face_tetFace = M_MAX_UNSIGNED\<rparr>,
                \<lparr>face_indices = [0, 1, 3], face_neighbors = [0, M_MAX_UNSIGNED, M_MAX_UNSIGNED], unusedIndex = 2, face_tetIndex = M_MAX_UNSIGNED, face_tetFace = M_MAX_UNSIGNED\<rparr>]\<rparr>
     (hullTriangle [0, 1, 2] 3)
   = (True, \<lparr>faces = [\<lparr>face_indices = [1, 2, 3], face_neighbors = [M_MAX_UNSIGNED, 1, 2], unusedIndex = 0, face_tetIndex = M_MAX_UNSIGNED, face_tetFace = M_MAX_UNSIGNED\<rparr>,
                \<lparr>face_indices = [0, 1, 3], face_neighbors = [0, M_MAX_UNSIGNED, 2], unusedIndex = 2, face_tetIndex = M_MAX_UNSIGNED, face_tetFace = M_MAX_UNSIGNED\<rparr>,
                \<lparr>face_indices = [0, 1, 2], face_neighbors = [0, M_MAX_UNSIGNED, 1], unusedIndex = 3, face_tetIndex = M_MAX_UNSIGNED, face_tetFace = M_MAX_UNSIGNED\<rparr>]\<rparr>)"
  by (simp add: add_simps hullTriangle_def)

lemma pinch_AddFace3:
  "AddFace \<lparr>faces = [\<lparr>face_indices = [1, 2, 3], face_neighbors = [M_MAX_UNSIGNED, 1, 2], unusedIndex = 0, face_tetIndex = M_MAX_UNSIGNED, face_tetFace = M_MAX_UNSIGNED\<rparr>,
                \<lparr>face_indices = [0, 1, 3], face_neighbors = [0, M_MAX_UNSIGNED, 2], unusedIndex = 2, face_tetIndex = M_MAX_UNSIGNED, face_tetFace = M_MAX_UNSIGNED\<rparr>,
                \<lparr>face_indices = [0, 1, 2], face_neighbors = [0, M_MAX_UNSIGNED, 1], unusedIndex = 3, face_tetIndex = M_MAX_UNSIGNED, face_tetFace = M_MAX_UNSIGNED\<rparr>]\<rparr>
     (hullTriangle [2, 3, 4] 0)
   = (True, \<lparr>faces = [\<lparr>face_indices = [1, 2, 3], face_neighbors = [3, 1, 2], unusedIndex = 0, face_tetIndex = M_MAX_UNSIGNED, face_tetFace = M_MAX_UNSIGNED\<rparr>,
                \<lparr>face_indices = [0, 1, 3], face_neighbors = [0, M_MAX_UNSIGNED, 2], unusedIndex = 2, face_tetIndex = M_MAX_UNSIGNED, face_tetFace = M_MAX_UNSIGNED\<rparr>,
                \<lparr>face_indices = [0, 1, 2], face_neighbors = [0, M_MAX_UNSIGNED, 1], unusedIndex = 3, face_tetIndex = M_MAX_UNSIGNED, face_tetFace = M_MAX_UNSIGNED\<rparr>,
                \<lparr>face_indices = [2, 3, 4], face_neighbors = [M_MAX_UNSIGNED, M_MAX_UNSIGNED, 0], unusedIndex = 0, face_tetIndex = M_MAX_UNSIGNED, face_tetFace = M_MAX_UNSIGNED\<rparr>]\<rparr>)"
  by (simp add: add_simps hullTriangle_def)

lemma pinch_AddFace4:
  "AddFace \<lparr>faces = [\<lparr>face_indices = [1, 2, 3], face_neighbors = [3, 1, 2], unusedIndex = 0, face_tetIndex = M_MAX_UNSIGNED, face_tetFace = M_MAX_UNSIGNED\<rparr>,
                \<lparr>face_indices = [0, 1, 3], face_neighbors = [0, M_MAX_UNSIGNED, 2], unusedIndex = 2, face_tetIndex = M_MAX_UNSIGNED, face_tetFace = M_MAX_UNSIGNED\<rparr>,
                \<lparr>face_indices = [0, 1, 2], face_neighbors = [0, M_MAX_UNSIGNED, 1], unusedIndex = 3, face_tetIndex = M_MAX_UNSIGNED, face_tetFace = M_MAX_UNSIGNED\<rparr>,
                \<lparr>face_indices = [2, 3, 4], face_neighbors = [M_MAX_UNSIGNED, M_MAX_UNSIGNED, 0], unusedIndex = 0, face_tetIndex = M_MAX_UNSIGNED, face_tetFace = M_MAX_UNSIGNED\<rparr>]\<rparr>
     (hullTriangle [0, 2, 4] 3)
   = (True, \<lparr>faces = [\<lparr>face_indices = [1, 2, 3], face_neighbors = [3, 1, 2], unusedIndex = 0, face_tetIndex = M_MAX_UNSIGNED, face_tetFace = M_MAX_UNSIGNED\<rparr>,
                \<lparr>face_indices = [0, 1, 3], face_neighbors = [0, M_MAX_UNSIGNED, 2], unusedIndex = 2, face_tetIndex = M_MAX_UNSIGNED, face_tetFace = M_MAX_UNSIGNED\<rparr>,
                \<lparr>face_indices = [0, 1, 2], face_neighbors = [0, 4, 1], unusedIndex = 3, face_tetIndex = M_MAX_UNSIGNED, face_tetFace = M_MAX_UNSIGNED\<rparr>,
                \<lparr>face_indices = [2, 3, 4], face_neighbors = [M_MAX_UNSIGNED, 4, 0], unusedIndex = 0, face_tetIndex = M_MAX_UNSIGNED, face_tetFace = M_MAX_UNSIGNED\<rparr>,
                \<lparr>face_indices = [0, 2, 4], face_neighbors = [3, M_MAX_UNSIGNED, 2], unusedIndex = 3, face_tetIndex = M_MAX_UNSIGNED, face_tetFace = M_MAX_UNSIGNED\<rparr>]\<rparr>)"
  by (simp add: add_simps hullTriangle_def)

lemma pinch_AddFace5:
  "AddFace \<lparr>faces = [\<lparr>face_indices = [1, 2, 3], face_neighbors = [3, 1, 2], unusedIndex = 0, face_tetIndex = M_MAX_UNSIGNED, face_tetFace = M_MAX_UNSIGNED\<rparr>,
                \<lparr>face_indices = [0, 1, 3], face_neighbors = [0, M_MAX_UNSIGNED, 2], unusedIndex = 2, face_tetIndex = M_MAX_UNSIGNED, face_tetFace = M_MAX_UNSIGNED\<rparr>,
                \<lparr>face_indices = [0, 1, 2], face_neighbors = [0, 4, 1], unusedIndex = 3, face_tetIndex = M_MAX_UNSIGNED, face_tetFace = M_MAX_UNSIGNED\<rparr>,
                \<lparr>face_indices = [2, 3, 4], face_neighbors = [M_MAX_UNSIGNED, 4, 0], unusedIndex = 0, face_tetIndex = M_MAX_UNSIGNED, face_tetFace = M_MAX_UNSIGNED\<rparr>,
                \<lparr>face_indices = [0, 2, 4], face_neighbors = [3, M_MAX_UNSIGNED, 2], unusedIndex = 3, face_tetIndex = M_MAX_UNSIGNED, face_tetFace = M_MAX_UNSIGNED\<rparr>]\<rparr>
     (hullTriangle [3, 4, 5] 0)
   = (True, \<lparr>faces = [\<lparr>face_indices = [1, 2, 3], face_neighbors = [3, 1, 2], unusedIndex = 0, face_tetIndex = M_MAX_UNSIGNED, face_tetFace = M_MAX_UNSIGNED\<rparr>,
                \<lparr>face_indices = [0, 1, 3], face_neighbors = [0, M_MAX_UNSIGNED, 2], unusedIndex = 2, face_tetIndex = M_MAX_UNSIGNED, face_tetFace = M_MAX_UNSIGNED\<rparr>,
                \<lparr>face_indices = [0, 1, 2], face_neighbors = [0, 4, 1], unusedIndex = 3, face_tetIndex = M_MAX_UNSIGNED, face_tetFace = M_MAX_UNSIGNED\<rparr>,
                \<lparr>face_indices = [2, 3, 4], face_neighbors = [5, 4, 0], unusedIndex = 0, face_tetIndex = M_MAX_UNSIGNED, face_tetFace = M_MAX_UNSIGNED\<rparr>,
                \<lparr>face_indices = [0, 2, 4], face_neighbors = [3, M_MAX_UNSIGNED, 2], unusedIndex = 3, face_tetIndex = M_MAX_UNSIGNED, face_tetFace = M_MAX_UNSIGNED\<rparr>,
                \<lparr>face_indices = [3, 4, 5], face_neighbors = [M_MAX_UNSIGNED, M_MAX_UNSIGNED, 3], unusedIndex = 0, face_tetIndex = M_MAX_UNSIGNED, face_tetFace = M_MAX_UNSIGNED\<rparr>]\<rparr>)"
  by (simp add: add_simps hullTriangle_def)

lemma pinch_AddFace6:
  "AddFace \<lparr>faces = [\<lparr>face_indices = [1, 2, 3], face_neighbors = [3, 1, 2], unusedIndex = 0, face_tetIndex = M_MAX_UNSIGNED, face_tetFace = M_MAX_UNSIGNED\<rparr>,
                \<lparr>face_indices = [0, 1, 3], face_neighbors = [0, M_MAX_UNSIGNED, 2], unusedIndex = 2, face_tetIndex = M_MAX_UNSIGNED, face_tetFace = M_MAX_UNSIGNED\<rparr>,
                \<lparr>face_indices = [0, 1, 2], face_neighbors = [0, 4, 1], unusedIndex = 3, face_tetIndex = M_MAX_UNSIGNED, face_tetFace = M_MAX_UNSIGNED\<rparr>,
                \<lparr>face_indices = [2, 3, 4], face_neighbors = [5, 4, 0], unusedIndex = 0, face_tetIndex = M_MAX_UNSIGNED, face_tetFace = M_MAX_UNSIGNED\<rparr>,
                \<lparr>face_indices = [0, 2, 4], face_neighbors = [3, M_MAX_UNSIGNED, 2], unusedIndex = 3, face_tetIndex = M_MAX_UNSIGNED, face_tetFace = M_MAX_UNSIGNED\<rparr>,
                \<lparr>face_indices = [3, 4, 5], face_neighbors = [M_MAX_UNSIGNED, M_MAX_UNSIGNED, 3], unusedIndex = 0, face_tetIndex = M_MAX_UNSIGNED, face_tetFace = M_MAX_UNSIGNED\<rparr>]\<rparr>
     (hullTriangle [0, 3, 5] 4)
   = (True, \<lparr>faces = [\<lparr>face_indices = [1, 2, 3], face_neighbors = [3, 1, 2], unusedIndex = 0, face_tetIndex = M_MAX_UNSIGNED, face_tetFace = M_MAX_UNSIGNED\<rparr>,
                \<lparr>face_indices = [0, 1, 3], face_neighbors = [0, 6, 2], unusedIndex = 2, face_tetIndex = M_MAX_UNSIGNED, face_tetFace = M_MAX_UNSIGNED\<rparr>,
                \<lparr>face_indices = [0, 1, 2], face_neighbors = [0, 4, 1], unusedIndex = 3, face_tetIndex = M_MAX_UNSIGNED, face_tetFace = M_MAX_UNSIGNED\<rparr>,
                \<lparr>face_indices = [2, 3, 4], face_neighbors = [5, 4, 0], unusedIndex = 0, face_tetIndex = M_MAX_UNSIGNED, face_tetFace = M_MAX_UNSIGNED\<rparr>,
                \<lparr>face_indices = [0, 2, 4], face_neighbors = [3, M_MAX_UNSIGNED, 2], unusedIndex = 3, face_tetIndex = M_MAX_UNSIGNED, face_tetFace = M_MAX_UNSIGNED\<rparr>,
                \<lparr>face_indices = [3, 4, 5], face_neighbors = [M_MAX_UNSIGNED, 6, 3], unusedIndex = 0, face_tetIndex = M_MAX_UNSIGNED, face_tetFace = M_MAX_UNSIGNED\<rparr>,
                \<lparr>face_indices = [0, 3, 5], face_neighbors = [5, M_MAX_UNSIGNED, 1], unusedIndex = 4, face_tetIndex = M_MAX_UNSIGNED, face_tetFace = M_MAX_UNSIGNED\<rparr>]\<rparr>)"
  by (simp add: add_simps hullTriangle_def)

lemma pinch_AddFace7:
  "AddFace \<lparr>faces = [\<lparr>face_indices = [1, 2, 3], face_neighbors = [3, 1, 2], unusedIndex = 0, face_tetIndex = M_MAX_UNSIGNED, face_tetFace = M_MAX_UNSIGNED\<rparr>,
                \<lparr>face_indices = [0, 1, 3], face_neighbors = [0, 6, 2], unusedIndex = 2, face_tetIndex = M_MAX_UNSIGNED, face_tetFace = M_MAX_UNSIGNED\<rparr>,
                \<lparr>face_indices = [0, 1, 2], face_neighbors = [0, 4, 1], unusedIndex = 3, face_tetIndex = M_MAX_UNSIGNED, face_tetFace = M_MAX_UNSIGNED\<rparr>,
                \<lparr>face_indices = [2, 3, 4], face_neighbors = [5, 4, 0], unusedIndex = 0, face_tetIndex = M_MAX_UNSIGNED, face_tetFace = M_MAX_UNSIGNED\<rparr>,
                \<lparr>face_indices = [0, 2, 4], face_neighbors = [3, M_MAX_UNSIGNED, 2], unusedIndex = 3, face_tetIndex = M_MAX_UNSIGNED, face_tetFace = M_MAX_UNSIGNED\<rparr>,
                \<lparr>face_indices = [3, 4, 5], face_neighbors = [M_MAX_UNSIGNED, 6, 3], unusedIndex = 0, face_tetIndex = M_MAX_UNSIGNED, face_tetFace = M_MAX_UNSIGNED\<rparr>,
                \<lparr>face_indices = [0, 3, 5], face_neighbors = [5, M_MAX_UNSIGNED, 1], unusedIndex = 4, face_tetIndex = M_MAX_UNSIGNED, face_tetFace = M_MAX_UNSIGNED\<rparr>]\<rparr>
     (hullTriangle [1, 4, 5] 0)
   = (True, \<lparr>faces = [\<lparr>face_indices = [1, 2, 3], face_neighbors = [3, 1, 2], unusedIndex = 0, face_tetIndex = M_MAX_UNSIGNED, face_tetFace = M_MAX_UNSIGNED\<rparr>,
                \<lparr>face_indices = [0, 1, 3], face_neighbors = [0, 6, 2], unusedIndex = 2, face_tetIndex = M_MAX_UNSIGNED, face_tetFace = M_MAX_UNSIGNED\<rparr>,
                \<lparr>face_indices = [0, 1, 2], face_neighbors = [0, 4, 1], unusedIndex = 3, face_tetIndex = M_MAX_UNSIGNED, face_tetFace = M_MAX_UNSIGNED\<rparr>,
                \<lparr>face_indices = [2, 3, 4], face_neighbors = [5, 4, 0], unusedIndex = 0, face_tetIndex = M_MAX_UNSIGNED, face_tetFace = M_MAX_UNSIGNED\<rparr>,
                \<lparr>face_indices = [0, 2, 4], face_neighbors = [3, M_MAX_UNSIGNED, 2], unusedIndex = 3, face_tetIndex = M_MAX_UNSIGNED, face_tetFace = M_MAX_UNSIGNED\<rparr>,
                \<lparr>face_indices = [3, 4, 5], face_neighbors = [7, 6, 3], unusedIndex = 0, face_tetIndex = M_MAX_UNSIGNED, face_tetFace = M_MAX_UNSIGNED\<rparr>,
                \<lparr>face_indices = [0, 3, 5], face_neighbors = [5, M_MAX_UNSIGNED, 1], unusedIndex = 4, face_tetIndex = M_MAX_UNSIGNED, face_tetFace = M_MAX_UNSIGNED\<rparr>,
                \<lparr>face_indices = [1, 4, 5], face_neighbors = [5, M_MAX_UNSIGNED, M_MAX_UNSIGNED], unusedIndex = 0, face_tetIndex = M_MAX_UNSIGNED, face_tetFace = M_MAX_UNSIGNED\<rparr>]\<rparr>)"
  by (simp add: add_simps hullTriangle_def)

lemma pinch_AddFace8:
  "fst (AddFace \<lparr>faces = [\<lparr>face_indices = [1, 2, 3], face_neighbors = [3, 1, 2], unusedIndex = 0, face_tetIndex = M_MAX_UNSIGNED, face_tetFace = M_MAX_UNSIGNED\<rparr>,
                \<lparr>face_indices = [0, 1, 3], face_neighbors = [0, 6, 2], unusedIndex = 2, face_tetIndex = M_MAX_UNSIGNED, face_tetFace = M_MAX_UNSIGNED\<rparr>,
                \<lparr>face_indices = [0, 1, 2], face_neighbors = [0, 4, 1], unusedIndex = 3, face_tetIndex = M_MAX_UNSIGNED, face_tetFace = M_MAX_UNSIGNED\<rparr>,
                \<lparr>face_indices = [2, 3, 4], face_neighbors = [5, 4, 0], unusedIndex = 0, face_tetIndex = M_MAX_UNSIGNED, face_tetFace = M_MAX_UNSIGNED\<rparr>,
                \<lparr>face_indices = [0, 2, 4], face_neighbors = [3, M_MAX_UNSIGNED, 2], unusedIndex = 3, face_tetIndex = M_MAX_UNSIGNED, face_tetFace = M_MAX_UNSIGNED\<rparr>,
                \<lparr>face_indices = [3, 4, 5], face_neighbors = [7, 6, 3], unusedIndex = 0, face_tetIndex = M_MAX_UNSIGNED, face_tetFace = M_MAX_UNSIGNED\<rparr>,
                \<lparr>face_indices = [0, 3, 5], face_neighbors = [5, M_MAX_UNSIGNED, 1], unusedIndex = 4, face_tetIndex = M_MAX_UNSIGNED, face_tetFace = M_MAX_UNSIGNED\<rparr>,
                \<lparr>face_indices = [1, 4, 5], face_neighbors = [5, M_MAX_UNSIGNED, M_MAX_UNSIGNED], unusedIndex = 0, face_tetIndex = M_MAX_UNSIGNED, face_tetFace = M_MAX_UNSIGNED\<rparr>]\<rparr>
     (hullTriangle [0, 1, 5] 4)) = False"
  by (simp add: add_simps hullTriangle_def)


lemma pinch_addFaces: "addFaces \<lparr>faces = []\<rparr> pinchTriangles = None"
  unfolding pinchTriangles_def
  by (simp only: addFaces_step [OF pinch_AddFace0] addFaces_step [OF pinch_AddFace1]
      addFaces_step [OF pinch_AddFace2] addFaces_step [OF pinch_AddFace3]
      addFaces_step [OF pinch_AddFace4] addFaces_step [OF pinch_AddFace5]
      addFaces_step [OF pinch_AddFace6] addFaces_step [OF pinch_AddFace7]
      addFaces_fail [OF pinch_AddFace8])

lemma collectBad_step:
  "i < length rl \<Longrightarrow>
     collectBad IsInside position ts i (rl, ctx)
       = collectBad IsInside position ts (Suc i)
           (fold (processNeighbor IsInside position (ts ! (rl ! i))) [0..<4] (rl, ctx))"
  by (subst collectBad.simps) simp

lemma collectBad_done:
  "\<not> i < length rl \<Longrightarrow> collectBad IsInside position ts i (rl, ctx) = Some (rl, ctx)"
  by (subst collectBad.simps) simp

lemma pinch_collectBad:
  "collectBad (IsInsideCircumsphere (1 / 20000)) (vertices pinchMesh ! 6) (tetrahedrons pinchMesh) 0
     ([0], pinchContext\<lparr>removed := (removed pinchContext)[0 := True]\<rparr>)
   = Some ([0, 1, 2, 3], pinchContext\<lparr>removed := [True, True, True, True]\<rparr>)"
proof -
  let ?I = "IsInsideCircumsphere (1 / 20000)"
  let ?p = "Vector3 (- 1) 1 1"
  have r: "removed (pinchContext\<lparr>removed := fl\<rparr>) = fl" for fl
    by simp
  have r0: "(removed pinchContext)[0 := True] = [True, False, False, False]"
    by (simp add: pinchContext_eq)
  note s = processNeighbor_def pinchCells_def Let_def r sentinel_small sentinel_numeral pinch_inside upt4
  have "collectBad ?I ?p pinchCells 0 ([0], pinchContext\<lparr>removed := [True, False, False, False]\<rparr>)
      = collectBad ?I ?p pinchCells (Suc 0) ([0, 1], pinchContext\<lparr>removed := [True, True, False, False]\<rparr>)"
    by (subst collectBad_step) (simp_all add: s)
  also have "\<dots> = collectBad ?I ?p pinchCells (Suc (Suc 0))
      ([0, 1, 2], pinchContext\<lparr>removed := [True, True, True, False]\<rparr>)"
    by (subst collectBad_step) (simp_all add: s)
  also have "\<dots> = collectBad ?I ?p pinchCells (Suc (Suc (Suc 0)))
      ([0, 1, 2, 3], pinchContext\<lparr>removed := [True, True, True, True]\<rparr>)"
    by (subst collectBad_step) (simp_all add: s)
  also have "\<dots> = collectBad ?I ?p pinchCells (Suc (Suc (Suc (Suc 0))))
      ([0, 1, 2, 3], pinchContext\<lparr>removed := [True, True, True, True]\<rparr>)"
    by (subst collectBad_step) (simp_all add: s)
  also have "\<dots> = Some ([0, 1, 2, 3], pinchContext\<lparr>removed := [True, True, True, True]\<rparr>)"
    by (subst collectBad_done) simp_all
  finally show ?thesis
    by (simp add: pinch_position [unfolded pinchMesh_def, simplified] r0 pinchMesh_def)
qed



subsection \<open>The matrices\<close>

lemma fold_update_nth:
  assumes step: "\<And>i xs. step i xs = xs[i := g (xs ! i)]"
  shows "length (fold step [a..<b] xs) = length xs"
    and "k < length xs \<Longrightarrow> fold step [a..<b] xs ! k = (if a \<le> k \<and> k < b then g (xs ! k) else xs ! k)"
proof -
  have "length (fold step [a..<b] xs) = length xs
      \<and> (\<forall>k<length xs. fold step [a..<b] xs ! k = (if a \<le> k \<and> k < b then g (xs ! k) else xs ! k))"
  proof (induction b)
    case 0
    then show ?case by simp
  next
    case (Suc b)
    show ?case
    proof (cases "a \<le> b")
      case False
      then show ?thesis by auto
    next
      case True
      define ys where "ys = fold step [a..<b] xs"
      have l: "length ys = length xs"
        and n: "\<And>k. k < length xs \<Longrightarrow> ys ! k = (if a \<le> k \<and> k < b then g (xs ! k) else xs ! k)"
        using Suc by (simp_all add: ys_def)
      have f: "fold step [a..<Suc b] xs = ys[b := g (ys ! b)]"
        using True by (simp add: ys_def step)
      have "ys[b := g (ys ! b)] ! k = (if a \<le> k \<and> k < Suc b then g (xs ! k) else xs ! k)"
        if k: "k < length xs" for k
      proof (cases "k = b")
        case True
        then show ?thesis
          using k l n [of b] \<open>a \<le> b\<close> by simp
      next
        case False
        then show ?thesis
          using k n [of k] by auto
      qed
      then show ?thesis
        unfolding f using l by simp
    qed
  qed
  then show "length (fold step [a..<b] xs) = length xs"
    and "k < length xs \<Longrightarrow> fold step [a..<b] xs ! k = (if a \<le> k \<and> k < b then g (xs ! k) else xs ! k)"
    by simp_all
qed

lemma adjugate_rows:
  fixes a b c d e f g h i :: real
  defines "D \<equiv> a * e * i + d * h * c + g * b * f - g * e * c - d * b * i - a * h * f"
  shows "(e * i - h * f) * a - (b * i - h * c) * d + (b * f - e * c) * g = D"
    and "(e * i - h * f) * b - (b * i - h * c) * e + (b * f - e * c) * h = 0"
    and "(e * i - h * f) * c - (b * i - h * c) * f + (b * f - e * c) * i = 0"
    and "- (d * i - g * f) * a + (a * i - g * c) * d - (a * f - d * c) * g = 0"
    and "- (d * i - g * f) * b + (a * i - g * c) * e - (a * f - d * c) * h = D"
    and "- (d * i - g * f) * c + (a * i - g * c) * f - (a * f - d * c) * i = 0"
    and "(d * h - g * e) * a - (a * h - g * b) * d + (a * e - d * b) * g = 0"
    and "(d * h - g * e) * b - (a * h - g * b) * e + (a * e - d * b) * h = 0"
    and "(d * h - g * e) * c - (a * h - g * b) * f + (a * e - d * b) * i = D"
  unfolding D_def by (simp_all add: algebra_simps)

lemma adjugate_columns:
  fixes a b c d e f g h i :: real
  defines "D \<equiv> a * e * i + d * h * c + g * b * f - g * e * c - d * b * i - a * h * f"
  shows "a * (e * i - h * f) - b * (d * i - g * f) + c * (d * h - g * e) = D"
    and "- a * (b * i - h * c) + b * (a * i - g * c) - c * (a * h - g * b) = 0"
    and "a * (b * f - e * c) - b * (a * f - d * c) + c * (a * e - d * b) = 0"
    and "d * (e * i - h * f) - e * (d * i - g * f) + f * (d * h - g * e) = 0"
    and "- d * (b * i - h * c) + e * (a * i - g * c) - f * (a * h - g * b) = D"
    and "d * (b * f - e * c) - e * (a * f - d * c) + f * (a * e - d * b) = 0"
    and "g * (e * i - h * f) - h * (d * i - g * f) + i * (d * h - g * e) = 0"
    and "- g * (b * i - h * c) + h * (a * i - g * c) - i * (a * h - g * b) = 0"
    and "g * (b * f - e * c) - h * (a * f - d * c) + i * (a * e - d * b) = D"
  unfolding D_def by (simp_all add: algebra_simps)

lemma scaled_sum:
  fixes x :: real
  shows "(p * x) * u + (- q * x) * v + (r * x) * w = (p * u - q * v + r * w) * x"
    and "(- p * x) * u + (q * x) * v + (- r * x) * w = (- p * u + q * v - r * w) * x"
    and "u * (p * x) + v * (- q * x) + w * (r * x) = (u * p - v * q + w * r) * x"
    and "u * (- p * x) + v * (q * x) + w * (- r * x) = (- u * p + v * q - w * r) * x"
  by (simp_all add: algebra_simps)

lemma Inverse_left:
  assumes "Determinant m \<noteq> 0"
  shows "multiply3 (Inverse m) m = IDENTITY"
proof (cases m)
  case (Matrix3 a b c d e f g h i)
  show ?thesis
    using assms
    unfolding Matrix3 multiply3_def Inverse_def Determinant_def IDENTITY_def Let_def Matrix3.sel
      scaled_sum adjugate_rows
    by simp
qed

lemma Inverse_right:
  assumes "Determinant m \<noteq> 0"
  shows "multiply3 m (Inverse m) = IDENTITY"
proof (cases m)
  case (Matrix3 a b c d e f g h i)
  show ?thesis
    using assms
    unfolding Matrix3 multiply3_def Inverse_def Determinant_def IDENTITY_def Let_def Matrix3.sel
      scaled_sum adjugate_columns
    by simp
qed

lemma Determinant_edgeMatrix:
  "Determinant (edgeMatrix vs t)
     = DotProduct (vsub (corner vs t 1) (corner vs t 0))
         (CrossProduct (vsub (corner vs t 2) (corner vs t 0)) (vsub (corner vs t 3) (corner vs t 0)))"
  by (simp add: Determinant_def edgeMatrix_def Let_def DotProduct_def CrossProduct_def algebra_simps)

lemma ApplyMatrix_columns:
  "ApplyMatrix (toMatrix3x4 a) (Vector3 (n00 b) (n10 b) (n20 b))
     = Vector3 (n00 (multiply3 a b)) (n10 (multiply3 a b)) (n20 (multiply3 a b))"
  "ApplyMatrix (toMatrix3x4 a) (Vector3 (n01 b) (n11 b) (n21 b))
     = Vector3 (n01 (multiply3 a b)) (n11 (multiply3 a b)) (n21 (multiply3 a b))"
  "ApplyMatrix (toMatrix3x4 a) (Vector3 (n02 b) (n12 b) (n22 b))
     = Vector3 (n02 (multiply3 a b)) (n12 (multiply3 a b)) (n22 (multiply3 a b))"
  by (simp_all add: ApplyMatrix_def toMatrix3x4_def multiply3_def)

lemma edgeMatrix_columns:
  "Vector3 (n00 (edgeMatrix vs t)) (n10 (edgeMatrix vs t)) (n20 (edgeMatrix vs t)) = vsub (corner vs t 1) (corner vs t 0)"
  "Vector3 (n01 (edgeMatrix vs t)) (n11 (edgeMatrix vs t)) (n21 (edgeMatrix vs t)) = vsub (corner vs t 2) (corner vs t 0)"
  "Vector3 (n02 (edgeMatrix vs t)) (n12 (edgeMatrix vs t)) (n22 (edgeMatrix vs t)) = vsub (corner vs t 3) (corner vs t 0)"
  by (simp_all add: edgeMatrix_def Let_def)

lemma ApplyMatrix_zero: "ApplyMatrix (toMatrix3x4 a) (vsub p p) = Vector3 0 0 0"
  by (simp add: ApplyMatrix_def toMatrix3x4_def vsub_def)

lemma CalculateInnerMatrices_nth:
  assumes "tetIndex < numInnerTetrahedrons mesh" "tetIndex < length (tetrahedrons mesh)"
  shows "tetrahedrons (CalculateInnerMatrices mesh) ! tetIndex
       = (tetrahedrons mesh ! tetIndex)\<lparr>matrix :=
            toMatrix3x4 (Inverse (edgeMatrix (vertices mesh) (tetrahedrons mesh ! tetIndex)))\<rparr>"
  using assms
    fold_update_nth(2) [of "innerCell (vertices mesh)"
      "\<lambda>t. t\<lparr>matrix := toMatrix3x4 (Inverse (edgeMatrix (vertices mesh) t))\<rparr>"
      tetIndex "tetrahedrons mesh" 0 "numInnerTetrahedrons mesh"]
  by (simp add: CalculateInnerMatrices_def innerCell_def)

text \<open>
  Claim C9. For an inner cell whose four corners are affinely independent, the matrix that
  \<^verbatim>\<open>CalculateInnerMatrices\<close> stores is the inverse of the matrix \<open>E\<close> whose columns are
  the edge vectors \<open>p1 - p0\<close>, \<open>p2 - p0\<close>, \<open>p3 - p0\<close> (its product with \<open>E\<close> on either side
  is the identity). Applied to \<open>p1 - p0\<close>, \<open>p2 - p0\<close>, \<open>p3 - p0\<close> it gives the three unit
  vectors, and applied to \<open>p0 - p0\<close> the zero vector. Arithmetic is exact here; the source
  computes in single precision.
\<close>

theorem inner_matrix_inverse:
  fixes mesh tetIndex
  defines "t \<equiv> tetrahedrons mesh ! tetIndex"
  defines "p \<equiv> corner (vertices mesh) t"
  defines "E \<equiv> Matrix3 (vx (vsub (p 1) (p 0))) (vx (vsub (p 2) (p 0))) (vx (vsub (p 3) (p 0)))
                        (vy (vsub (p 1) (p 0))) (vy (vsub (p 2) (p 0))) (vy (vsub (p 3) (p 0)))
                        (vz (vsub (p 1) (p 0))) (vz (vsub (p 2) (p 0))) (vz (vsub (p 3) (p 0)))"
  defines "M \<equiv> matrix (tetrahedrons (CalculateInnerMatrices mesh) ! tetIndex)"
  assumes inner: "tetIndex < numInnerTetrahedrons mesh" "tetIndex < length (tetrahedrons mesh)"
    and ind: "affinelyIndependent (p 0) (p 1) (p 2) (p 3)"
  shows "M = toMatrix3x4 (Inverse E)
       \<and> multiply3 (Inverse E) E = IDENTITY \<and> multiply3 E (Inverse E) = IDENTITY
       \<and> ApplyMatrix M (vsub (p 1) (p 0)) = Vector3 1 0 0
       \<and> ApplyMatrix M (vsub (p 2) (p 0)) = Vector3 0 1 0
       \<and> ApplyMatrix M (vsub (p 3) (p 0)) = Vector3 0 0 1
       \<and> ApplyMatrix M (vsub (p 0) (p 0)) = Vector3 0 0 0"
proof -
  have E: "E = edgeMatrix (vertices mesh) t"
    by (simp add: E_def edgeMatrix_def Let_def p_def)
  have d: "Determinant E \<noteq> 0"
    using ind by (simp add: E Determinant_edgeMatrix affinelyIndependent_def p_def)
  have M: "M = toMatrix3x4 (Inverse E)"
    using CalculateInnerMatrices_nth [OF inner] by (simp add: M_def E t_def)
  have l: "multiply3 (Inverse E) E = IDENTITY" and r: "multiply3 E (Inverse E) = IDENTITY"
    using d by (rule Inverse_left, rule Inverse_right)
  have c: "ApplyMatrix M (vsub (p 1) (p 0)) = Vector3 1 0 0"
    "ApplyMatrix M (vsub (p 2) (p 0)) = Vector3 0 1 0"
    "ApplyMatrix M (vsub (p 3) (p 0)) = Vector3 0 0 1"
    using ApplyMatrix_columns [of "Inverse E" E]
    unfolding l unfolding E edgeMatrix_columns M
    by (simp_all add: IDENTITY_def p_def E)
  show ?thesis
    using M l r c by (simp add: ApplyMatrix_zero)
qed

theorem inner_matrix_inverse_witness:
  "matrix (tetrahedrons (CalculateInnerMatrices (unitMesh [])) ! 0)
      = toMatrix3x4 (Inverse (Matrix3 1 0 0 0 1 0 0 0 1))
   \<and> ApplyMatrix (matrix (tetrahedrons (CalculateInnerMatrices (unitMesh [])) ! 0)) (Vector3 0 1 0)
      = Vector3 0 1 0
   \<and> ApplyMatrix (matrix (tetrahedrons (CalculateInnerMatrices (unitMesh [])) ! 0)) (Vector3 0 0 0)
      = Vector3 0 0 0"
proof -
  have t: "tetrahedrons (unitMesh []) ! 0 = unitCell" "vertices (unitMesh []) = unitVertices"
    "numInnerTetrahedrons (unitMesh []) = 1" "length (tetrahedrons (unitMesh [])) = 1"
    by (simp_all add: unitMesh_def)
  have a: "affinelyIndependent (corner unitVertices unitCell 0) (corner unitVertices unitCell 1)
      (corner unitVertices unitCell 2) (corner unitVertices unitCell 3)"
    by (simp add: affinelyIndependent_def corner_unitCell vsub_def CrossProduct_def DotProduct_def)
  note r = inner_matrix_inverse [of 0 "unitMesh []", unfolded t, OF _ _ a, unfolded corner_unitCell vsub_def, simplified]
  show ?thesis
    using r [THEN conjunct1] r [THEN conjunct2, THEN conjunct2, THEN conjunct2, THEN conjunct2, THEN conjunct1]
      r [THEN conjunct2, THEN conjunct2, THEN conjunct2, THEN conjunct2, THEN conjunct2, THEN conjunct2]
    by simp
qed

lemma setNeighbor_indices:
  "k < length ts \<Longrightarrow> indices (setNeighbor ts a f n ! k) = indices (ts ! k)"
  by (simp add: setNeighbor_nth)

lemma outerCell_props:
  assumes "k < length ts"
  shows "length (outerCell numInner hs k ts) = length ts"
    and "indices (outerCell numInner hs k ts ! k) =
          [face_indices (faces hs ! (k - numInner)) ! 0, face_indices (faces hs ! (k - numInner)) ! 1,
           face_indices (faces hs ! (k - numInner)) ! 2, Infinity3]"
    and "\<And>j. j < length ts \<Longrightarrow> j \<noteq> k \<Longrightarrow> indices (outerCell numInner hs k ts ! j) = indices (ts ! j)"
  using assms by (simp_all add: outerCell_def Let_def setNeighbor_indices)

lemma fold_outerCell:
  assumes "b \<le> length ts"
  shows "length (fold (outerCell numInner hs) [a..<b] ts) = length ts
       \<and> (\<forall>k<length ts. a \<le> k \<and> k < b \<longrightarrow>
            indices (fold (outerCell numInner hs) [a..<b] ts ! k) =
              [face_indices (faces hs ! (k - numInner)) ! 0, face_indices (faces hs ! (k - numInner)) ! 1,
               face_indices (faces hs ! (k - numInner)) ! 2, Infinity3])"
  using assms
proof (induction b)
  case 0
  then show ?case by simp
next
  case (Suc b)
  show ?case
  proof (cases "a \<le> b")
    case False
    then show ?thesis by auto
  next
    case True
    define ys where "ys = fold (outerCell numInner hs) [a..<b] ts"
    have l: "length ys = length ts"
      and n: "\<And>k. k < length ts \<Longrightarrow> a \<le> k \<Longrightarrow> k < b \<Longrightarrow> indices (ys ! k) =
              [face_indices (faces hs ! (k - numInner)) ! 0, face_indices (faces hs ! (k - numInner)) ! 1,
               face_indices (faces hs ! (k - numInner)) ! 2, Infinity3]"
      using Suc by (simp_all add: ys_def)
    have f: "fold (outerCell numInner hs) [a..<Suc b] ts = outerCell numInner hs b ys"
      using True by (simp add: ys_def)
    have b: "b < length ys"
      using Suc.prems l by simp
    have "indices (outerCell numInner hs b ys ! k) =
              [face_indices (faces hs ! (k - numInner)) ! 0, face_indices (faces hs ! (k - numInner)) ! 1,
               face_indices (faces hs ! (k - numInner)) ! 2, Infinity3]"
      if k: "k < length ts" "a \<le> k" "k < Suc b" for k
    proof (cases "k = b")
      case True
      then show ?thesis
        using outerCell_props(2) [OF b] by simp
    next
      case False
      then show ?thesis
        using outerCell_props(3) [OF b, of k] k l n [of k] by simp
    qed
    then show ?thesis
      unfolding f using outerCell_props(1) [OF b] l by simp
  qed
qed

lemma BuildOuterTetrahedrons_props:
  fixes fresh mesh hullSurface
  defines "mesh1 \<equiv> BuildOuterTetrahedrons fresh mesh hullSurface"
  shows "numInnerTetrahedrons mesh1 = length (tetrahedrons mesh)"
    and "length (tetrahedrons mesh1) = length (tetrahedrons mesh) + Size_surface hullSurface"
    and "vertices mesh1 = vertices mesh" and "hullNormals mesh1 = hullNormals mesh"
    and "\<And>k. numInnerTetrahedrons mesh1 \<le> k \<Longrightarrow> k < length (tetrahedrons mesh1) \<Longrightarrow>
          indices (tetrahedrons mesh1 ! k) =
            [face_indices (faces hullSurface ! (k - length (tetrahedrons mesh))) ! 0,
             face_indices (faces hullSurface ! (k - length (tetrahedrons mesh))) ! 1,
             face_indices (faces hullSurface ! (k - length (tetrahedrons mesh))) ! 2, Infinity3]"
  using fold_outerCell [of "length (tetrahedrons mesh @ replicate (Size_surface hullSurface) fresh)"
      "tetrahedrons mesh @ replicate (Size_surface hullSurface) fresh"
      "length (tetrahedrons mesh)" hullSurface "length (tetrahedrons mesh)"]
  by (simp_all add: mesh1_def BuildOuterTetrahedrons_def Let_def)

lemma CalculateInnerMatrices_frame:
  "length (tetrahedrons (CalculateInnerMatrices mesh)) = length (tetrahedrons mesh)"
  "numInnerTetrahedrons (CalculateInnerMatrices mesh) = numInnerTetrahedrons mesh"
  "vertices (CalculateInnerMatrices mesh) = vertices mesh"
  "hullNormals (CalculateInnerMatrices mesh) = hullNormals mesh"
  "k < length (tetrahedrons mesh) \<Longrightarrow>
     indices (tetrahedrons (CalculateInnerMatrices mesh) ! k) = indices (tetrahedrons mesh ! k)"
  using fold_update_nth(1) [where step = "innerCell (vertices mesh)"
      and g = "\<lambda>t. t\<lparr>matrix := toMatrix3x4 (Inverse (edgeMatrix (vertices mesh) t))\<rparr>"
      and xs = "tetrahedrons mesh" and a = 0 and b = "numInnerTetrahedrons mesh"]
    fold_update_nth(2) [where step = "innerCell (vertices mesh)"
      and g = "\<lambda>t. t\<lparr>matrix := toMatrix3x4 (Inverse (edgeMatrix (vertices mesh) t))\<rparr>"
      and xs = "tetrahedrons mesh" and a = 0 and b = "numInnerTetrahedrons mesh" and k = k]
  by (simp_all add: CalculateInnerMatrices_def innerCell_def)

lemma CalculateOuterMatrices_nth:
  assumes "numInnerTetrahedrons mesh \<le> tetIndex" "tetIndex < length (tetrahedrons mesh)"
  shows "tetrahedrons (CalculateOuterMatrices e mesh) ! tetIndex =
    (let tetrahedron = tetrahedrons mesh ! tetIndex;
         m = outerMatrix (vertices mesh) (hullNormals mesh) tetrahedron;
         a = leadingCoefficient (hullNormals mesh) tetrahedron
     in if \<bar>a\<bar> > e then tetrahedron\<lparr>matrix := scaleMatrix m (1 / a)\<rparr>
        else tetrahedron\<lparr>matrix := m, indices := (indices tetrahedron)[3 := Infinity2]\<rparr>)"
  using assms
    fold_update_nth(2) [of "outerMatrixCell e (vertices mesh) (hullNormals mesh)"
      "\<lambda>tetrahedron. (let m = outerMatrix (vertices mesh) (hullNormals mesh) tetrahedron;
         a = leadingCoefficient (hullNormals mesh) tetrahedron
     in if \<bar>a\<bar> > e then tetrahedron\<lparr>matrix := scaleMatrix m (1 / a)\<rparr>
        else tetrahedron\<lparr>matrix := m, indices := (indices tetrahedron)[3 := Infinity2]\<rparr>)"
      tetIndex "tetrahedrons mesh" "numInnerTetrahedrons mesh" "length (tetrahedrons mesh)"]
  by (simp add: CalculateOuterMatrices_def outerMatrixCell_def Let_def)

text \<open>
  Claim C8. For every outer cell, as \<^verbatim>\<open>BuildOuterTetrahedrons\<close> builds it (its corner 3 is
  \<^verbatim>\<open>Infinity3\<close>) and \<^verbatim>\<open>CalculateInnerMatrices\<close> leaves it, \<^verbatim>\<open>CalculateOuterMatrices\<close>
  branches on the leading coefficient \<open>a\<close>: when \<open>|a|\<close> exceeds \<^verbatim>\<open>M_EPSILON\<close> every
  one of the twelve entries of the matrix is the computed entry times \<open>1 / a\<close> and corner 3
  stays \<^verbatim>\<open>Infinity3\<close>; otherwise
  the matrix is the computed matrix, unscaled, and corner 3 is \<^verbatim>\<open>Infinity2\<close>. In both
  cases the three real corners and the neighbours stay, and the function returns the mesh:
  there is no error branch.
\<close>

theorem outer_matrix_branches:
  fixes M_EPSILON fresh mesh hullSurface tetIndex
  defines "mesh2 \<equiv> CalculateInnerMatrices (BuildOuterTetrahedrons fresh mesh hullSurface)"
  defines "t \<equiv> tetrahedrons mesh2 ! tetIndex"
  defines "a \<equiv> leadingCoefficient (hullNormals mesh2) t"
    and "m \<equiv> outerMatrix (vertices mesh2) (hullNormals mesh2) t"
  defines "t' \<equiv> tetrahedrons (CalculateOuterMatrices M_EPSILON mesh2) ! tetIndex"
  assumes outer: "numInnerTetrahedrons mesh2 \<le> tetIndex" "tetIndex < length (tetrahedrons mesh2)"
  shows "indices t ! 3 = Infinity3
       \<and> (\<bar>a\<bar> > M_EPSILON \<longrightarrow>
            m00 (matrix t') = m00 m * (1 / a) \<and> m01 (matrix t') = m01 m * (1 / a) \<and>
            m02 (matrix t') = m02 m * (1 / a) \<and> m03 (matrix t') = m03 m * (1 / a) \<and>
            m10 (matrix t') = m10 m * (1 / a) \<and> m11 (matrix t') = m11 m * (1 / a) \<and>
            m12 (matrix t') = m12 m * (1 / a) \<and> m13 (matrix t') = m13 m * (1 / a) \<and>
            m20 (matrix t') = m20 m * (1 / a) \<and> m21 (matrix t') = m21 m * (1 / a) \<and>
            m22 (matrix t') = m22 m * (1 / a) \<and> m23 (matrix t') = m23 m * (1 / a)
            \<and> indices t' ! 3 = Infinity3)
       \<and> (\<bar>a\<bar> \<le> M_EPSILON \<longrightarrow> matrix t' = m \<and> indices t' ! 3 = Infinity2)
       \<and> take 3 (indices t') = take 3 (indices t) \<and> neighbors t' = neighbors t"
proof -
  define mesh1 where "mesh1 = BuildOuterTetrahedrons fresh mesh hullSurface"
  have o1: "numInnerTetrahedrons mesh1 \<le> tetIndex" "tetIndex < length (tetrahedrons mesh1)"
    using outer by (simp_all add: mesh2_def mesh1_def CalculateInnerMatrices_frame)
  have i: "indices t =
            [face_indices (faces hullSurface ! (tetIndex - length (tetrahedrons mesh))) ! 0,
             face_indices (faces hullSurface ! (tetIndex - length (tetrahedrons mesh))) ! 1,
             face_indices (faces hullSurface ! (tetIndex - length (tetrahedrons mesh))) ! 2, Infinity3]"
    using BuildOuterTetrahedrons_props(5) [OF o1 [unfolded mesh1_def]] o1
    by (simp add: t_def mesh2_def CalculateInnerMatrices_frame mesh1_def)
  have t': "t' = (if \<bar>a\<bar> > M_EPSILON then t\<lparr>matrix := scaleMatrix m (1 / a)\<rparr>
        else t\<lparr>matrix := m, indices := (indices t)[3 := Infinity2]\<rparr>)"
    using CalculateOuterMatrices_nth [OF outer, of M_EPSILON]
    by (simp add: t'_def t_def a_def m_def Let_def)
  show ?thesis
    by (simp add: t' i scaleMatrix_def)
qed

lemma exOuter_cell:
  fixes normals
  defines "mesh2 \<equiv> CalculateInnerMatrices (BuildOuterTetrahedrons exFresh (unitMesh normals) exHull)"
  shows "numInnerTetrahedrons mesh2 = 1" and "length (tetrahedrons mesh2) = 5"
    and "hullNormals mesh2 = normals"
    and "indices (tetrahedrons mesh2 ! 2) = [0, 2, 3, Infinity3]"
proof -
  have s: "Size_surface exHull = 4" "length (tetrahedrons (unitMesh normals)) = 1"
    "hullNormals (unitMesh normals) = normals"
    by (simp_all add: Size_surface_def exHull_def unitMesh_def)
  note b = BuildOuterTetrahedrons_props [of exFresh "unitMesh normals" exHull, unfolded s]
  show "numInnerTetrahedrons mesh2 = 1" "length (tetrahedrons mesh2) = 5" "hullNormals mesh2 = normals"
    using b(1,2,4) by (simp_all add: mesh2_def CalculateInnerMatrices_frame)
  have "indices (tetrahedrons (BuildOuterTetrahedrons exFresh (unitMesh normals) exHull) ! 2)
      = [0, 2, 3, Infinity3]"
    using b(5) [of 2] b(1,2) by (simp add: exHull_def)
  then show "indices (tetrahedrons mesh2 ! 2) = [0, 2, 3, Infinity3]"
    using b(2) by (simp add: mesh2_def CalculateInnerMatrices_frame)
qed

lemma leadingCoefficient_steep:
  "indices t = [0, 2, 3, Infinity3] \<Longrightarrow> leadingCoefficient steepNormals t = 2"
  by (simp add: leadingCoefficient_def steepNormals_def Let_def vsub_def vscale_def)

lemma leadingCoefficient_parallel:
  "indices t = [0, 2, 3, Infinity3] \<Longrightarrow> leadingCoefficient parallelNormals t = 0"
  by (simp add: leadingCoefficient_def parallelNormals_def Let_def vsub_def vscale_def)

lemma outerMatrix_m20:
  "indices t = [0, 2, 3, Infinity3] \<Longrightarrow> m20 (outerMatrix unitVertices normals t) = 1"
  by (simp add: outerMatrix_def unitVertices_def Let_def vsub_def)

lemma outerMatrix_m00_steep:
  "indices t = [0, 2, 3, Infinity3] \<Longrightarrow> m00 (outerMatrix unitVertices steepNormals t) = 5"
  by (simp add: outerMatrix_def steepNormals_def Let_def vsub_def)

theorem outer_matrix_branches_witness:
  "indices (tetrahedrons (CalculateOuterMatrices (1 / 1000000)
      (CalculateInnerMatrices (BuildOuterTetrahedrons exFresh (unitMesh steepNormals) exHull))) ! 2) ! 3
     = Infinity3
   \<and> m20 (matrix (tetrahedrons (CalculateOuterMatrices (1 / 1000000)
      (CalculateInnerMatrices (BuildOuterTetrahedrons exFresh (unitMesh steepNormals) exHull))) ! 2))
     = 1 / 2
   \<and> m00 (matrix (tetrahedrons (CalculateOuterMatrices (1 / 1000000)
      (CalculateInnerMatrices (BuildOuterTetrahedrons exFresh (unitMesh steepNormals) exHull))) ! 2))
     = 5 / 2
   \<and> indices (tetrahedrons (CalculateOuterMatrices (1 / 1000000)
      (CalculateInnerMatrices (BuildOuterTetrahedrons exFresh (unitMesh parallelNormals) exHull))) ! 2) ! 3
     = Infinity2
   \<and> m20 (matrix (tetrahedrons (CalculateOuterMatrices (1 / 1000000)
      (CalculateInnerMatrices (BuildOuterTetrahedrons exFresh (unitMesh parallelNormals) exHull))) ! 2))
     = 1"
proof -
  have v: "vertices (CalculateInnerMatrices (BuildOuterTetrahedrons exFresh (unitMesh normals) exHull))
      = unitVertices" for normals
    by (simp add: CalculateInnerMatrices_frame BuildOuterTetrahedrons_props unitMesh_def)
  have 1: "indices (tetrahedrons (CalculateOuterMatrices (1 / 1000000)
      (CalculateInnerMatrices (BuildOuterTetrahedrons exFresh (unitMesh steepNormals) exHull))) ! 2) ! 3
     = Infinity3
   \<and> m20 (matrix (tetrahedrons (CalculateOuterMatrices (1 / 1000000)
      (CalculateInnerMatrices (BuildOuterTetrahedrons exFresh (unitMesh steepNormals) exHull))) ! 2))
     = 1 / 2
   \<and> m00 (matrix (tetrahedrons (CalculateOuterMatrices (1 / 1000000)
      (CalculateInnerMatrices (BuildOuterTetrahedrons exFresh (unitMesh steepNormals) exHull))) ! 2))
     = 5 / 2"
    using outer_matrix_branches [of exFresh "unitMesh steepNormals" exHull 2 "1 / 1000000"]
    by (simp add: exOuter_cell leadingCoefficient_steep outerMatrix_m20 outerMatrix_m00_steep v)
  have 2: "indices (tetrahedrons (CalculateOuterMatrices (1 / 1000000)
      (CalculateInnerMatrices (BuildOuterTetrahedrons exFresh (unitMesh parallelNormals) exHull))) ! 2) ! 3
     = Infinity2
   \<and> m20 (matrix (tetrahedrons (CalculateOuterMatrices (1 / 1000000)
      (CalculateInnerMatrices (BuildOuterTetrahedrons exFresh (unitMesh parallelNormals) exHull))) ! 2))
     = 1"
    using outer_matrix_branches [of exFresh "unitMesh parallelNormals" exHull 2 "1 / 1000000"]
    by (simp add: exOuter_cell leadingCoefficient_parallel outerMatrix_m20 v)
  show ?thesis
    using 1 2 by simp
qed


end
